theory Spec2Isabelle
  imports Complex_Main "HOL-Library.Multiset"
begin

section \<open>Python errors as values\<close>

text \<open>
  The notebooks are Python. Every exception the glue code can raise is a value of
  \<open>error\<close>; a computation that may raise returns \<open>error + 'a\<close>, with \<open>Inl\<close> for
  the exception. Floating-point numbers are modelled as real numbers: rounding, NaN and
  the infinities are outside the model, except for the initial \<open>best_loss = np.inf\<close>,
  which is the value \<open>None\<close> of a \<open>real option\<close>.
\<close>

datatype error =
    NameError string
  | AttributeError string
  | TypeError
  | UnboundLocalError string
  | ZeroDivisionError
  | IndexError
  | ValueError
  | RuntimeError

definition bindE :: "error + 'a \<Rightarrow> ('a \<Rightarrow> error + 'b) \<Rightarrow> error + 'b" where
  "bindE r f = (case r of Inl e \<Rightarrow> Inl e | Inr v \<Rightarrow> f v)"

section \<open>Library functions the notebooks call\<close>

subsection \<open>numpy\<close>

definition np_mean :: "real list \<Rightarrow> real" where
  "np_mean xs = sum_list xs / real (length xs)"

definition np_std :: "real list \<Rightarrow> real" where
  "np_std xs = sqrt (np_mean (map (\<lambda>x. (x - np_mean xs)\<^sup>2) xs))"

text \<open>Fancy indexing \<open>a[idx]\<close> with an index array; an index out of range raises.\<close>

definition gather :: "'a list \<Rightarrow> nat list \<Rightarrow> error + 'a list" where
  "gather xs idx =
     (if list_all (\<lambda>j. j < length xs) idx then Inr (map (\<lambda>j. xs ! j) idx)
      else Inl IndexError)"

text \<open>The assignment \<open>M[i, k] = v\<close> on a two-dimensional array.\<close>

definition assign2 :: "real list list \<Rightarrow> nat \<Rightarrow> nat \<Rightarrow> real \<Rightarrow> error + real list list" where
  "assign2 M i k v =
     (if i < length M \<and> k < length (M ! i) then Inr (M[i := (M ! i)[k := v]])
      else Inl IndexError)"

text \<open>\<open>np.mean(M, axis=0)\<close> and \<open>np.std(M, axis=0)\<close> of an array with \<open>n\<close> columns.\<close>

definition column :: "real list list \<Rightarrow> nat \<Rightarrow> real list" where
  "column M k = map (\<lambda>row. row ! k) M"

definition mean_axis0 :: "nat \<Rightarrow> real list list \<Rightarrow> real list" where
  "mean_axis0 n M = map (\<lambda>k. np_mean (column M k)) [0..<n]"

definition std_axis0 :: "nat \<Rightarrow> real list list \<Rightarrow> real list" where
  "std_axis0 n M = map (\<lambda>k. np_std (column M k)) [0..<n]"

text \<open>\<open>np.arange(start, stop, step)\<close> for a positive step.\<close>

definition arange :: "real \<Rightarrow> real \<Rightarrow> real \<Rightarrow> real list" where
  "arange start stop step =
     map (\<lambda>k. start + real k * step) [0..<nat \<lceil>(stop - start) / step\<rceil>]"

subsection \<open>scikit-learn metrics\<close>

text \<open>
  \<open>mean_absolute_error\<close> and \<open>mean_squared_error\<close> raise \<open>ValueError\<close> on arrays of
  different lengths and on empty arrays.
\<close>

definition mean_absolute_error :: "real list \<Rightarrow> real list \<Rightarrow> error + real" where
  "mean_absolute_error y_true y_pred =
     (if length y_true \<noteq> length y_pred \<or> y_true = [] then Inl ValueError
      else Inr (np_mean (map2 (\<lambda>t p. \<bar>t - p\<bar>) y_true y_pred)))"

definition mean_squared_error :: "real list \<Rightarrow> real list \<Rightarrow> error + real" where
  "mean_squared_error y_true y_pred =
     (if length y_true \<noteq> length y_pred \<or> y_true = [] then Inl ValueError
      else Inr (np_mean (map2 (\<lambda>t p. (t - p)\<^sup>2) y_true y_pred)))"

subsection \<open>scipy.stats.norm\<close>

text \<open>
  \<open>norm(mu, std).logpdf(x)\<close> is computed by scipy as
  \<open>_norm_logpdf((x - loc) / scale) - log(scale)\<close> with
  \<open>_norm_logpdf(z) = -z**2 / 2 - log(sqrt(2 pi))\<close>. For \<open>scale \<le> 0\<close> scipy returns
  NaN, which the real-valued model does not have: the model is scipy's on \<open>0 < std\<close>.
\<close>

definition norm_logpdf :: "real \<Rightarrow> real \<Rightarrow> real \<Rightarrow> real" where
  "norm_logpdf mu std x = - (((x - mu) / std)\<^sup>2) / 2 - ln (sqrt (2 * pi)) - ln std"


subsection \<open>torch\<close>

text \<open>\<open>torch.nn.MSELoss()\<close> with its default mean reduction.\<close>

definition mse_loss :: "real list \<Rightarrow> real list \<Rightarrow> real" where
  "mse_loss input target = np_mean (map2 (\<lambda>p t. (p - t)\<^sup>2) input target)"

text \<open>
  \<open>preds.mean(axis=0)\<close> and \<open>preds.var(axis=0)\<close> of the stacked samples. torch's
  \<open>var\<close> applies Bessel's correction: it divides by the number of samples minus one
  (and is NaN for a single sample, where the model's division by zero is \<open>0\<close>).
\<close>

definition torch_var :: "real list \<Rightarrow> real" where
  "torch_var xs = sum_list (map (\<lambda>x. (x - np_mean xs)\<^sup>2) xs) / (real (length xs) - 1)"

definition stack_mean :: "real list list \<Rightarrow> real list" where
  "stack_mean preds = map (\<lambda>j. np_mean (column preds j)) [0..<length (hd preds)]"

definition stack_var :: "real list list \<Rightarrow> real list" where
  "stack_var preds = map (\<lambda>j. torch_var (column preds j)) [0..<length (hd preds)]"

section \<open>Bayesian GNN notebook: the helper functions\<close>

text \<open>
  \<^verbatim>\<open>
  def nlpd(y, y_pred, y_std):
      nld = 0
      for y_true, mu, std in zip(y.ravel(), y_pred.ravel(), y_std.ravel()):
          nld  += -norm(mu, std).logpdf(y_true)
      return nld / len(y)
  \<close>
  With no element \<open>nld\<close> is still the Python integer \<open>0\<close> and \<open>len(y)\<close> is \<open>0\<close>: the
  division raises.
\<close>

fun nlpd_loop :: "real \<Rightarrow> (real \<times> real \<times> real) list \<Rightarrow> real" where
  "nlpd_loop nld [] = nld"
| "nlpd_loop nld ((y_true, mu, std) # rest) =
     nlpd_loop (nld + - norm_logpdf mu std y_true) rest"

definition nlpd :: "real list \<Rightarrow> real list \<Rightarrow> real list \<Rightarrow> error + real" where
  "nlpd y y_pred y_std =
     (if length y = 0 then Inl ZeroDivisionError
      else Inr (nlpd_loop 0 (zip y (zip y_pred y_std)) / real (length y)))"

text \<open>
  \<^verbatim>\<open>
  def predict(regressor, X, samples = 100):
      preds = [regressor(X)[0] for i in range(samples)]
      preds = torch.stack(preds)
      means = preds.mean(axis=0)
      var = preds.var(axis=0)
      return means, var
  \<close>
  A forward pass of the network is stochastic: \<open>forward\<close> takes the state \<open>'g\<close> of
  torch's random number generator and returns the new one. \<open>torch.stack\<close> raises on an
  empty list and on tensors of different shapes.
\<close>

fun sample_preds ::
  "('m \<Rightarrow> 'd \<Rightarrow> 'g \<Rightarrow> real list \<times> 'g) \<Rightarrow> 'm \<Rightarrow> 'd \<Rightarrow> nat \<Rightarrow> 'g \<Rightarrow> real list list \<times> 'g" where
  "sample_preds forward regressor X 0 g = ([], g)"
| "sample_preds forward regressor X (Suc k) g =
     (let (p, g1) = forward regressor X g;
          (ps, g2) = sample_preds forward regressor X k g1
      in (p # ps, g2))"

definition default_samples :: nat where
  "default_samples = 100"

definition predict ::
  "('m \<Rightarrow> 'd \<Rightarrow> 'g \<Rightarrow> real list \<times> 'g) \<Rightarrow> 'm \<Rightarrow> 'd \<Rightarrow> nat \<Rightarrow> 'g
     \<Rightarrow> error + ((real list \<times> real list) \<times> 'g)" where
  "predict forward regressor X samples g =
     (let (preds, g') = sample_preds forward regressor X samples g
      in if preds = [] then Inl RuntimeError
         else if list_ex (\<lambda>p. length p \<noteq> length (hd preds)) preds then Inl RuntimeError
         else Inr ((stack_mean preds, stack_var preds), g'))"

text \<open>
  \<^verbatim>\<open>
  def graph_append_label(X, y, device):
      G = []
      for g, label in zip(X, y):
          g.y = label
          g = g.to(device)
          G.append(g)
      return G
  \<close>
  A labelled graph is the pair of the graph and its label. (The Python stores the label
  in the graph object itself; every graph of the dataset gets a new label in every trial
  before it is read, so no label of an earlier trial is ever seen.)
\<close>

definition graph_append_label :: "'x list \<Rightarrow> real list \<Rightarrow> ('x \<times> real) list" where
  "graph_append_label X y = zip X y"

section \<open>The libraries as parameters\<close>

text \<open>
  The numerical components are imported, not implemented in the notebooks. The glue
  code is modelled over a record of the operations it calls:
  \<^item> \<open>n_test_samples test_size n\<close>: the size of the test set scikit-learn computes for
    \<open>n\<close> samples (\<open>ceil(test_size * n)\<close> in double precision);
  \<^item> \<open>permutation seed n\<close>: \<open>np.random.RandomState(seed).permutation(n)\<close>, a function
    of the seed, and \<open>global_permutation g n\<close>: a permutation drawn from the global
    generator in state \<open>g\<close>, with the generator's new state;
  \<^item> \<open>transform_data\<close> of \<open>gauche.dataloader.data_utils\<close> (not among the sources):
    it returns the scaled inputs and labels of the train and test sets and the label
    scaler; \<open>inverse_transform\<close> is the scaler's;
  \<^item> \<open>argsort\<close>: \<open>np.argsort\<close>; \<open>r2_score\<close>: scikit-learn's.
\<close>

record ('f, 'sc, 'g) base_lib =
  n_test_samples :: "real \<Rightarrow> nat \<Rightarrow> nat"
  permutation :: "nat \<Rightarrow> nat \<Rightarrow> nat list"
  global_permutation :: "'g \<Rightarrow> nat \<Rightarrow> nat list \<times> 'g"
  transform_data ::
    "'f list \<Rightarrow> real list \<Rightarrow> 'f list \<Rightarrow> real list
       \<Rightarrow> 'f list \<times> real list \<times> 'f list \<times> real list \<times> 'sc"
  inverse_transform :: "'sc \<Rightarrow> real list \<Rightarrow> real list"
  argsort :: "real list \<Rightarrow> nat list"
  r2_score :: "real list \<Rightarrow> real list \<Rightarrow> real"

text \<open>
  The Bayesian GNN notebook adds the network: \<open>init_model\<close> builds
  \<open>BayesianGNN(gnn_type='gin')\<close> with its Adam optimizer (random initial weights),
  \<open>train_step kld_beta model data\<close> is one optimizer step on a batch (zero the
  gradients, forward pass, \<open>loss = mse_loss + kl * kld_beta / batch_size\<close>, backward
  pass, step) and returns the new network with the batch's \<open>mse_loss\<close> and \<open>kl\<close>,
  \<open>forward model data\<close> is the first component of one stochastic forward pass, and
  \<open>eval_mode model\<close> is the network after \<open>model.eval()\<close>.
\<close>

record ('x, 'm, 'sc, 'g) bnn_lib = "(real, 'sc, 'g) base_lib" +
  init_model :: "'g \<Rightarrow> 'm \<times> 'g"
  train_step :: "real \<Rightarrow> 'm \<Rightarrow> ('x \<times> real) list \<Rightarrow> 'g \<Rightarrow> ('m \<times> real \<times> real) \<times> 'g"
  forward :: "'m \<Rightarrow> ('x \<times> real) list \<Rightarrow> 'g \<Rightarrow> real list \<times> 'g"
  eval_mode :: "'m \<Rightarrow> 'm"

text \<open>
  The GP notebooks add the Gaussian process: \<open>as_tensor\<close> is
  \<open>torch.tensor(X.astype(np.float64))\<close>, \<open>gp_fit\<close> builds \<open>ExactGPModel\<close> on the
  training tensors and fits its hyperparameters with \<open>fit_gpytorch_model\<close>, and
  \<open>gp_posterior model X\<close> is the mean and the variance of \<open>model(X)\<close>.
\<close>

record ('x, 't, 'gp, 'sc, 'g) gp_lib = "('x, 'sc, 'g) base_lib" +
  as_tensor :: "'x list \<Rightarrow> 't"
  gp_fit :: "'t \<Rightarrow> real list \<Rightarrow> 'gp"
  gp_posterior :: "'gp \<Rightarrow> 't \<Rightarrow> real list \<times> real list"

section \<open>The code the three evaluation loops share\<close>

text \<open>
  \<open>train_test_split(X, y, test_size=test_size, random_state=random_state)\<close>, as
  scikit-learn's \<open>ShuffleSplit\<close> computes it: the test set is the first \<open>n_test\<close>
  entries of a permutation of the indices and the training set the \<open>n_train\<close> entries
  after them; an empty training set raises \<open>ValueError\<close>. With a seed the permutation is
  that of a fresh \<open>RandomState(seed)\<close> and the global generator is untouched.
\<close>

definition split_indices ::
  "('f, 'sc, 'g, 'z) base_lib_scheme \<Rightarrow> nat \<Rightarrow> real \<Rightarrow> nat option \<Rightarrow> 'g
     \<Rightarrow> error + ((nat list \<times> nat list) \<times> 'g)" where
  "split_indices lib n_samples test_size random_state g =
     (let n_test = n_test_samples lib test_size n_samples;
          n_train = n_samples - n_test
      in if n_train = 0 then Inl ValueError
         else
           let (perm, g') =
                 (case random_state of
                    Some seed \<Rightarrow> (permutation lib seed n_samples, g)
                  | None \<Rightarrow> global_permutation lib g n_samples);
               ind_test = take n_test perm;
               ind_train = take n_train (drop n_test perm)
           in Inr ((ind_train, ind_test), g'))"

definition train_test_split ::
  "('f, 'sc, 'g, 'z) base_lib_scheme \<Rightarrow> 'a list \<Rightarrow> 'b list \<Rightarrow> real \<Rightarrow> nat option \<Rightarrow> 'g
     \<Rightarrow> error + (('a list \<times> 'a list \<times> 'b list \<times> 'b list) \<times> 'g)" where
  "train_test_split lib X y test_size random_state g =
     (if length y \<noteq> length X then Inl ValueError
      else
        bindE (split_indices lib (length X) test_size random_state g)
          (\<lambda>((ind_train, ind_test), g').
             Inr ((map (\<lambda>j. X ! j) ind_train, map (\<lambda>j. X ! j) ind_test,
                   map (\<lambda>j. y ! j) ind_train, map (\<lambda>j. y ! j) ind_test), g')))"

text \<open>A Python \<open>for\<close> loop over a list, with the body's exception ending the loop.\<close>

fun for_each :: "('a \<Rightarrow> 's \<Rightarrow> error + 's) \<Rightarrow> 'a list \<Rightarrow> 's \<Rightarrow> error + 's" where
  "for_each body [] s = Inr s"
| "for_each body (x # xs) s = bindE (body x s) (for_each body xs)"

text \<open>
  \<^verbatim>\<open>
  ranked_confidence_list = np.argsort(y_var, axis=0).flatten()
  for k in range(len(y_test)):
      conf = ranked_confidence_list[0:k+1]
      mae = mean_absolute_error(y_test[conf], y_pred[conf])
      mae_confidence_list[i, k] = mae
  \<close>
\<close>

definition confidence_step ::
  "real list \<Rightarrow> real list \<Rightarrow> nat list \<Rightarrow> nat \<Rightarrow> nat \<Rightarrow> real list list \<Rightarrow> error + real list list" where
  "confidence_step y_test y_pred ranked_confidence_list i k M =
     (let conf = take (k + 1) ranked_confidence_list
      in bindE (gather y_test conf) (\<lambda>a.
         bindE (gather y_pred conf) (\<lambda>b.
         bindE (mean_absolute_error a b) (\<lambda>mae.
         assign2 M i k mae))))"

definition confidence_loop ::
  "real list \<Rightarrow> real list \<Rightarrow> nat list \<Rightarrow> nat \<Rightarrow> real list list \<Rightarrow> error + real list list" where
  "confidence_loop y_test y_pred ranked_confidence_list i M =
     for_each (confidence_step y_test y_pred ranked_confidence_list i) [0..<length y_test] M"

text \<open>
  \<^verbatim>\<open>
  score = r2_score(y_test, y_pred)
  rmse = np.sqrt(mean_squared_error(y_test, y_pred))
  mae = mean_absolute_error(y_test, y_pred)
  \<close>
\<close>

definition test_scores ::
  "('f, 'sc, 'g, 'z) base_lib_scheme \<Rightarrow> real list \<Rightarrow> real list \<Rightarrow> error + (real \<times> real \<times> real)" where
  "test_scores lib y_test y_pred =
     (let score = r2_score lib y_test y_pred
      in bindE (mean_squared_error y_test y_pred) (\<lambda>mse.
         let rmse = sqrt mse
         in bindE (mean_absolute_error y_test y_pred) (\<lambda>mae.
            Inr (score, rmse, mae))))"

text \<open>
  The printed summary of a metric: \<open>np.mean(xs)\<close> and \<open>np.std(xs)/np.sqrt(len(xs))\<close>.
\<close>

definition summary :: "real list \<Rightarrow> real \<times> real" where
  "summary xs = (np_mean xs, np_std xs / sqrt (real (length xs)))"

text \<open>
  \<^verbatim>\<open>
  confidence_percentiles = np.arange(1e-14, 100, 100/len(y_test))
  mae_mean = np.mean(mae_confidence_list, axis=0)
  mae_std = np.std(mae_confidence_list, axis=0)
  mae_mean = np.flip(mae_mean)
  mae_std = np.flip(mae_std)
  lower = mae_mean - mae_std
  upper = mae_mean + mae_std
  plt.plot(confidence_percentiles, mae_mean, label='mean')
  plt.fill_between(confidence_percentiles, lower, upper, alpha=0.2)
  \<close>
  \<open>y_test\<close> is the variable the last trial left (the one of the size-finding split
  when there was no trial); \<open>n_test\<close> is the number of columns of
  \<open>mae_confidence_list\<close>.
\<close>

record curve =
  confidence_percentiles :: "real list"
  mae_mean :: "real list"
  mae_std :: "real list"
  lower :: "real list"
  upper :: "real list"

definition confidence_curve :: "real list \<Rightarrow> nat \<Rightarrow> real list list \<Rightarrow> error + curve" where
  "confidence_curve y_test n_test M =
     (if length y_test = 0 then Inl ZeroDivisionError
      else
        let percentiles = arange (1 / 10 ^ 14) 100 (100 / real (length y_test));
            mean0 = mean_axis0 n_test M;
            std0 = std_axis0 n_test M;
            mean1 = rev mean0;
            std1 = rev std0
        in Inr \<lparr>confidence_percentiles = percentiles, mae_mean = mean1, mae_std = std1,
                lower = map2 (\<lambda>m s. m - s) mean1 std1,
                upper = map2 (\<lambda>m s. m + s) mean1 std1\<rparr>)"

text \<open>
  What a run does, in order: the size-finding split before the loop, and per trial the
  split, the training epochs with their validation passes (Bayesian GNN) or the fit (GP),
  the prediction on the test set, the metrics, and at the end the summary and the plot.
\<close>

datatype event =
    SizeSplit
  | Split nat
  | TrainEpoch nat nat
  | Validate nat nat
  | Fit nat
  | Predict nat
  | Nlpd nat
  | Confidence nat
  | TrainPredict nat
  | Scores nat
  | Summary
  | Plot curve

section \<open>Bayesian GNN notebook: \<open>evaluate_model\<close>\<close>

definition test_set_size :: real where
  "test_set_size = 2 / 10"

definition batch_size :: nat where
  "batch_size = 32"

definition patience :: nat where
  "patience = 50"

text \<open>
  \<open>DataLoader(G_train, batch_size=batch_size, shuffle=True, drop_last=True)\<close>: every
  pass over it draws a new permutation from the global generator and yields the full
  batches only, so \<open>len(dataloader_train)\<close> is \<open>len(G_train) // batch_size\<close>.
\<close>

definition dataloader_train :: "('f, 'sc, 'g, 'z) base_lib_scheme \<Rightarrow> 'a list \<Rightarrow> 'g \<Rightarrow> 'a list list \<times> 'g" where
  "dataloader_train lib G g =
     (let (perm, g') = global_permutation lib g (length G)
      in (map (\<lambda>b. map (\<lambda>j. G ! j) (take batch_size (drop (b * batch_size) perm)))
            [0..<length G div batch_size], g'))"

text \<open>
  The inner loop of an epoch:
  \<^verbatim>\<open>
  for data in dataloader_train:
      optimizer.zero_grad()
      output, kl = model(data)
      target = torch.tensor(np.array(data.y), dtype=torch.float, device=device)
      mse_loss = criterion(output, target)
      loss = mse_loss + kl * kld_beta / batch_size
      loss.backward()
      optimizer.step()
      running_mse_loss += mse_loss.detach().cpu().numpy()
      running_kld_loss += kl.detach().cpu().numpy()
      running_loss += loss.detach().cpu().numpy()
  \<close>
\<close>

record running =
  running_kld_loss :: real
  running_mse_loss :: real
  running_loss :: real

fun train_batches ::
  "('x, 'm, 'sc, 'g, 'z) bnn_lib_scheme \<Rightarrow> real \<Rightarrow> ('x \<times> real) list list
     \<Rightarrow> 'm \<times> running \<times> 'g \<Rightarrow> 'm \<times> running \<times> 'g" where
  "train_batches lib kld_beta [] s = s"
| "train_batches lib kld_beta (data # rest) (model, r, g) =
     (let ((model', mse, kl), g') = train_step lib kld_beta model data g;
          loss = mse + kl * kld_beta / real batch_size
      in train_batches lib kld_beta rest
           (model',
            \<lparr>running_kld_loss = running_kld_loss r + kl,
             running_mse_loss = running_mse_loss r + mse,
             running_loss = running_loss r + loss\<rparr>,
            g'))"

text \<open>
  The variables of the epoch loop. \<open>best_loss = None\<close> is \<open>np.inf\<close>;
  \<open>best_model = None\<close> is the variable not yet bound (it is a local variable of
  \<open>evaluate_model\<close>, so a trial starts with the value the previous trial left).
  \<open>val_losses\<close> and \<open>snapshots\<close> record, for every epoch run, the validation loss the
  progress bar shows and the network after that epoch's training; \<open>ls_events\<close> records
  what the loop did.
\<close>

record ('m, 'g) loop_state =
  ls_model :: 'm
  ls_rng :: 'g
  ls_status :: "string \<rightharpoonup> real"
  best_loss :: "real option"
  best_model :: "'m option"
  count :: nat
  val_losses :: "real list"
  snapshots :: "'m list"
  ls_events :: "event list"

text \<open>
  \<open>best_loss > val_loss\<close> for a validation loss that is a number, with \<open>np.inf\<close>
  (\<open>None\<close>) above every such loss. The losses of the model are reals: it describes the
  runs whose validation losses are finite. (For a NaN or infinite \<open>val_loss\<close> the
  comparison of the code is false in every epoch: no copy of the network is made and
  \<open>best_model\<close> keeps the value the previous trial left.)
\<close>

definition loss_gt :: "real option \<Rightarrow> real \<Rightarrow> bool" where
  "loss_gt best v = (case best of None \<Rightarrow> True | Some b \<Rightarrow> b > v)"

text \<open>
  One epoch up to its validation loss: the pass over \<open>dataloader_train\<close>, the status
  update (whose divisions by \<open>len(dataloader_train)\<close> raise when the training set has
  fewer than \<open>batch_size\<close> graphs: the running sums are then still the integer \<open>0\<close>),
  and the validation pass over the single batch of \<open>dataloader_test\<close>:
  \<^verbatim>\<open>
  status.update({'Epoch': epoch, 'loss': running_loss/len(dataloader_train),
                 'kl': running_kld_loss/len(dataloader_train),
                 'mse': running_mse_loss/len(dataloader_train)})
  ...
  with torch.no_grad():
      for data in dataloader_test:
          y_pred, y_var = predict(model, data)
          target = torch.tensor(np.array(data.y), dtype=torch.float, device=device)
          val_loss = criterion(y_pred, target)
          val_loss = val_loss.detach().cpu().numpy()
          status.update({'val_loss': val_loss})
  \<close>
\<close>

definition run_epoch ::
  "('x, 'm, 'sc, 'g, 'z) bnn_lib_scheme \<Rightarrow> real \<Rightarrow> ('x \<times> real) list \<Rightarrow> ('x \<times> real) list
     \<Rightarrow> nat \<Rightarrow> nat \<Rightarrow> ('m, 'g) loop_state \<Rightarrow> error + (('m, 'g) loop_state \<times> real)" where
  "run_epoch lib kld_beta G_train G_test trial epoch s =
     (let (batches, g1) = dataloader_train lib G_train (ls_rng s);
          (model1, r, g2) =
             train_batches lib kld_beta batches
               (ls_model s,
                \<lparr>running_kld_loss = 0, running_mse_loss = 0, running_loss = 0\<rparr>, g1)
      in if length batches = 0 then Inl ZeroDivisionError
         else
           let status1 = (ls_status s)
                 (''Epoch'' \<mapsto> real epoch,
                  ''loss'' \<mapsto> running_loss r / real (length batches),
                  ''kl'' \<mapsto> running_kld_loss r / real (length batches),
                  ''mse'' \<mapsto> running_mse_loss r / real (length batches))
           in bindE (predict (forward lib) model1 G_test default_samples g2)
                (\<lambda>((y_pred, y_var), g3).
                   let target = map snd G_test;
                       val_loss = mse_loss y_pred target
                   in Inr (s\<lparr>ls_model := model1, ls_rng := g3,
                              ls_status := status1(''val_loss'' \<mapsto> val_loss),
                              val_losses := val_losses s @ [val_loss],
                              snapshots := snapshots s @ [model1],
                              ls_events := ls_events s @ [TrainEpoch trial epoch, Validate trial epoch]\<rparr>,
                           val_loss)))"

text \<open>
  \<^verbatim>\<open>
  if best_loss > val_loss:
      best_loss = val_loss
      best_model = copy.deepcopy(model)
      count = 0
  else:
      count += 1
  \<close>
\<close>

definition early_stopping :: "('m, 'g) loop_state \<Rightarrow> real \<Rightarrow> ('m, 'g) loop_state" where
  "early_stopping s val_loss =
     (if loss_gt (best_loss s) val_loss
      then s\<lparr>best_loss := Some val_loss, best_model := Some (ls_model s), count := 0\<rparr>
      else s\<lparr>count := count s + 1\<rparr>)"

text \<open>
  \<open>for epoch in range(n_epochs)\<close>, with \<open>if count >= patience: break\<close> at the end of
  the body. The result is the state of the variables and whether the loop was left by
  \<open>break\<close>. \<open>epoch_loop ... epoch k\<close> runs the epochs \<open>epoch, ..., epoch + k - 1\<close>.
\<close>

fun epoch_loop ::
  "('x, 'm, 'sc, 'g, 'z) bnn_lib_scheme \<Rightarrow> real \<Rightarrow> ('x \<times> real) list \<Rightarrow> ('x \<times> real) list
     \<Rightarrow> nat \<Rightarrow> nat \<Rightarrow> nat \<Rightarrow> ('m, 'g) loop_state \<Rightarrow> error + (('m, 'g) loop_state \<times> bool)" where
  "epoch_loop lib kld_beta G_train G_test trial epoch 0 s = Inr (s, False)"
| "epoch_loop lib kld_beta G_train G_test trial epoch (Suc k) s =
     bindE (run_epoch lib kld_beta G_train G_test trial epoch s) (\<lambda>(s1, val_loss).
       let s2 = early_stopping s1 val_loss
       in if count s2 \<ge> patience then Inr (s2, True)
          else epoch_loop lib kld_beta G_train G_test trial (Suc epoch) k s2)"

text \<open>
  What a trial leaves behind: the values of its variables, named as in the code (with
  \<open>_split\<close> for the output of \<open>train_test_split\<close>, \<open>_std\<close> for the standardized
  labels and predictions, and no suffix for the arrays after \<open>inverse_transform\<close>).
\<close>

record ('x, 'm, 'sc, 'g) bnn_trial =
  bt_ind_train :: "nat list"
  bt_ind_test :: "nat list"
  bt_X_train :: "'x list"
  bt_X_test :: "'x list"
  bt_y_train_split :: "real list"
  bt_y_test_split :: "real list"
  bt_y_scaler :: 'sc
  bt_y_train_std :: "real list"
  bt_y_test_std :: "real list"
  bt_loop :: "('m, 'g) loop_state"
  bt_break :: bool
  bt_best_model :: 'm
  bt_model :: 'm
  bt_y_pred_std :: "real list"
  bt_y_var :: "real list"
  bt_uq_nlpd :: real
  bt_y_pred :: "real list"
  bt_y_test :: "real list"
  bt_ranked_confidence_list :: "nat list"
  bt_score :: real
  bt_rmse :: real
  bt_mae :: real

text \<open>The variables of \<open>evaluate_model\<close> that live across the trials.\<close>

record ('x, 'm, 'sc, 'g) bnn_state =
  bs_rng :: 'g
  bs_best_model :: "'m option"
  bs_y_test :: "real list"
  bs_r2_list :: "real list"
  bs_rmse_list :: "real list"
  bs_mae_list :: "real list"
  bs_nlpd_list :: "real list"
  bs_mae_confidence_list :: "real list list"
  bs_events :: "event list"
  bs_trials :: "('x, 'm, 'sc, 'g) bnn_trial list"

text \<open>
  The first half of the body of \<open>for i in range(0, n_trials)\<close>: the split, the
  standardization of the labels, the labelled graphs, a new network, the epoch loop and
  \<open>model = best_model\<close>. In the body, \<open>model.eval()\<close> then switches that network to
  evaluation mode; \<open>best_model\<close> names the same object.
\<close>

definition bnn_train ::
  "('x, 'm, 'sc, 'g, 'z) bnn_lib_scheme \<Rightarrow> ('x \<times> real) list \<Rightarrow> ('x \<times> real) list \<Rightarrow> nat \<Rightarrow> real
     \<Rightarrow> nat \<Rightarrow> 'g \<Rightarrow> 'm option \<Rightarrow> event list
     \<Rightarrow> error + ('m \<times> ('m, 'g) loop_state \<times> bool)" where
  "bnn_train lib G_train G_test n_epochs kld_beta i g best_model_var evs =
     (let (model0, g1) = init_model lib g;
          s0 = \<lparr>ls_model = model0, ls_rng = g1, ls_status = Map.empty,
                best_loss = None, best_model = best_model_var, count = 0,
                val_losses = [], snapshots = [], ls_events = evs\<rparr>
      in bindE (epoch_loop lib kld_beta G_train G_test i 0 n_epochs s0) (\<lambda>(s, broke).
           case best_model s of
             None \<Rightarrow> Inl (UnboundLocalError ''best_model'')
           | Some model \<Rightarrow> Inr (model, s, broke)))"

definition bnn_trial_body ::
  "('x, 'm, 'sc, 'g, 'z) bnn_lib_scheme \<Rightarrow> 'x list \<Rightarrow> real list \<Rightarrow> nat \<Rightarrow> real
     \<Rightarrow> nat \<Rightarrow> ('x, 'm, 'sc, 'g) bnn_state \<Rightarrow> error + ('x, 'm, 'sc, 'g) bnn_state" where
  "bnn_trial_body lib X y n_epochs kld_beta i st =
     bindE (split_indices lib (length X) test_set_size (Some i) (bs_rng st))
       (\<lambda>((ind_train, ind_test), _).
     bindE (train_test_split lib X y test_set_size (Some i) (bs_rng st))
       (\<lambda>((X_train, X_test, y_train_split, y_test_split), g0).
     let (_, y_train, _, y_test, y_scaler) =
           transform_data lib y_train_split y_train_split y_test_split y_test_split;
         G_train = graph_append_label X_train y_train;
         G_test = graph_append_label X_test y_test
     in bindE (bnn_train lib G_train G_test n_epochs kld_beta i g0 (bs_best_model st)
                 (bs_events st @ [Split i]))
       (\<lambda>(best, s, broke).
     let model = eval_mode lib best
     in bindE (predict (forward lib) model G_test 100 (ls_rng s))
       (\<lambda>((y_pred_std, y_var), g2).
     bindE (nlpd y_test y_pred_std (map sqrt y_var))
       (\<lambda>uq_nlpd.
     let y_pred = inverse_transform lib y_scaler y_pred_std;
         y_test' = inverse_transform lib y_scaler y_test;
         ranked_confidence_list = argsort lib y_var
     in bindE (confidence_loop y_test' y_pred ranked_confidence_list i
                 (bs_mae_confidence_list st))
       (\<lambda>M.
     bindE (test_scores lib y_test' y_pred)
       (\<lambda>(score, rmse, mae).
     Inr \<lparr>bs_rng = g2,
          bs_best_model = Some model,
          bs_y_test = y_test',
          bs_r2_list = bs_r2_list st @ [score],
          bs_rmse_list = bs_rmse_list st @ [rmse],
          bs_mae_list = bs_mae_list st @ [mae],
          bs_nlpd_list = bs_nlpd_list st @ [uq_nlpd],
          bs_mae_confidence_list = M,
          bs_events = ls_events s @ [Predict i, Nlpd i, Confidence i, Scores i],
          bs_trials = bs_trials st @
            [\<lparr>bt_ind_train = ind_train, bt_ind_test = ind_test,
              bt_X_train = X_train, bt_X_test = X_test,
              bt_y_train_split = y_train_split, bt_y_test_split = y_test_split,
              bt_y_scaler = y_scaler,
              bt_y_train_std = y_train, bt_y_test_std = y_test,
              bt_loop = s, bt_break = broke, bt_best_model = best, bt_model = model,
              bt_y_pred_std = y_pred_std, bt_y_var = y_var, bt_uq_nlpd = uq_nlpd,
              bt_y_pred = y_pred, bt_y_test = y_test',
              bt_ranked_confidence_list = ranked_confidence_list,
              bt_score = score, bt_rmse = rmse, bt_mae = mae\<rparr>]\<rparr>)))))))"

text \<open>
  The whole function. Before the loop a split without a seed finds the size of the test
  set (\<open>_, y_test = train_test_split(y, test_size=test_set_size)\<close>) and
  \<open>mae_confidence_list = np.zeros((n_trials, n_test))\<close>; after the loop the metric
  lists are summarized and the confidence-error curve is plotted. The function returns
  the \<open>results\<close> dictionary; the model returns the final variables with it. Of the
  plot the model has the arrays that are plotted, not the calls of matplotlib (with no
  trial at all these arrays are NaN and \<open>plt.ylim\<close> rejects them: the model describes
  the runs with at least one trial).
\<close>

record results =
  res_curve :: curve
  res_mae :: "real list"
  res_rmse :: "real list"
  res_r2 :: "real list"
  res_nlpd :: "real list"
  res_summary_r2 :: "real \<times> real"
  res_summary_rmse :: "real \<times> real"
  res_summary_mae :: "real \<times> real"
  res_summary_nlpd :: "real \<times> real"
  res_events :: "event list"

definition bnn_evaluate_model ::
  "('x, 'm, 'sc, 'g, 'z) bnn_lib_scheme \<Rightarrow> 'x list \<Rightarrow> real list \<Rightarrow> nat \<Rightarrow> nat \<Rightarrow> real \<Rightarrow> 'g
     \<Rightarrow> error + (results \<times> ('x, 'm, 'sc, 'g) bnn_state)" where
  "bnn_evaluate_model lib X y n_epochs n_trials kld_beta g =
     bindE (train_test_split lib y y test_set_size None g)
       (\<lambda>((_, _, _, y_test), g1).
     let n_test = length y_test;
         st0 = \<lparr>bs_rng = g1, bs_best_model = None, bs_y_test = y_test,
                bs_r2_list = [], bs_rmse_list = [], bs_mae_list = [], bs_nlpd_list = [],
                bs_mae_confidence_list = replicate n_trials (replicate n_test 0),
                bs_events = [SizeSplit], bs_trials = []\<rparr>
     in bindE (for_each (bnn_trial_body lib X y n_epochs kld_beta) [0..<n_trials] st0)
       (\<lambda>st.
     bindE (confidence_curve (bs_y_test st) n_test (bs_mae_confidence_list st))
       (\<lambda>c.
     Inr (\<lparr>res_curve = c,
           res_mae = bs_mae_list st, res_rmse = bs_rmse_list st,
           res_r2 = bs_r2_list st, res_nlpd = bs_nlpd_list st,
           res_summary_r2 = summary (bs_r2_list st),
           res_summary_rmse = summary (bs_rmse_list st),
           res_summary_mae = summary (bs_mae_list st),
           res_summary_nlpd = summary (bs_nlpd_list st),
           res_events = bs_events st @ [Summary, Plot c]\<rparr>, st))))"

section \<open>GP regression notebooks: \<open>evaluate_model\<close>\<close>

text \<open>
  The molecule notebook and the bag-of-amino-acids notebook define the same function
  (they differ in the axis label of the plot). \<open>n_trials\<close> and \<open>test_set_size\<close> are
  global variables of the notebook, set by the cell
  \<^verbatim>\<open>
  n_trials = 20
  test_set_size = 0.2
  \<close>
  and are parameters of the model.
\<close>

definition gp_n_trials :: nat where
  "gp_n_trials = 20"

record ('x, 't, 'gp, 'sc) gp_trial =
  gt_ind_train :: "nat list"
  gt_ind_test :: "nat list"
  gt_X_train_split :: "'x list"
  gt_X_test_split :: "'x list"
  gt_y_train_split :: "real list"
  gt_y_test_split :: "real list"
  gt_y_scaler :: 'sc
  gt_X_train :: 't
  gt_X_test :: 't
  gt_y_train_std :: "real list"
  gt_y_test_std :: "real list"
  gt_model :: 'gp
  gt_y_pred_std :: "real list"
  gt_y_var :: "real list"
  gt_y_pred :: "real list"
  gt_y_test :: "real list"
  gt_ranked_confidence_list :: "nat list"
  gt_train_rmse_stan :: real
  gt_train_rmse :: real
  gt_score :: real
  gt_rmse :: real
  gt_mae :: real

record ('x, 't, 'gp, 'sc, 'g) gp_state =
  gs_rng :: 'g
  gs_y_test :: "real list"
  gs_r2_list :: "real list"
  gs_rmse_list :: "real list"
  gs_mae_list :: "real list"
  gs_mae_confidence_list :: "real list list"
  gs_events :: "event list"
  gs_trials :: "('x, 't, 'gp, 'sc) gp_trial list"

text \<open>
  The body of \<open>for i in range(0, n_trials)\<close>:
  \<^verbatim>\<open>
  X_train, X_test, y_train, y_test = train_test_split(X, y, test_size=test_set_size, random_state=i)
  #  We standardise the outputs but leave the inputs unchanged
  _, y_train, _, y_test, y_scaler = transform_data(X_train, y_train, X_test, y_test)
  X_train = torch.tensor(X_train.astype(np.float64))
  X_test = torch.tensor(X_test.astype(np.float64))
  ...
  model = ExactGPModel(X_train, y_train, likelihood)
  ...
  fit_gpytorch_model(mll)
  ...
  f_pred = model(X_test)
  y_pred = f_pred.mean
  y_var = f_pred.variance
  y_pred = y_scaler.inverse_transform(y_pred.detach().unsqueeze(dim=1))
  y_test = y_scaler.inverse_transform(y_test.detach().unsqueeze(dim=1))
  \<close>
  then the confidence loop, the RMSE on the training set (computed and not used) and
  the scores on the test set.
\<close>

definition gp_trial_body ::
  "('x, 't, 'gp, 'sc, 'g, 'z) gp_lib_scheme \<Rightarrow> real \<Rightarrow> 'x list \<Rightarrow> real list
     \<Rightarrow> nat \<Rightarrow> ('x, 't, 'gp, 'sc, 'g) gp_state \<Rightarrow> error + ('x, 't, 'gp, 'sc, 'g) gp_state" where
  "gp_trial_body lib test_size X y i st =
     bindE (split_indices lib (length X) test_size (Some i) (gs_rng st))
       (\<lambda>((ind_train, ind_test), _).
     bindE (train_test_split lib X y test_size (Some i) (gs_rng st))
       (\<lambda>((X_train_split, X_test_split, y_train_split, y_test_split), g0).
     let (_, y_train, _, y_test, y_scaler) =
           transform_data lib X_train_split y_train_split X_test_split y_test_split;
         X_train = as_tensor lib X_train_split;
         X_test = as_tensor lib X_test_split;
         model = gp_fit lib X_train y_train;
         (y_pred_std, y_var) = gp_posterior lib model X_test;
         y_pred = inverse_transform lib y_scaler y_pred_std;
         y_test' = inverse_transform lib y_scaler y_test;
         ranked_confidence_list = argsort lib y_var
     in bindE (confidence_loop y_test' y_pred ranked_confidence_list i
                 (gs_mae_confidence_list st))
       (\<lambda>M.
     let y_pred_train = fst (gp_posterior lib model X_train)
     in bindE (mean_squared_error y_train y_pred_train)
       (\<lambda>mse_stan.
     bindE (mean_squared_error (inverse_transform lib y_scaler y_train)
                               (inverse_transform lib y_scaler y_pred_train))
       (\<lambda>mse_train.
     bindE (test_scores lib y_test' y_pred)
       (\<lambda>(score, rmse, mae).
     Inr \<lparr>gs_rng = g0,
          gs_y_test = y_test',
          gs_r2_list = gs_r2_list st @ [score],
          gs_rmse_list = gs_rmse_list st @ [rmse],
          gs_mae_list = gs_mae_list st @ [mae],
          gs_mae_confidence_list = M,
          gs_events = gs_events st @
            [Split i, Fit i, Predict i, Confidence i, TrainPredict i, Scores i],
          gs_trials = gs_trials st @
            [\<lparr>gt_ind_train = ind_train, gt_ind_test = ind_test,
              gt_X_train_split = X_train_split, gt_X_test_split = X_test_split,
              gt_y_train_split = y_train_split, gt_y_test_split = y_test_split,
              gt_y_scaler = y_scaler,
              gt_X_train = X_train, gt_X_test = X_test,
              gt_y_train_std = y_train, gt_y_test_std = y_test,
              gt_model = model, gt_y_pred_std = y_pred_std, gt_y_var = y_var,
              gt_y_pred = y_pred, gt_y_test = y_test',
              gt_ranked_confidence_list = ranked_confidence_list,
              gt_train_rmse_stan = sqrt mse_stan, gt_train_rmse = sqrt mse_train,
              gt_score = score, gt_rmse = rmse, gt_mae = mae\<rparr>]\<rparr>))))))"

record gp_report =
  gr_curve :: curve
  gr_summary_r2 :: "real \<times> real"
  gr_summary_rmse :: "real \<times> real"
  gr_summary_mae :: "real \<times> real"
  gr_events :: "event list"

definition gp_evaluate_model ::
  "('x, 't, 'gp, 'sc, 'g, 'z) gp_lib_scheme \<Rightarrow> nat \<Rightarrow> real \<Rightarrow> 'x list \<Rightarrow> real list \<Rightarrow> 'g
     \<Rightarrow> error + (gp_report \<times> ('x, 't, 'gp, 'sc, 'g) gp_state)" where
  "gp_evaluate_model lib n_trials test_size X y g =
     bindE (train_test_split lib X y test_size None g)
       (\<lambda>((_, _, _, y_test), g1).
     let n_test = length y_test;
         st0 = \<lparr>gs_rng = g1, gs_y_test = y_test,
                gs_r2_list = [], gs_rmse_list = [], gs_mae_list = [],
                gs_mae_confidence_list = replicate n_trials (replicate n_test 0),
                gs_events = [SizeSplit], gs_trials = []\<rparr>
     in bindE (for_each (gp_trial_body lib test_size X y) [0..<n_trials] st0)
       (\<lambda>st.
     bindE (confidence_curve (gs_y_test st) n_test (gs_mae_confidence_list st))
       (\<lambda>c.
     Inr (\<lparr>gr_curve = c,
           gr_summary_r2 = summary (gs_r2_list st),
           gr_summary_rmse = summary (gs_rmse_list st),
           gr_summary_mae = summary (gs_mae_list st),
           gr_events = gs_events st @ [Summary, Plot c]\<rparr>, st))))"

section \<open>A notebook as cells run on a fresh kernel\<close>

text \<open>
  The continuous-integration workflow runs every notebook from its first cell on a fresh
  kernel (\<open>pytest --nbval-lax notebooks/\<close>). For name resolution a statement is the list
  of global names it loads, in evaluation order, and the names it binds. A name is
  looked up in the notebook's namespace and then among the builtins; a name in neither
  raises \<open>NameError\<close>. Calling a function defined in the notebook loads the global names
  of its body at the time of the call. A name bound to a numpy array has the attributes
  of an array only and cannot be called: \<open>Attr x a\<close> loads \<open>x\<close> and then its attribute \<open>a\<close>, which raises
  \<open>AttributeError\<close> when \<open>x\<close> is an array without it; \<open>Bind\<close> is an assignment that
  says which targets it binds to arrays.
\<close>

datatype binding = Obj | Func "string list" | Ndarray

datatype load = Name string | Call string | Attr string string

datatype stmt =
    Import "string list"
  | Def string "string list"
  | Assign "string list" "load list"
  | Bind "(string \<times> binding) list" "load list"
  | Expr "load list"

type_synonym namespace = "(string \<times> binding) list"

definition builtins :: "string list" where
  "builtins = [''print'', ''len'', ''range'', ''list'']"

definition lookup :: "namespace \<Rightarrow> string \<Rightarrow> error + binding" where
  "lookup ns x =
     (case map_of ns x of
        Some b \<Rightarrow> Inr b
      | None \<Rightarrow> if x \<in> set builtins then Inr Obj else Inl (NameError x))"

text \<open>The attributes of \<open>numpy.ndarray\<close> that the notebooks use.\<close>

definition ndarray_attributes :: "string list" where
  "ndarray_attributes = [''reshape'', ''astype'', ''flatten'', ''shape'']"

fun load_names :: "namespace \<Rightarrow> string list \<Rightarrow> error + unit" where
  "load_names ns [] = Inr ()"
| "load_names ns (x # xs) = bindE (lookup ns x) (\<lambda>_. load_names ns xs)"

fun eval_loads :: "namespace \<Rightarrow> load list \<Rightarrow> error + unit" where
  "eval_loads ns [] = Inr ()"
| "eval_loads ns (Name x # ls) = bindE (lookup ns x) (\<lambda>_. eval_loads ns ls)"
| "eval_loads ns (Call f # ls) =
     bindE (lookup ns f) (\<lambda>b.
     bindE (eval_loads ns ls) (\<lambda>_.
       case b of Obj \<Rightarrow> Inr () | Func body \<Rightarrow> load_names ns body
       | Ndarray \<Rightarrow> Inl TypeError))"
| "eval_loads ns (Attr x a # ls) =
     bindE (lookup ns x) (\<lambda>b.
       case b of
         Ndarray \<Rightarrow> if a \<in> set ndarray_attributes then eval_loads ns ls
                    else Inl (AttributeError a)
       | _ \<Rightarrow> eval_loads ns ls)"

fun exec_stmt :: "namespace \<Rightarrow> stmt \<Rightarrow> error + namespace" where
  "exec_stmt ns (Import xs) = Inr (map (\<lambda>x. (x, Obj)) xs @ ns)"
| "exec_stmt ns (Def f body) = Inr ((f, Func body) # ns)"
| "exec_stmt ns (Assign targets ls) =
     bindE (eval_loads ns ls) (\<lambda>_. Inr (map (\<lambda>x. (x, Obj)) targets @ ns))"
| "exec_stmt ns (Bind targets ls) = bindE (eval_loads ns ls) (\<lambda>_. Inr (targets @ ns))"
| "exec_stmt ns (Expr ls) = bindE (eval_loads ns ls) (\<lambda>_. Inr ns)"

fun exec_stmts :: "namespace \<Rightarrow> stmt list \<Rightarrow> error + namespace" where
  "exec_stmts ns [] = Inr ns"
| "exec_stmts ns (s # ss) = bindE (exec_stmt ns s) (\<lambda>ns'. exec_stmts ns' ss)"

text \<open>
  The bag-of-amino-acids notebook up to its data-loading cell: the imports, the device
  cell, the definition of \<open>bag_of_amino_acids\<close> and the cell that loads the dataset.
\<close>

definition boaa_imports :: "stmt list" where
  "boaa_imports =
     [Import [''warnings''], Expr [Name ''warnings''],
      Import [''sys''], Expr [Name ''sys''],
      Import [''fit_gpytorch_model''],
      Import [''SingleTaskGP''],
      Import [''Normalize'', ''Standardize''],
      Import [''MIN_INFERRED_NOISE_LEVEL''],
      Import [''gpytorch''],
      Import [''GreaterThan''],
      Import [''ScaleKernel''],
      Import [''GaussianLikelihood''],
      Import [''ExactMarginalLogLikelihood''],
      Import [''GammaPrior''],
      Import [''plt''],
      Import [''np''],
      Import [''pd''],
      Import [''CountVectorizer''],
      Import [''train_test_split''],
      Import [''r2_score'', ''mean_squared_error'', ''mean_absolute_error''],
      Import [''torch''],
      Import [''transform_data''],
      Import [''TanimotoKernel'']]"

definition boaa_device :: "stmt list" where
  "boaa_device =
     [Assign [''device''] [Name ''torch'', Name ''torch'', Name ''torch''],
      Assign [''tkwargs''] [Name ''torch'', Name ''device''],
      Expr [Name ''print'', Name ''tkwargs'']]"

definition boaa_featurizer :: "stmt list" where
  "boaa_featurizer = [Def ''bag_of_amino_acids'' [''CountVectorizer'']]"

definition boaa_load_data :: "stmt list" where
  "boaa_load_data =
     [Assign [''df''] [Name ''pd''],
      Assign [''sequences''] [Name ''df''],
      Assign [''X''] [Call ''bag_of_characters'', Name ''sequences''],
      Assign [''y''] [Name ''df''],
      Expr [Name ''print'', Name ''len'', Name ''sequences'', Name ''len'', Name ''y'']]"

text \<open>The data-loading cell as it would read with the name the notebook defines.\<close>

definition boaa_load_data_defined_name :: "stmt list" where
  "boaa_load_data_defined_name =
     [Assign [''df''] [Name ''pd''],
      Assign [''sequences''] [Name ''df''],
      Assign [''X''] [Call ''bag_of_amino_acids'', Name ''sequences''],
      Assign [''y''] [Name ''df''],
      Expr [Name ''print'', Name ''len'', Name ''sequences'', Name ''len'', Name ''y'']]"

section \<open>Terms in which the properties are stated\<close>

text \<open>
  The state of the random number generator after one forward pass, so that
  \<open>(rng_after forward m X ^^ k) g\<close> is its state after \<open>k\<close> passes.
\<close>

definition rng_after :: "('m \<Rightarrow> 'd \<Rightarrow> 'g \<Rightarrow> real list \<times> 'g) \<Rightarrow> 'm \<Rightarrow> 'd \<Rightarrow> 'g \<Rightarrow> 'g" where
  "rng_after fwd m X g = snd (fwd m X g)"

text \<open>
  Early stopping, in terms of the validation losses \<open>L\<close> of the epochs run:
  \<open>best_before L j\<close> is the best loss seen before epoch \<open>j\<close> (\<open>None\<close>, that is
  \<open>np.inf\<close>, before the first epoch); epoch \<open>j\<close> improves when its loss is strictly
  below it; \<open>argmin_first L\<close> is the first epoch that reached the lowest loss; and
  \<open>stale_window L e\<close> says that epoch \<open>e\<close> is the last of \<open>patience\<close> consecutive
  epochs without an improvement.
\<close>

definition best_before :: "real list \<Rightarrow> nat \<Rightarrow> real option" where
  "best_before L j = (if j = 0 then None else Some (Min (set (take j L))))"

definition improves :: "real list \<Rightarrow> nat \<Rightarrow> bool" where
  "improves L j = loss_gt (best_before L j) (L ! j)"

definition argmin_first :: "real list \<Rightarrow> nat" where
  "argmin_first L = length (takeWhile (\<lambda>v. v \<noteq> Min (set L)) L)"

definition stale_window :: "real list \<Rightarrow> nat \<Rightarrow> bool" where
  "stale_window L e \<longleftrightarrow>
     patience \<le> e + 1 \<and> e < length L \<and> list_all (\<lambda>j. \<not> improves L j) [e + 1 - patience..<e + 1]"

text \<open>What holds of the variables of the epoch loop after every epoch.\<close>

definition loop_inv :: "('m, 'g) loop_state \<Rightarrow> bool" where
  "loop_inv s \<longleftrightarrow>
     (let L = val_losses s in
      length (snapshots s) = length L \<and>
      best_loss s = best_before L (length L) \<and>
      (L \<noteq> [] \<longrightarrow> best_model s = Some (snapshots s ! argmin_first L)) \<and>
      count s \<le> length L \<and>
      (L \<noteq> [] \<longrightarrow> count s < length L \<and> improves L (length L - 1 - count s)) \<and>
      (\<forall>j. length L - count s \<le> j \<and> j < length L \<longrightarrow> \<not> improves L j))"

text \<open>
  What the properties assume of the libraries: the permutations are permutations of the
  indices, \<open>transform_data\<close> and \<open>inverse_transform\<close> keep the number of labels,
  \<open>argsort\<close> returns the indices in ascending order of the values, the network returns
  one prediction per graph and the GP posterior one mean and one variance per row.
\<close>

definition base_ok :: "('f, 'sc, 'g, 'z) base_lib_scheme \<Rightarrow> bool" where
  "base_ok lib \<longleftrightarrow>
     (\<forall>seed n. mset (permutation lib seed n) = mset [0..<n]) \<and>
     (\<forall>g n. mset (fst (global_permutation lib g n)) = mset [0..<n]) \<and>
     (\<forall>Xa ya Xb yb.
        length (fst (snd (transform_data lib Xa ya Xb yb))) = length ya \<and>
        length (fst (snd (snd (snd (transform_data lib Xa ya Xb yb))))) = length yb) \<and>
     (\<forall>sc v. length (inverse_transform lib sc v) = length v) \<and>
     (\<forall>v. mset (argsort lib v) = mset [0..<length v]) \<and>
     (\<forall>v. sorted (map (\<lambda>j. v ! j) (argsort lib v)))"

definition bnn_ok :: "('x, 'm, 'sc, 'g, 'z) bnn_lib_scheme \<Rightarrow> bool" where
  "bnn_ok lib \<longleftrightarrow> base_ok lib \<and> (\<forall>m G g. length (fst (forward lib m G g)) = length G)"

definition gp_ok :: "('x, 't, 'gp, 'sc, 'g, 'z) gp_lib_scheme \<Rightarrow> bool" where
  "gp_ok lib \<longleftrightarrow>
     base_ok lib \<and>
     (\<forall>m X. length (fst (gp_posterior lib m (as_tensor lib X))) = length X \<and>
            length (snd (gp_posterior lib m (as_tensor lib X))) = length X)"

text \<open>
  What they assume of the dataset: as many labels as inputs, a test set that is not
  empty and, for the GP notebooks, a training set that is not empty; for the Bayesian
  GNN, a training set of at least one full batch.
\<close>

definition gp_data_ok :: "('f, 'sc, 'g, 'z) base_lib_scheme \<Rightarrow> real \<Rightarrow> 'a list \<Rightarrow> real list \<Rightarrow> bool" where
  "gp_data_ok lib test_size X y \<longleftrightarrow>
     length y = length X \<and>
     0 < n_test_samples lib test_size (length X) \<and>
     n_test_samples lib test_size (length X) < length X"

definition bnn_data_ok :: "('f, 'sc, 'g, 'z) base_lib_scheme \<Rightarrow> 'a list \<Rightarrow> real list \<Rightarrow> bool" where
  "bnn_data_ok lib X y \<longleftrightarrow>
     length y = length X \<and>
     0 < n_test_samples lib test_set_size (length X) \<and>
     n_test_samples lib test_set_size (length X) + batch_size \<le> length X"

text \<open>
  The mean absolute error over the test points \<open>conf\<close>, and the row of
  \<open>mae_confidence_list\<close> a trial computes from its test labels, its predictions and
  the ranking of the test points by predicted variance.
\<close>

definition mae_over :: "real list \<Rightarrow> real list \<Rightarrow> nat list \<Rightarrow> real" where
  "mae_over y_test y_pred conf = np_mean (map (\<lambda>j. \<bar>y_test ! j - y_pred ! j\<bar>) conf)"

definition confidence_row :: "real list \<Rightarrow> real list \<Rightarrow> nat list \<Rightarrow> real list" where
  "confidence_row y_test y_pred ranked =
     map (\<lambda>k. mae_over y_test y_pred (take (k + 1) ranked)) [0..<length y_test]"

text \<open>What a trial does, in order, when it ran \<open>epochs\<close> epochs.\<close>

definition bnn_trial_events :: "nat \<Rightarrow> nat \<Rightarrow> event list" where
  "bnn_trial_events i epochs =
     Split i # concat (map (\<lambda>e. [TrainEpoch i e, Validate i e]) [0..<epochs])
       @ [Predict i, Nlpd i, Confidence i, Scores i]"

definition gp_trial_events :: "nat \<Rightarrow> event list" where
  "gp_trial_events i = [Split i, Fit i, Predict i, Confidence i, TrainPredict i, Scores i]"

text \<open>
  The record of trial \<open>i\<close> holds what the body of the loop computed: each variable is
  the result of the call that assigns it.
\<close>

definition bnn_trial_ok ::
  "('x, 'm, 'sc, 'g, 'z) bnn_lib_scheme \<Rightarrow> 'x list \<Rightarrow> real list \<Rightarrow> nat \<Rightarrow> real \<Rightarrow> nat
     \<Rightarrow> ('x, 'm, 'sc, 'g) bnn_trial \<Rightarrow> bool" where
  "bnn_trial_ok lib X y n_epochs kld_beta i t \<longleftrightarrow>
     (let td = transform_data lib (bt_y_train_split t) (bt_y_train_split t)
                 (bt_y_test_split t) (bt_y_test_split t);
          G_train = graph_append_label (bt_X_train t) (bt_y_train_std t);
          G_test = graph_append_label (bt_X_test t) (bt_y_test_std t)
      in (\<forall>g. split_indices lib (length X) test_set_size (Some i) g
                  = Inr ((bt_ind_train t, bt_ind_test t), g)) \<and>
         (\<forall>g. train_test_split lib X y test_set_size (Some i) g
                  = Inr ((bt_X_train t, bt_X_test t, bt_y_train_split t, bt_y_test_split t), g)) \<and>
         bt_y_train_std t = fst (snd td) \<and>
         bt_y_test_std t = fst (snd (snd (snd td))) \<and>
         bt_y_scaler t = snd (snd (snd (snd td))) \<and>
         (\<exists>g bm evs. bnn_train lib G_train G_test n_epochs kld_beta i g bm evs
                  = Inr (bt_best_model t, bt_loop t, bt_break t)) \<and>
         bt_model t = eval_mode lib (bt_best_model t) \<and>
         (\<exists>g'. predict (forward lib) (bt_model t) G_test 100 (ls_rng (bt_loop t))
                  = Inr ((bt_y_pred_std t, bt_y_var t), g')) \<and>
         nlpd (bt_y_test_std t) (bt_y_pred_std t) (map sqrt (bt_y_var t)) = Inr (bt_uq_nlpd t) \<and>
         bt_y_pred t = inverse_transform lib (bt_y_scaler t) (bt_y_pred_std t) \<and>
         bt_y_test t = inverse_transform lib (bt_y_scaler t) (bt_y_test_std t) \<and>
         bt_ranked_confidence_list t = argsort lib (bt_y_var t) \<and>
         test_scores lib (bt_y_test t) (bt_y_pred t) = Inr (bt_score t, bt_rmse t, bt_mae t))"

definition gp_trial_ok ::
  "('x, 't, 'gp, 'sc, 'g, 'z) gp_lib_scheme \<Rightarrow> real \<Rightarrow> 'x list \<Rightarrow> real list \<Rightarrow> nat
     \<Rightarrow> ('x, 't, 'gp, 'sc) gp_trial \<Rightarrow> bool" where
  "gp_trial_ok lib test_size X y i t \<longleftrightarrow>
     (let td = transform_data lib (gt_X_train_split t) (gt_y_train_split t)
                 (gt_X_test_split t) (gt_y_test_split t)
      in (\<forall>g. split_indices lib (length X) test_size (Some i) g
                  = Inr ((gt_ind_train t, gt_ind_test t), g)) \<and>
         (\<forall>g. train_test_split lib X y test_size (Some i) g
                  = Inr ((gt_X_train_split t, gt_X_test_split t,
                          gt_y_train_split t, gt_y_test_split t), g)) \<and>
         gt_y_train_std t = fst (snd td) \<and>
         gt_y_test_std t = fst (snd (snd (snd td))) \<and>
         gt_y_scaler t = snd (snd (snd (snd td))) \<and>
         gt_X_train t = as_tensor lib (gt_X_train_split t) \<and>
         gt_X_test t = as_tensor lib (gt_X_test_split t) \<and>
         gt_model t = gp_fit lib (gt_X_train t) (gt_y_train_std t) \<and>
         (gt_y_pred_std t, gt_y_var t) = gp_posterior lib (gt_model t) (gt_X_test t) \<and>
         gt_y_pred t = inverse_transform lib (gt_y_scaler t) (gt_y_pred_std t) \<and>
         gt_y_test t = inverse_transform lib (gt_y_scaler t) (gt_y_test_std t) \<and>
         gt_ranked_confidence_list t = argsort lib (gt_y_var t) \<and>
         test_scores lib (gt_y_test t) (gt_y_pred t) = Inr (gt_score t, gt_rmse t, gt_mae t))"

text \<open>What holds of the variables of \<open>evaluate_model\<close> before trial \<open>i\<close>.\<close>

definition bnn_inv ::
  "('x, 'm, 'sc, 'g, 'z) bnn_lib_scheme \<Rightarrow> 'x list \<Rightarrow> real list \<Rightarrow> nat \<Rightarrow> real \<Rightarrow> nat \<Rightarrow> nat
     \<Rightarrow> nat \<Rightarrow> ('x, 'm, 'sc, 'g) bnn_state \<Rightarrow> bool" where
  "bnn_inv lib X y n_epochs kld_beta n_trials n_test i st \<longleftrightarrow>
     length (bs_trials st) = i \<and>
     (\<forall>j<i. bnn_trial_ok lib X y n_epochs kld_beta j (bs_trials st ! j)) \<and>
     (\<forall>j<i. length (bt_y_test (bs_trials st ! j)) = n_test) \<and>
     bs_r2_list st = map bt_score (bs_trials st) \<and>
     bs_rmse_list st = map bt_rmse (bs_trials st) \<and>
     bs_mae_list st = map bt_mae (bs_trials st) \<and>
     bs_nlpd_list st = map bt_uq_nlpd (bs_trials st) \<and>
     bs_mae_confidence_list st =
       map (\<lambda>t. confidence_row (bt_y_test t) (bt_y_pred t) (bt_ranked_confidence_list t))
         (bs_trials st) @ replicate (n_trials - i) (replicate n_test 0) \<and>
     bs_events st =
       SizeSplit # concat (map (\<lambda>j. bnn_trial_events j
                                  (length (val_losses (bt_loop (bs_trials st ! j))))) [0..<i]) \<and>
     length (bs_y_test st) = n_test \<and>
     (0 < i \<longrightarrow> bs_y_test st = bt_y_test (last (bs_trials st)))"

definition gp_inv ::
  "('x, 't, 'gp, 'sc, 'g, 'z) gp_lib_scheme \<Rightarrow> real \<Rightarrow> 'x list \<Rightarrow> real list \<Rightarrow> nat \<Rightarrow> nat
     \<Rightarrow> nat \<Rightarrow> ('x, 't, 'gp, 'sc, 'g) gp_state \<Rightarrow> bool" where
  "gp_inv lib test_size X y n_trials n_test i st \<longleftrightarrow>
     length (gs_trials st) = i \<and>
     (\<forall>j<i. gp_trial_ok lib test_size X y j (gs_trials st ! j)) \<and>
     (\<forall>j<i. length (gt_y_test (gs_trials st ! j)) = n_test) \<and>
     gs_r2_list st = map gt_score (gs_trials st) \<and>
     gs_rmse_list st = map gt_rmse (gs_trials st) \<and>
     gs_mae_list st = map gt_mae (gs_trials st) \<and>
     gs_mae_confidence_list st =
       map (\<lambda>t. confidence_row (gt_y_test t) (gt_y_pred t) (gt_ranked_confidence_list t))
         (gs_trials st) @ replicate (n_trials - i) (replicate n_test 0) \<and>
     gs_events st = SizeSplit # concat (map gp_trial_events [0..<i]) \<and>
     length (gs_y_test st) = n_test \<and>
     (0 < i \<longrightarrow> gs_y_test st = gt_y_test (last (gs_trials st)))"

section \<open>A small instance of the libraries\<close>

text \<open>
  The properties below assume \<open>bnn_ok\<close> or \<open>gp_ok\<close> of the libraries. These toy
  libraries satisfy the assumptions: the seeded permutation rotates the indices by the
  seed, the scaler is the identity, \<open>argsort\<close> is a stable sort of the indices, the
  network is a single number and predicts it with alternating noise, and the GP predicts
  the mean training label with the row's value as variance.
\<close>

definition toy_bnn :: "(nat, real, unit, nat) bnn_lib" where
  "toy_bnn =
     \<lparr>n_test_samples = (\<lambda>test_size n. nat \<lceil>test_size * real n\<rceil>),
      permutation = (\<lambda>seed n. rotate seed [0..<n]),
      global_permutation = (\<lambda>g n. (rotate g [0..<n], Suc g)),
      transform_data = (\<lambda>Xa ya Xb yb. (Xa, ya, Xb, yb, ())),
      inverse_transform = (\<lambda>sc v. v),
      argsort = (\<lambda>v. sort_key (\<lambda>j. v ! j) [0..<length v]),
      r2_score = (\<lambda>y_true y_pred.
         1 - sum_list (map2 (\<lambda>t p. (t - p)\<^sup>2) y_true y_pred)
               / sum_list (map (\<lambda>t. (t - np_mean y_true)\<^sup>2) y_true)),
      init_model = (\<lambda>g. (0, Suc g)),
      train_step = (\<lambda>kld_beta m data g. ((m + 1, 0, 0), Suc g)),
      forward = (\<lambda>m G g. (map (\<lambda>_. m + real (g mod 2)) G, Suc g)),
      eval_mode = (\<lambda>m. m)\<rparr>"

definition toy_gp :: "(nat, nat list, real, unit, nat) gp_lib" where
  "toy_gp =
     \<lparr>n_test_samples = (\<lambda>test_size n. nat \<lceil>test_size * real n\<rceil>),
      permutation = (\<lambda>seed n. rotate seed [0..<n]),
      global_permutation = (\<lambda>g n. (rotate g [0..<n], Suc g)),
      transform_data = (\<lambda>Xa ya Xb yb. (Xa, ya, Xb, yb, ())),
      inverse_transform = (\<lambda>sc v. v),
      argsort = (\<lambda>v. sort_key (\<lambda>j. v ! j) [0..<length v]),
      r2_score = (\<lambda>y_true y_pred.
         1 - sum_list (map2 (\<lambda>t p. (t - p)\<^sup>2) y_true y_pred)
               / sum_list (map (\<lambda>t. (t - np_mean y_true)\<^sup>2) y_true)),
      as_tensor = (\<lambda>X. X),
      gp_fit = (\<lambda>X y. np_mean y),
      gp_posterior = (\<lambda>m X. (map (\<lambda>_. m) X, map real X))\<rparr>"

definition toy_X :: "nat list" where
  "toy_X = [0..<40]"

definition toy_y :: "real list" where
  "toy_y = map real [0..<40]"






text \<open>
  Every validation loss recorded by the epoch loop is the MSE, on the test graphs, of
  the mean prediction of the network as it was when the snapshot of that epoch was
  taken.
\<close>

definition validated ::
  "('x, 'm, 'sc, 'g, 'z) bnn_lib_scheme \<Rightarrow> ('x \<times> real) list \<Rightarrow> ('m, 'g) loop_state \<Rightarrow> bool" where
  "validated lib G_test s \<longleftrightarrow>
     (\<forall>e<length (val_losses s). \<exists>g yp yv g'.
        predict (forward lib) (snapshots s ! e) G_test default_samples g = Inr ((yp, yv), g')
      \<and> val_losses s ! e = mse_loss yp (map snd G_test))"

text \<open>
  A network whose prediction does not depend on its weights: its validation loss is the
  same in every epoch.
\<close>

definition plateau_bnn :: "(nat, real, unit, nat) bnn_lib" where
  "plateau_bnn = toy_bnn\<lparr>forward := \<lambda>m G g. (map (\<lambda>_. real (g mod 2)) G, Suc g)\<rparr>"

text \<open>
  An element of a feature array as it is stored: a 64-bit integer (the n-gram counts of
  \<open>CountVectorizer\<close>) or a 64-bit float; \<open>num_value\<close> is the number it stands for.
  Two arrays are the same byte for byte when their elements are equal as \<open>num\<close>, and
  hold the same values when the \<open>num_value\<close>s are equal. \<open>X.astype(np.float64)\<close>
  is a new array of 64-bit floats with the values of \<open>X\<close>.
\<close>

datatype num = Int64 int | Float64 real

fun num_value :: "num \<Rightarrow> real" where
  "num_value (Int64 n) = real_of_int n"
| "num_value (Float64 x) = x"

fun is_float64 :: "num \<Rightarrow> bool" where
  "is_float64 (Int64 n) = False"
| "is_float64 (Float64 x) = True"

definition astype_float64 :: "num list list \<Rightarrow> num list list" where
  "astype_float64 X = map (map (\<lambda>v. Float64 (num_value v))) X"

text \<open>
  What the properties of the features assume of \<open>torch.tensor(X.astype(np.float64))\<close>:
  the tensor holds the values of \<open>X\<close>, as 64-bit floats.
\<close>

definition value_preserving ::
  "(num list, num list list, 'gp, 'sc, 'g, 'z) gp_lib_scheme \<Rightarrow> bool" where
  "value_preserving lib \<longleftrightarrow>
     (\<forall>X. map (map num_value) (as_tensor lib X) = map (map num_value) X
        \<and> list_all (list_all is_float64) (as_tensor lib X))"

text \<open>A GP library on arrays of counts, and a dataset of integer features.\<close>

definition count_gp :: "(num list, num list list, real, unit, nat) gp_lib" where
  "count_gp =
     \<lparr>n_test_samples = (\<lambda>test_size n. nat \<lceil>test_size * real n\<rceil>),
      permutation = (\<lambda>seed n. rotate seed [0..<n]),
      global_permutation = (\<lambda>g n. (rotate g [0..<n], Suc g)),
      transform_data = (\<lambda>Xa ya Xb yb. (Xa, ya, Xb, yb, ())),
      inverse_transform = (\<lambda>sc v. v),
      argsort = (\<lambda>v. sort_key (\<lambda>j. v ! j) [0..<length v]),
      r2_score = (\<lambda>y_true y_pred.
         1 - sum_list (map2 (\<lambda>t p. (t - p)\<^sup>2) y_true y_pred)
               / sum_list (map (\<lambda>t. (t - np_mean y_true)\<^sup>2) y_true)),
      as_tensor = astype_float64,
      gp_fit = (\<lambda>X y. np_mean y),
      gp_posterior = (\<lambda>m X. (map (\<lambda>_. m) X, map (\<lambda>row. sum_list (map num_value row)) X))\<rparr>"

definition count_X :: "num list list" where
  "count_X = map (\<lambda>i. [Int64 (int i)]) [0..<40]"

text \<open>
  The network after every epoch is the network before it (the new network of the trial
  for the first epoch) after one optimizer step on every batch the training loader
  yields, in order.
\<close>

definition trained ::
  "('x, 'm, 'sc, 'g, 'z) bnn_lib_scheme \<Rightarrow> real \<Rightarrow> ('x \<times> real) list \<Rightarrow> 'm
     \<Rightarrow> ('m, 'g) loop_state \<Rightarrow> bool" where
  "trained lib kld_beta G_train model0 s \<longleftrightarrow>
     (\<forall>e<length (snapshots s). \<exists>h.
        snapshots s ! e =
          fst (foldl (\<lambda>(m, g) data. (fst (fst (train_step lib kld_beta m data g)),
                                        snd (train_step lib kld_beta m data g)))
                 (if e = 0 then model0 else snapshots s ! (e - 1),
                  snd (dataloader_train lib G_train h))
                 (fst (dataloader_train lib G_train h))))"



section \<open>Theorems\<close>

lemma bindE_Inr [simp]: "bindE (Inr v) f = f v"
  by (simp add: bindE_def)

lemma bindE_Inl [simp]: "bindE (Inl e) f = Inl e"
  by (simp add: bindE_def)

subsection \<open>The data-loading cell of the bag-of-amino-acids notebook\<close>

lemma not_isl_Inr: "\<not> isl r \<Longrightarrow> \<exists>v. r = Inr v"
  by (cases r) simp_all

lemma boaa_prelude_runs:
  "\<exists>ns. exec_stmts [] (boaa_imports @ boaa_device @ boaa_featurizer) = Inr ns"
  by (rule not_isl_Inr) code_simp

text \<open>
  Claim C4 (the data-loading step featurizes the sequences with the notebook's defined
  utility and completes without raising an error). On a fresh kernel the cells before
  the data-loading cell run, and the data-loading cell raises \<open>NameError\<close>: it calls
  \<open>bag_of_characters\<close>, a name that no cell imports or defines (the notebook defines
  \<open>bag_of_amino_acids\<close>).
\<close>

theorem boaa_load_data_raises_NameError:
  "exec_stmts [] (boaa_imports @ boaa_device @ boaa_featurizer @ boaa_load_data)
     = Inl (NameError ''bag_of_characters'')"
  by code_simp

lemma boaa_load_data_defined_name_runs:
  "\<exists>ns. exec_stmts []
      (boaa_imports @ boaa_device @ boaa_featurizer @ boaa_load_data_defined_name) = Inr ns"
  by (rule not_isl_Inr) code_simp

subsection \<open>Helper lemmas\<close>





lemma bindE_eq_Inr: "bindE r f = Inr w \<longleftrightarrow> (\<exists>v. r = Inr v \<and> f v = Inr w)"
  by (cases r) simp_all

lemma length_sample_preds: "length (fst (sample_preds fwd m X n g)) = n"
  by (induction n arbitrary: g) (simp_all add: split_beta Let_def)

lemma snd_sample_preds:
  "snd (sample_preds fwd m X n g) = (rng_after fwd m X ^^ n) g"
  by (induction n arbitrary: g) (simp_all add: split_beta Let_def funpow_swap1 rng_after_def [symmetric])

lemma nth_sample_preds:
  "k < n \<Longrightarrow> fst (sample_preds fwd m X n g) ! k = fst (fwd m X ((rng_after fwd m X ^^ k) g))"
proof (induction n arbitrary: g k)
  case 0
  then show ?case by simp
next
  case (Suc n)
  show ?case
  proof (cases k)
    case 0
    then show ?thesis by (simp add: split_beta Let_def)
  next
    case (Suc k')
    with Suc.prems have "k' < n" by simp
    from Suc.IH [OF this] show ?thesis
      using Suc by (simp add: split_beta Let_def funpow_swap1 rng_after_def [symmetric])
  qed
qed

lemma np_mean_column:
  "np_mean (column preds j) = (\<Sum>k<length preds. preds ! k ! j) / real (length preds)"
  by (simp add: np_mean_def column_def sum_list_sum_nth atLeast0LessThan)

lemma torch_var_column:
  "torch_var (column preds j) =
     (\<Sum>k<length preds. (preds ! k ! j - np_mean (column preds j))\<^sup>2) / (real (length preds) - 1)"
  by (simp add: torch_var_def sum_list_sum_nth atLeast0LessThan) (simp add: column_def)

lemma predict_Inr:
  assumes "predict fwd m X samples g = Inr ((means, var), g')"
  defines "preds \<equiv> fst (sample_preds fwd m X samples g)"
  shows "0 < samples" and "length preds = samples"
    and "g' = (rng_after fwd m X ^^ samples) g"
    and "\<forall>p\<in>set preds. length p = length means"
    and "length var = length means"
    and "\<forall>j<length means. means ! j = (\<Sum>k<samples. preds ! k ! j) / real samples"
    and "\<forall>j<length means. var ! j = (\<Sum>k<samples. (preds ! k ! j - means ! j)\<^sup>2) / (real samples - 1)"
proof -
  have len: "length preds = samples" by (simp add: preds_def length_sample_preds)
  from assms(1) have ne: "preds \<noteq> []"
    and same: "\<not> list_ex (\<lambda>p. length p \<noteq> length (hd preds)) preds"
    and m: "means = stack_mean preds" and v: "var = stack_var preds"
    and g: "g' = snd (sample_preds fwd m X samples g)"
    by (auto simp: predict_def preds_def split_beta Let_def split: if_splits)
  show "0 < samples" using ne len by (cases samples) auto
  show "length preds = samples" by (rule len)
  show "g' = (rng_after fwd m X ^^ samples) g" by (simp add: g snd_sample_preds)
  show "\<forall>p\<in>set preds. length p = length means"
    using same by (auto simp: m stack_mean_def list_ex_iff)
  show "length var = length means" by (simp add: m v stack_mean_def stack_var_def)
  show "\<forall>j<length means. means ! j = (\<Sum>k<samples. preds ! k ! j) / real samples"
    by (simp add: m stack_mean_def np_mean_column len)
  show "\<forall>j<length means. var ! j = (\<Sum>k<samples. (preds ! k ! j - means ! j)\<^sup>2) / (real samples - 1)"
    by (simp add: m v stack_mean_def stack_var_def torch_var_column len)
qed

lemma predict_succeeds:
  assumes "0 < samples" and "\<And>h. length (fst (fwd m X h)) = d"
  shows "\<exists>means var g'. predict fwd m X samples g = Inr ((means, var), g')
            \<and> length means = d \<and> length var = d"
proof -
  define preds where "preds = fst (sample_preds fwd m X samples g)"
  have len: "length preds = samples" by (simp add: preds_def length_sample_preds)
  have each: "length p = d" if "p \<in> set preds" for p
  proof -
    from that obtain k where "k < samples" "p = preds ! k"
      by (auto simp: in_set_conv_nth len)
    then show ?thesis by (simp add: preds_def nth_sample_preds assms(2))
  qed
  have ne: "preds \<noteq> []" using len assms(1) by auto
  then have "hd preds \<in> set preds" by simp
  then have hd: "length (hd preds) = d" by (rule each)
  have "\<not> list_ex (\<lambda>p. length p \<noteq> length (hd preds)) preds"
    by (simp add: list_ex_iff each hd)
  then show ?thesis using ne hd
    by (simp add: predict_def preds_def [symmetric] split_beta Let_def stack_mean_def stack_var_def)
qed

lemma improves_append: "j < length L \<Longrightarrow> improves (L @ R) j = improves L j"
  by (simp add: improves_def best_before_def nth_append)

lemma Min_snoc: "L \<noteq> [] \<Longrightarrow> Min (set (L @ [v])) = min v (Min (set L))"
  by (simp add: Min_insert)

lemma best_before_full: "L \<noteq> [] \<Longrightarrow> best_before L (length L) = Some (Min (set L))"
  by (simp add: best_before_def)

lemma best_before_snoc:
  "best_before (L @ [v]) (Suc (length L)) =
     (if loss_gt (best_before L (length L)) v then Some v else best_before L (length L))"
proof (cases "L = []")
  case True
  then show ?thesis by (simp add: best_before_def loss_gt_def)
next
  case False
  define b where "b = Min (set L)"
  have 1: "best_before (L @ [v]) (Suc (length L)) = Some (min v b)"
    using best_before_full [of "L @ [v]"] Min_snoc [OF False, of v] by (simp add: b_def)
  have 2: "best_before L (length L) = Some b"
    using best_before_full [OF False] by (simp add: b_def)
  show ?thesis unfolding 1 2 by (auto simp: loss_gt_def min_def)
qed

lemma improves_last: "improves (L @ [v]) (length L) = loss_gt (best_before L (length L)) v"
  by (simp add: improves_def best_before_def)

lemma argmin_first_props:
  assumes "L \<noteq> []"
  shows "argmin_first L < length L" and "L ! argmin_first L = Min (set L)"
proof -
  define P where "P = (\<lambda>v. v \<noteq> Min (set L))"
  have "Min (set L) \<in> set L" using assms by (intro Min_in) simp_all
  then have ex: "\<exists>x\<in>set L. \<not> P x" by (auto simp: P_def)
  have "length (takeWhile P L) \<noteq> length L"
  proof
    assume "length (takeWhile P L) = length L"
    then have "takeWhile P L = L" using takeWhile_eq_take [of P L] by simp
    with ex show False by simp
  qed
  with length_takeWhile_le [of P L] have "length (takeWhile P L) < length L" by simp
  then show lt: "argmin_first L < length L" by (simp add: argmin_first_def P_def)
  then have "\<not> P (L ! argmin_first L)"
    unfolding argmin_first_def P_def by (rule nth_length_takeWhile)
  then show "L ! argmin_first L = Min (set L)" by (simp add: P_def)
qed

lemma argmin_first_least:
  "j < argmin_first L \<Longrightarrow> L ! j \<noteq> Min (set L)"
  unfolding argmin_first_def
  using takeWhile_nth [of j "\<lambda>v. v \<noteq> Min (set L)" L] nth_mem [of j "takeWhile (\<lambda>v. v \<noteq> Min (set L)) L"]
    set_takeWhileD [of "L ! j" "\<lambda>v. v \<noteq> Min (set L)" L]
  by auto

lemma argmin_first_snoc:
  "argmin_first (L @ [v]) =
     (if loss_gt (best_before L (length L)) v then length L else argmin_first L)"
proof (cases "L = []")
  case True
  then show ?thesis by (simp add: argmin_first_def best_before_def loss_gt_def)
next
  case False
  define b where "b = Min (set L)"
  have b_in: "b \<in> set L" unfolding b_def using False by (intro Min_in) simp_all
  have b_le: "b \<le> x" if "x \<in> set L" for x unfolding b_def using that by simp
  have M: "Min (set (L @ [v])) = min v b" using Min_snoc [OF False] by (simp add: b_def)
  have bb: "best_before L (length L) = Some b"
    using best_before_full [OF False] by (simp add: b_def)
  have am: "argmin_first (L @ [v]) = length (takeWhile (\<lambda>x. x \<noteq> min v b) (L @ [v]))"
    unfolding argmin_first_def M ..
  show ?thesis
  proof (cases "b > v")
    case True
    then have "\<forall>x\<in>set L. x \<noteq> min v b" using b_le by (fastforce simp: min_def)
    then have "takeWhile (\<lambda>x. x \<noteq> min v b) (L @ [v]) = L @ takeWhile (\<lambda>x. x \<noteq> min v b) [v]"
      by simp
    then show ?thesis using True by (simp add: am bb loss_gt_def min_def)
  next
    case nt: False
    then have mb: "min v b = b" by (simp add: min_def)
    have "takeWhile (\<lambda>x. x \<noteq> b) (L @ [v]) = takeWhile (\<lambda>x. x \<noteq> b) L"
      using b_in by (intro takeWhile_append1 [where x = b]) simp_all
    moreover have "argmin_first L = length (takeWhile (\<lambda>x. x \<noteq> b) L)"
      by (simp add: argmin_first_def b_def)
    ultimately show ?thesis unfolding am mb using nt by (simp add: bb loss_gt_def)
  qed
qed

lemma stale_window_iff:
  "stale_window L e \<longleftrightarrow>
     patience \<le> e + 1 \<and> e < length L \<and> (\<forall>j. e + 1 - patience \<le> j \<and> j \<le> e \<longrightarrow> \<not> improves L j)"
  unfolding stale_window_def list_all_iff Ball_def set_upt atLeastLessThan_iff
  by (metis Suc_eq_plus1 less_Suc_eq_le)

lemma stale_window_append: "e < length L \<Longrightarrow> stale_window (L @ R) e = stale_window L e"
  by (auto simp: stale_window_def list_all_iff improves_append)

lemma patience_pos: "0 < patience"
  by (simp add: patience_def)

lemma early_stopping_step:
  fixes s s1 :: "('m, 'g) loop_state"
  assumes inv: "loop_inv s" and head: "count s < patience"
    and nw: "\<forall>e. \<not> stale_window (val_losses s) e"
    and s1: "val_losses s1 = val_losses s @ [v]" "snapshots s1 = snapshots s @ [ls_model s1]"
      "best_loss s1 = best_loss s" "best_model s1 = best_model s" "count s1 = count s"
  defines "s2 \<equiv> early_stopping s1 v"
  shows "loop_inv s2"
    and "val_losses s2 = val_losses s @ [v]"
    and "patience \<le> count s2 \<Longrightarrow> stale_window (val_losses s2) (length (val_losses s2) - 1)"
    and "count s2 < patience \<Longrightarrow> \<forall>e. \<not> stale_window (val_losses s2) e"
    and "count s2 \<le> patience"
proof -
  define L where "L = val_losses s"
  define L2 where "L2 = L @ [v]"
  have L2: "val_losses s2 = L2"
    by (simp add: s2_def early_stopping_def s1 L2_def L_def)
  show "val_losses s2 = val_losses s @ [v]" using L2 by (simp add: L2_def L_def)
  from inv have i1: "length (snapshots s) = length L"
    and i2: "best_loss s = best_before L (length L)"
    and i3: "L \<noteq> [] \<Longrightarrow> best_model s = Some (snapshots s ! argmin_first L)"
    and i4: "count s \<le> length L"
    and i5: "L \<noteq> [] \<Longrightarrow> count s < length L \<and> improves L (length L - 1 - count s)"
    and i6: "\<And>j. length L - count s \<le> j \<Longrightarrow> j < length L \<Longrightarrow> \<not> improves L j"
    by (simp_all add: loop_inv_def L_def Let_def)
  show inv2: "loop_inv s2"
  proof (cases "loss_gt (best_loss s1) v")
    case True
    then have imp: "loss_gt (best_before L (length L)) v" by (simp add: s1 i2)
    have st: "s2 = s1\<lparr>best_loss := Some v, best_model := Some (ls_model s1), count := 0\<rparr>"
      using True by (simp add: s2_def early_stopping_def)
    show ?thesis
      unfolding loop_inv_def Let_def L2
      by (auto simp: st s1 i1 L2_def L_def [symmetric] best_before_snoc imp argmin_first_snoc
          improves_last nth_append)
  next
    case False
    then have nimp: "\<not> loss_gt (best_before L (length L)) v" by (simp add: s1 i2)
    then have ne: "L \<noteq> []" by (auto simp: best_before_def loss_gt_def)
    have st: "s2 = s1\<lparr>count := count s + 1\<rparr>"
      using False by (simp add: s2_def early_stopping_def s1)
    from i5 [OF ne] have c: "count s < length L" and im: "improves L (length L - 1 - count s)"
      by simp_all
    have a: "argmin_first L < length L" using argmin_first_props(1) [OF ne] .
    have stale: "\<not> improves L2 j" if "length L2 - (count s + 1) \<le> j" "j < length L2" for j
    proof (cases "j < length L")
      case True
      with that i6 [of j] show ?thesis by (simp add: L2_def improves_append)
    next
      case False
      with that have "j = length L" by (simp add: L2_def)
      then show ?thesis using nimp by (simp add: L2_def improves_last)
    qed
    have im2: "improves L2 (length L2 - 1 - (count s + 1))"
    proof -
      have "length L2 - 1 - (count s + 1) = length L - 1 - count s" by (simp add: L2_def)
      moreover have "length L - 1 - count s < length L" using c by simp
      ultimately show ?thesis using im by (simp add: L2_def improves_append)
    qed
    show ?thesis
      unfolding loop_inv_def Let_def L2
      using stale im2 c a i3 [OF ne]
      by (simp add: st s1 i1 i2 L_def [symmetric] best_before_snoc nimp argmin_first_snoc
          nth_append L2_def)
  qed
  from inv2 have j4: "count s2 \<le> length L2"
    and j5: "count s2 < length L2 \<and> improves L2 (length L2 - 1 - count s2)"
    and j6: "\<And>j. length L2 - count s2 \<le> j \<Longrightarrow> j < length L2 \<Longrightarrow> \<not> improves L2 j"
    by (simp_all add: loop_inv_def L2 Let_def L2_def)
  show "count s2 \<le> patience"
    using head by (simp add: s2_def early_stopping_def s1)
  show "stale_window (val_losses s2) (length (val_losses s2) - 1)" if "patience \<le> count s2"
    unfolding L2 stale_window_iff
    using that j4 j5 j6 patience_pos by (auto simp: L2_def)
  show "\<forall>e. \<not> stale_window (val_losses s2) e" if lt: "count s2 < patience"
  proof (intro allI notI)
    fix e assume w: "stale_window (val_losses s2) e"
    show False
    proof (cases "e < length L")
      case True
      with w nw show ?thesis by (simp add: L2 L2_def stale_window_append L_def)
    next
      case False
      with w have e: "e = length L" by (simp add: L2 L2_def stale_window_def)
      define i0 where "i0 = length L2 - 1 - count s2"
      have "e + 1 - patience \<le> i0" "i0 < e + 1"
        using lt j5 by (simp_all add: i0_def e L2_def)
      with w have "\<not> improves L2 i0"
        unfolding stale_window_iff L2 by (metis Suc_eq_plus1 less_Suc_eq_le)
      with j5 show False by (simp add: i0_def)
    qed
  qed
qed

lemma perm_facts:
  assumes "mset p = mset [0..<n]"
  shows "length p = n" and "set p = {0..<n}" and "distinct p"
proof -
  show "length p = n" using mset_eq_length [OF assms] by simp
  show "set p = {0..<n}" using mset_eq_setD [OF assms] by simp
  show "distinct p" using mset_eq_imp_distinct_iff [OF assms] by simp
qed

lemma length_dataloader_train:
  "length (fst (dataloader_train lib G g)) = length G div batch_size"
  by (simp add: dataloader_train_def split_beta)

lemma run_epoch_effect:
  assumes "run_epoch lib kb Gtr Gte tr ep s = Inr (s1, v)"
  shows "val_losses s1 = val_losses s @ [v]"
    and "snapshots s1 = snapshots s @ [ls_model s1]"
    and "best_loss s1 = best_loss s"
    and "best_model s1 = best_model s"
    and "count s1 = count s"
    and "ls_events s1 = ls_events s @ [TrainEpoch tr ep, Validate tr ep]"
  using assms
  by (auto simp: run_epoch_def split_beta Let_def bindE_eq_Inr split: if_splits)

lemma run_epoch_succeeds:
  assumes "bnn_ok lib" and "batch_size \<le> length Gtr"
  shows "\<exists>s1 v. run_epoch lib kb Gtr Gte tr ep s = Inr (s1, v)"
proof -
  have "0 < batch_size" by (simp add: batch_size_def)
  with assms(2) have nb: "length (fst (dataloader_train lib Gtr (ls_rng s))) \<noteq> 0"
    by (simp add: length_dataloader_train div_greater_zero_iff)
  have fw: "\<And>m h. length (fst (forward lib m Gte h)) = length Gte"
    using assms(1) by (simp add: bnn_ok_def)
  have "0 < default_samples" by (simp add: default_samples_def)
  from predict_succeeds [where fwd = "forward lib" and X = Gte and d = "length Gte", OF this fw]
  have "\<And>m g. \<exists>r. predict (forward lib) m Gte default_samples g = Inr r" by blast
  then show ?thesis using nb
    by (simp add: run_epoch_def split_beta Let_def bindE_eq_Inr)
qed

lemma epoch_loop_result:
  assumes "epoch_loop lib kb Gtr Gte tr ep k s = Inr (s', b)"
    and "loop_inv s" and "count s < patience" and "\<forall>e. \<not> stale_window (val_losses s) e"
  shows "loop_inv s'
     \<and> length (val_losses s) \<le> length (val_losses s')
     \<and> length (val_losses s') \<le> length (val_losses s) + k
     \<and> (\<not> b \<longrightarrow> length (val_losses s') = length (val_losses s) + k
                \<and> (\<forall>e. \<not> stale_window (val_losses s') e))
     \<and> (b \<longrightarrow> stale_window (val_losses s') (length (val_losses s') - 1))
     \<and> (0 < k \<longrightarrow> val_losses s' \<noteq> [])
     \<and> (k = 0 \<longrightarrow> s' = s)
     \<and> ls_events s' = ls_events s @
          concat (map (\<lambda>e. [TrainEpoch tr e, Validate tr e])
                    [ep..<ep + (length (val_losses s') - length (val_losses s))])"
  using assms
proof (induction k arbitrary: s ep)
  case 0
  then show ?case by simp
next
  case (Suc k)
  from Suc.prems(1) obtain s1 v where re: "run_epoch lib kb Gtr Gte tr ep s = Inr (s1, v)"
    and rest: "(let s2 = early_stopping s1 v
                in if count s2 \<ge> patience then Inr (s2, True)
                   else epoch_loop lib kb Gtr Gte tr (Suc ep) k s2) = Inr (s', b)"
    by (cases "run_epoch lib kb Gtr Gte tr ep s") (auto simp: Let_def)
  define s2 where "s2 = early_stopping s1 v"
  note eff = run_epoch_effect [OF re]
  note step = early_stopping_step [OF Suc.prems(2,3,4) eff(1-5), folded s2_def]
  have ev2: "ls_events s2 = ls_events s @ [TrainEpoch tr ep, Validate tr ep]"
    by (simp add: s2_def early_stopping_def eff(6))
  show ?case
  proof (cases "count s2 \<ge> patience")
    case True
    with rest have s': "s' = s2" and b: "b" by (simp_all add: s2_def Let_def)
    have len2: "length (val_losses s2) = Suc (length (val_losses s))"
      by (simp add: step(2))
    show ?thesis unfolding s'
    proof (intro conjI)
      show "loop_inv s2" by (rule step(1))
      show "length (val_losses s) \<le> length (val_losses s2)" using len2 by simp
      show "length (val_losses s2) \<le> length (val_losses s) + Suc k" using len2 by simp
      show "\<not> b \<longrightarrow> length (val_losses s2) = length (val_losses s) + Suc k
                \<and> (\<forall>e. \<not> stale_window (val_losses s2) e)" using b by simp
      show "b \<longrightarrow> stale_window (val_losses s2) (length (val_losses s2) - 1)"
        using step(3) [OF True] by simp
      show "0 < Suc k \<longrightarrow> val_losses s2 \<noteq> []" using len2 by auto
      show "Suc k = 0 \<longrightarrow> s2 = s" by simp
      show "ls_events s2 = ls_events s @
          concat (map (\<lambda>e. [TrainEpoch tr e, Validate tr e])
                    [ep..<ep + (length (val_losses s2) - length (val_losses s))])"
        unfolding ev2 len2 by simp
    qed
  next
    case False
    with rest have el: "epoch_loop lib kb Gtr Gte tr (Suc ep) k s2 = Inr (s', b)"
      by (simp add: s2_def Let_def)
    from False have c: "count s2 < patience" by simp
    note IH = Suc.IH [OF el step(1) c step(4) [OF c]]
    note ih1 = IH [THEN conjunct1] and r1 = IH [THEN conjunct2]
    note ih2 = r1 [THEN conjunct1] and r2 = r1 [THEN conjunct2]
    note ih3 = r2 [THEN conjunct1] and r3 = r2 [THEN conjunct2]
    note ih4 = r3 [THEN conjunct1] and r4 = r3 [THEN conjunct2]
    note ih5 = r4 [THEN conjunct1] and r5 = r4 [THEN conjunct2]
    note ih8 = r5 [THEN conjunct2, THEN conjunct2]
    have len2: "length (val_losses s2) = Suc (length (val_losses s))"
      by (simp add: step(2))
    have upt: "[ep..<ep + (length (val_losses s') - length (val_losses s))]
            = ep # [Suc ep..<Suc ep + (length (val_losses s') - length (val_losses s2))]"
    proof -
      have "ep < ep + (length (val_losses s') - length (val_losses s))" using ih2 len2 by simp
      moreover have "Suc ep + (length (val_losses s') - length (val_losses s2))
                       = ep + (length (val_losses s') - length (val_losses s))"
        using ih2 len2 by simp
      ultimately show ?thesis by (simp add: upt_conv_Cons)
    qed
    show ?thesis
    proof (intro conjI)
      show "loop_inv s'" by (rule ih1)
      show "length (val_losses s) \<le> length (val_losses s')" using ih2 len2 by simp
      show "length (val_losses s') \<le> length (val_losses s) + Suc k" using ih3 len2 by simp
      show "\<not> b \<longrightarrow> length (val_losses s') = length (val_losses s) + Suc k
                \<and> (\<forall>e. \<not> stale_window (val_losses s') e)" using ih4 len2 by simp
      show "b \<longrightarrow> stale_window (val_losses s') (length (val_losses s') - 1)" by (rule ih5)
      show "0 < Suc k \<longrightarrow> val_losses s' \<noteq> []" using ih2 len2 by auto
      show "Suc k = 0 \<longrightarrow> s' = s" by simp
      show "ls_events s' = ls_events s @
          concat (map (\<lambda>e. [TrainEpoch tr e, Validate tr e])
                    [ep..<ep + (length (val_losses s') - length (val_losses s))])"
        unfolding upt ih8 ev2 by simp
    qed
  qed
qed

lemma for_each_append:
  "for_each body (xs @ ys) s = bindE (for_each body xs s) (for_each body ys)"
  by (induction xs arbitrary: s) (simp_all add: bindE_def split: sum.splits)

lemma for_each_upt_Suc:
  "for_each body [0..<Suc n] s = bindE (for_each body [0..<n] s) (body n)"
proof -
  have "for_each body [n] = body n" by (rule ext) (simp add: bindE_def split: sum.splits)
  then show ?thesis by (simp add: for_each_append)
qed

lemma for_each_upt_total:
  assumes "I 0 s"
    and "\<And>i s. i < n \<Longrightarrow> I i s \<Longrightarrow> \<exists>s'. body i s = Inr s' \<and> I (Suc i) s'"
  shows "\<exists>s'. for_each body [0..<n] s = Inr s' \<and> I n s'"
proof -
  have "m \<le> n \<Longrightarrow> \<exists>s'. for_each body [0..<m] s = Inr s' \<and> I m s'" for m
  proof (induction m)
    case 0
    then show ?case using assms(1) by simp
  next
    case (Suc m)
    then obtain s1 where 1: "for_each body [0..<m] s = Inr s1" and 2: "I m s1" by auto
    from Suc.prems have "m < n" by simp
    from assms(2) [OF this 2] obtain s2 where "body m s1 = Inr s2" "I (Suc m) s2" by blast
    then show ?case unfolding for_each_upt_Suc 1 by simp
  qed
  then show ?thesis by simp
qed

lemma split_indices_Inr:
  assumes "base_ok lib" and "n_test_samples lib ts n < n"
  shows "\<exists>it ie g'. split_indices lib n ts rs g = Inr ((it, ie), g')
           \<and> length ie = n_test_samples lib ts n \<and> length it = n - n_test_samples lib ts n
           \<and> set it \<subseteq> {0..<n} \<and> set ie \<subseteq> {0..<n}"
proof -
  define pg where "pg = (case rs of Some seed \<Rightarrow> (permutation lib seed n, g)
                                 | None \<Rightarrow> global_permutation lib g n)"
  have "mset (fst pg) = mset [0..<n]"
    using assms(1) by (simp add: pg_def base_ok_def split: option.splits)
  note p = perm_facts [OF this]
  have "set (take k (fst pg)) \<subseteq> {0..<n}" for k
    using set_take_subset [of k "fst pg"] p(2) by simp
  moreover have "set (take j (drop k (fst pg))) \<subseteq> {0..<n}" for j k
    using set_take_subset [of j "drop k (fst pg)"] set_drop_subset [of k "fst pg"] p(2) by blast
  moreover have "set (drop k (fst pg)) \<subseteq> {0..<n}" for k
    using set_drop_subset [of k "fst pg"] p(2) by blast
  ultimately show ?thesis
    using assms(2) p(1)
    by (simp add: split_indices_def Let_def pg_def [symmetric] split_beta)
qed

lemma split_indices_seeded:
  assumes "split_indices lib n ts (Some seed) g = Inr ((it, ie), g')"
  shows "g' = g" and "split_indices lib n ts (Some seed) h = Inr ((it, ie), h)"
  using assms by (auto simp: split_indices_def Let_def split: if_splits)

lemma train_test_split_seeded:
  assumes "train_test_split lib X y ts (Some seed) g = Inr (r, g')"
  shows "g' = g" and "train_test_split lib X y ts (Some seed) h = Inr (r, h)"
proof -
  from assms obtain it ie g1 where 1: "split_indices lib (length X) ts (Some seed) g = Inr ((it, ie), g1)"
    and 2: "length y = length X"
    and 3: "r = (map (\<lambda>j. X ! j) it, map (\<lambda>j. X ! j) ie, map (\<lambda>j. y ! j) it, map (\<lambda>j. y ! j) ie)"
    and 4: "g' = g1"
    by (auto simp: train_test_split_def bindE_eq_Inr split: if_splits)
  from split_indices_seeded [OF 1] 4 show "g' = g" by simp
  from split_indices_seeded(2) [OF 1, of h] 2 3
  show "train_test_split lib X y ts (Some seed) h = Inr (r, h)"
    by (simp add: train_test_split_def)
qed

lemma train_test_split_Inr:
  assumes "base_ok lib" and "length y = length X"
    and "n_test_samples lib ts (length X) < length X"
  shows "\<exists>Xtr Xte ytr yte g'. train_test_split lib X y ts rs g = Inr ((Xtr, Xte, ytr, yte), g')
           \<and> length Xte = n_test_samples lib ts (length X)
           \<and> length yte = n_test_samples lib ts (length X)
           \<and> length Xtr = length X - n_test_samples lib ts (length X)
           \<and> length ytr = length X - n_test_samples lib ts (length X)"
proof -
  from split_indices_Inr [OF assms(1,3), of rs g]
  obtain it ie g' where "split_indices lib (length X) ts rs g = Inr ((it, ie), g')"
    "length ie = n_test_samples lib ts (length X)"
    "length it = length X - n_test_samples lib ts (length X)" by blast
  then show ?thesis using assms(2) by (simp add: train_test_split_def)
qed

lemma gather_Inr:
  "set idx \<subseteq> {0..<length xs} \<Longrightarrow> gather xs idx = Inr (map (\<lambda>j. xs ! j) idx)"
  by (auto simp: gather_def list_all_iff)

lemma confidence_step_Inr:
  assumes "length y_pred = length y_test" and "set ranked \<subseteq> {0..<length y_test}"
    and "ranked \<noteq> []" and "i < length M" and "k < length (M ! i)"
  shows "confidence_step y_test y_pred ranked i k M
           = Inr (M[i := (M ! i)[k := mae_over y_test y_pred (take (k + 1) ranked)]])"
proof -
  define conf where "conf = take (Suc k) ranked"
  have sub: "set conf \<subseteq> {0..<length y_test}"
    using set_take_subset [of "Suc k" ranked] assms(2) by (auto simp: conf_def)
  have ne: "conf \<noteq> []" using assms(3) by (simp add: conf_def)
  have "map2 (\<lambda>t p. \<bar>t - p\<bar>) (map (\<lambda>j. y_test ! j) conf) (map (\<lambda>j. y_pred ! j) conf)
          = map (\<lambda>j. \<bar>y_test ! j - y_pred ! j\<bar>) conf"
    by (induction conf) simp_all
  then have "mean_absolute_error (map (\<lambda>j. y_test ! j) conf) (map (\<lambda>j. y_pred ! j) conf)
          = Inr (mae_over y_test y_pred conf)"
    using ne by (simp add: mean_absolute_error_def mae_over_def)
  moreover have "gather y_test conf = Inr (map (\<lambda>j. y_test ! j) conf)"
    using sub by (rule gather_Inr)
  moreover have "gather y_pred conf = Inr (map (\<lambda>j. y_pred ! j) conf)"
    using sub assms(1) by (intro gather_Inr) simp
  ultimately show ?thesis
    using assms(4,5) unfolding conf_def
    by (simp add: confidence_step_def assign2_def)
qed

lemma confidence_loop_Inr:
  assumes "length y_pred = length y_test" and "set ranked \<subseteq> {0..<length y_test}"
    and "y_test \<noteq> [] \<Longrightarrow> ranked \<noteq> []" and "i < length M" and "length (M ! i) = length y_test"
  shows "confidence_loop y_test y_pred ranked i M
           = Inr (M[i := confidence_row y_test y_pred ranked])"
proof -
  define f where "f = (\<lambda>k. mae_over y_test y_pred (take (k + 1) ranked))"
  define row where "row = M ! i"
  define I where "I = (\<lambda>n M'. M' = M[i := map f [0..<n] @ drop n row])"
  have "\<exists>M'. for_each (confidence_step y_test y_pred ranked i) [0..<length y_test] M = Inr M'
          \<and> I (length y_test) M'"
  proof (rule for_each_upt_total)
    show "I 0 M" by (simp add: I_def row_def)
  next
    fix k M' assume k: "k < length y_test" and "I k M'"
    then have M': "M' = M[i := map f [0..<k] @ drop k row]" by (simp add: I_def)
    have "y_test \<noteq> []" using k by auto
    then have ne: "ranked \<noteq> []" by (rule assms(3))
    have lenM': "i < length M'" using assms(4) by (simp add: M')
    have rowk: "M' ! i = map f [0..<k] @ drop k row" using assms(4) by (simp add: M')
    have klen: "k < length (M' ! i)" using k assms(5) by (simp add: rowk row_def)
    have upd: "(M' ! i)[k := f k] = map f [0..<Suc k] @ drop (Suc k) row"
    proof -
      have "k < length row" using k assms(5) by (simp add: row_def)
      then have "drop k row = row ! k # drop (Suc k) row" by (simp add: Cons_nth_drop_Suc)
      then show ?thesis by (simp add: rowk list_update_append)
    qed
    have "confidence_step y_test y_pred ranked i k M' = Inr (M'[i := (M' ! i)[k := f k]])"
      using confidence_step_Inr [OF assms(1,2) ne lenM' klen] by (simp add: f_def)
    also have "M'[i := (M' ! i)[k := f k]] = M[i := map f [0..<Suc k] @ drop (Suc k) row]"
      unfolding upd by (simp add: M')
    finally show "\<exists>s'. confidence_step y_test y_pred ranked i k M' = Inr s' \<and> I (Suc k) s'"
      by (simp add: I_def)
  qed
  then show ?thesis
    using assms(5)
    by (auto simp: confidence_loop_def I_def row_def confidence_row_def f_def)
qed

lemma test_scores_Inr:
  assumes "length y_pred = length y_test" and "y_test \<noteq> []"
  shows "test_scores lib y_test y_pred =
           Inr (r2_score lib y_test y_pred,
                sqrt (np_mean (map2 (\<lambda>t p. (t - p)\<^sup>2) y_test y_pred)),
                np_mean (map2 (\<lambda>t p. \<bar>t - p\<bar>) y_test y_pred))"
  using assms by (simp add: test_scores_def mean_squared_error_def mean_absolute_error_def Let_def)

lemma not_stale_window_Nil: "\<not> stale_window [] e"
  by (simp add: stale_window_def)

lemma epoch_loop_succeeds:
  assumes "bnn_ok lib" and "batch_size \<le> length Gtr"
  shows "\<exists>s' b. epoch_loop lib kb Gtr Gte tr ep k s = Inr (s', b)"
proof (induction k arbitrary: s ep)
  case 0
  then show ?case by auto
next
  case (Suc k)
  from run_epoch_succeeds [OF assms, of kb Gte tr ep s]
  obtain s1 v where re: "run_epoch lib kb Gtr Gte tr ep s = Inr (s1, v)" by blast
  from Suc [of "Suc ep" "early_stopping s1 v"] show ?case
    by (auto simp: re Let_def)
qed

lemma bnn_train_Inr:
  assumes "bnn_train lib Gtr Gte n_epochs kb i g bm evs = Inr (model, s, b)"
  shows "loop_inv s"
    and "length (val_losses s) \<le> n_epochs"
    and "\<not> b \<Longrightarrow> length (val_losses s) = n_epochs"
    and "\<not> b \<Longrightarrow> \<not> stale_window (val_losses s) e"
    and "b \<Longrightarrow> stale_window (val_losses s) (length (val_losses s) - 1)"
    and "best_model s = Some model"
    and "0 < n_epochs \<Longrightarrow> val_losses s \<noteq> []"
    and "0 < n_epochs \<Longrightarrow> model = snapshots s ! argmin_first (val_losses s)"
    and "ls_events s = evs @ concat (map (\<lambda>e. [TrainEpoch i e, Validate i e]) [0..<length (val_losses s)])"
proof -
  define s0 where
    "s0 = \<lparr>ls_model = fst (init_model lib g), ls_rng = snd (init_model lib g),
           ls_status = Map.empty, best_loss = None, best_model = bm, count = 0,
           val_losses = [], snapshots = [], ls_events = evs\<rparr>"
  from assms have el: "epoch_loop lib kb Gtr Gte i 0 n_epochs s0 = Inr (s, b)"
    and bm: "best_model s = Some model"
    by (auto simp: bnn_train_def split_beta Let_def s0_def bindE_eq_Inr split: option.splits)
  have inv0: "loop_inv s0" by (simp add: loop_inv_def s0_def best_before_def)
  have c0: "count s0 < patience" by (simp add: s0_def patience_def)
  have nw0: "\<forall>e. \<not> stale_window (val_losses s0) e" by (simp add: s0_def not_stale_window_Nil)
  note R = epoch_loop_result [OF el inv0 c0 nw0]
  have L0: "val_losses s0 = []" and E0: "ls_events s0 = evs" by (simp_all add: s0_def)
  show inv: "loop_inv s" using R by blast
  show "length (val_losses s) \<le> n_epochs" using R L0 by simp
  show "length (val_losses s) = n_epochs" if "\<not> b" using R L0 that by simp
  show "\<not> stale_window (val_losses s) e" if "\<not> b" using R that by blast
  show "stale_window (val_losses s) (length (val_losses s) - 1)" if "b" using R that by blast
  show "best_model s = Some model" by (rule bm)
  show ne: "val_losses s \<noteq> []" if "0 < n_epochs" using R that by blast
  show "model = snapshots s ! argmin_first (val_losses s)" if "0 < n_epochs"
    using inv ne [OF that] bm by (simp add: loop_inv_def Let_def)
  show "ls_events s = evs @ concat (map (\<lambda>e. [TrainEpoch i e, Validate i e]) [0..<length (val_losses s)])"
    using R [THEN conjunct2, THEN conjunct2, THEN conjunct2, THEN conjunct2, THEN conjunct2,
             THEN conjunct2, THEN conjunct2] L0 E0 by simp
qed

lemma bnn_train_succeeds:
  assumes "bnn_ok lib" and "batch_size \<le> length Gtr" and "0 < n_epochs"
  shows "\<exists>model s b. bnn_train lib Gtr Gte n_epochs kb i g bm evs = Inr (model, s, b)"
proof -
  define s0 where
    "s0 = \<lparr>ls_model = fst (init_model lib g), ls_rng = snd (init_model lib g),
           ls_status = Map.empty, best_loss = None, best_model = bm, count = 0,
           val_losses = [], snapshots = [], ls_events = evs\<rparr>"
  from epoch_loop_succeeds [OF assms(1,2), of kb Gte i 0 n_epochs s0]
  obtain s b where el: "epoch_loop lib kb Gtr Gte i 0 n_epochs s0 = Inr (s, b)" by blast
  have inv0: "loop_inv s0" by (simp add: loop_inv_def s0_def best_before_def)
  have c0: "count s0 < patience" by (simp add: s0_def patience_def)
  have nw0: "\<forall>e. \<not> stale_window (val_losses s0) e" by (simp add: s0_def not_stale_window_Nil)
  note R = epoch_loop_result [OF el inv0 c0 nw0]
  have "loop_inv s" and "val_losses s \<noteq> []" using R assms(3) by blast+
  then obtain model where "best_model s = Some model" by (auto simp: loop_inv_def Let_def)
  then show ?thesis using el
    by (simp add: bnn_train_def split_beta Let_def s0_def [symmetric])
qed

lemma bnn_trial_body_Inr:
  assumes "bnn_trial_body lib X y n_epochs kb i st = Inr st'"
  shows "\<exists>t. bs_trials st' = bs_trials st @ [t]
           \<and> bnn_trial_ok lib X y n_epochs kb i t
           \<and> bs_r2_list st' = bs_r2_list st @ [bt_score t]
           \<and> bs_rmse_list st' = bs_rmse_list st @ [bt_rmse t]
           \<and> bs_mae_list st' = bs_mae_list st @ [bt_mae t]
           \<and> bs_nlpd_list st' = bs_nlpd_list st @ [bt_uq_nlpd t]
           \<and> confidence_loop (bt_y_test t) (bt_y_pred t) (bt_ranked_confidence_list t) i
                (bs_mae_confidence_list st) = Inr (bs_mae_confidence_list st')
           \<and> bs_events st' = bs_events st @ bnn_trial_events i (length (val_losses (bt_loop t)))
           \<and> bs_y_test st' = bt_y_test t
           \<and> bs_best_model st' = Some (bt_model t)"
proof -
  from assms obtain it ie g00 Xtr Xte ytr0 yte0 g0 model s b y_pred_std y_var g2 uq M score rmse mae
    where si: "split_indices lib (length X) test_set_size (Some i) (bs_rng st) = Inr ((it, ie), g00)"
      and tts: "train_test_split lib X y test_set_size (Some i) (bs_rng st) = Inr ((Xtr, Xte, ytr0, yte0), g0)"
      and tr: "bnn_train lib
                 (graph_append_label Xtr (fst (snd (transform_data lib ytr0 ytr0 yte0 yte0))))
                 (graph_append_label Xte (fst (snd (snd (snd (transform_data lib ytr0 ytr0 yte0 yte0))))))
                 n_epochs kb i g0 (bs_best_model st) (bs_events st @ [Split i]) = Inr (model, s, b)"
      and pr: "predict (forward lib) (eval_mode lib model)
                 (graph_append_label Xte (fst (snd (snd (snd (transform_data lib ytr0 ytr0 yte0 yte0))))))
                 100 (ls_rng s) = Inr ((y_pred_std, y_var), g2)"
      and nl: "nlpd (fst (snd (snd (snd (transform_data lib ytr0 ytr0 yte0 yte0))))) y_pred_std (map sqrt y_var) = Inr uq"
      and cl: "confidence_loop
                 (inverse_transform lib (snd (snd (snd (snd (transform_data lib ytr0 ytr0 yte0 yte0)))))
                    (fst (snd (snd (snd (transform_data lib ytr0 ytr0 yte0 yte0))))))
                 (inverse_transform lib (snd (snd (snd (snd (transform_data lib ytr0 ytr0 yte0 yte0))))) y_pred_std)
                 (argsort lib y_var) i (bs_mae_confidence_list st) = Inr M"
      and ts: "test_scores lib
                 (inverse_transform lib (snd (snd (snd (snd (transform_data lib ytr0 ytr0 yte0 yte0)))))
                    (fst (snd (snd (snd (transform_data lib ytr0 ytr0 yte0 yte0))))))
                 (inverse_transform lib (snd (snd (snd (snd (transform_data lib ytr0 ytr0 yte0 yte0))))) y_pred_std)
                 = Inr (score, rmse, mae)"
      and st': "st' = \<lparr>bs_rng = g2,
          bs_best_model = Some (eval_mode lib model),
          bs_y_test = inverse_transform lib (snd (snd (snd (snd (transform_data lib ytr0 ytr0 yte0 yte0)))))
                    (fst (snd (snd (snd (transform_data lib ytr0 ytr0 yte0 yte0))))),
          bs_r2_list = bs_r2_list st @ [score],
          bs_rmse_list = bs_rmse_list st @ [rmse],
          bs_mae_list = bs_mae_list st @ [mae],
          bs_nlpd_list = bs_nlpd_list st @ [uq],
          bs_mae_confidence_list = M,
          bs_events = ls_events s @ [Predict i, Nlpd i, Confidence i, Scores i],
          bs_trials = bs_trials st @
            [\<lparr>bt_ind_train = it, bt_ind_test = ie,
              bt_X_train = Xtr, bt_X_test = Xte,
              bt_y_train_split = ytr0, bt_y_test_split = yte0,
              bt_y_scaler = snd (snd (snd (snd (transform_data lib ytr0 ytr0 yte0 yte0)))),
              bt_y_train_std = fst (snd (transform_data lib ytr0 ytr0 yte0 yte0)),
              bt_y_test_std = fst (snd (snd (snd (transform_data lib ytr0 ytr0 yte0 yte0)))),
              bt_loop = s, bt_break = b, bt_best_model = model, bt_model = eval_mode lib model,
              bt_y_pred_std = y_pred_std, bt_y_var = y_var, bt_uq_nlpd = uq,
              bt_y_pred = inverse_transform lib (snd (snd (snd (snd (transform_data lib ytr0 ytr0 yte0 yte0))))) y_pred_std,
              bt_y_test = inverse_transform lib (snd (snd (snd (snd (transform_data lib ytr0 ytr0 yte0 yte0)))))
                    (fst (snd (snd (snd (transform_data lib ytr0 ytr0 yte0 yte0))))),
              bt_ranked_confidence_list = argsort lib y_var,
              bt_score = score, bt_rmse = rmse, bt_mae = mae\<rparr>]\<rparr>"
    unfolding bnn_trial_body_def
    by (auto simp: bindE_eq_Inr split_beta Let_def)
  note ev = bnn_train_Inr(9) [OF tr]
  define t where "t = last (bs_trials st')"
  have tf: "bt_ind_train t = it" "bt_ind_test t = ie" "bt_X_train t = Xtr" "bt_X_test t = Xte"
    "bt_y_train_split t = ytr0" "bt_y_test_split t = yte0"
    "bt_y_scaler t = snd (snd (snd (snd (transform_data lib ytr0 ytr0 yte0 yte0))))"
    "bt_y_train_std t = fst (snd (transform_data lib ytr0 ytr0 yte0 yte0))"
    "bt_y_test_std t = fst (snd (snd (snd (transform_data lib ytr0 ytr0 yte0 yte0))))"
    "bt_loop t = s" "bt_break t = b" "bt_best_model t = model" "bt_model t = eval_mode lib model"
    "bt_y_pred_std t = y_pred_std" "bt_y_var t = y_var" "bt_uq_nlpd t = uq"
    "bt_y_pred t = inverse_transform lib (snd (snd (snd (snd (transform_data lib ytr0 ytr0 yte0 yte0))))) y_pred_std"
    "bt_y_test t = inverse_transform lib (snd (snd (snd (snd (transform_data lib ytr0 ytr0 yte0 yte0)))))
                    (fst (snd (snd (snd (transform_data lib ytr0 ytr0 yte0 yte0)))))"
    "bt_ranked_confidence_list t = argsort lib y_var"
    "bt_score t = score" "bt_rmse t = rmse" "bt_mae t = mae"
    by (simp_all add: t_def st')
  have 1: "bs_trials st' = bs_trials st @ [t]" by (simp add: t_def st')
  have 2: "bnn_trial_ok lib X y n_epochs kb i t"
    unfolding bnn_trial_ok_def Let_def tf
    apply (intro conjI allI)
                apply (rule split_indices_seeded(2) [OF si])
               apply (rule train_test_split_seeded(2) [OF tts])
              apply (rule refl)
             apply (rule refl)
            apply (rule refl)
           apply (rule exI, rule exI, rule exI, rule tr)
          apply (rule refl)
         apply (rule exI, rule pr)
        apply (rule nl)
       apply (rule refl)
      apply (rule refl)
     apply (rule refl)
    apply (rule ts)
    done
  have 3: "bs_r2_list st' = bs_r2_list st @ [bt_score t]"
    "bs_rmse_list st' = bs_rmse_list st @ [bt_rmse t]"
    "bs_mae_list st' = bs_mae_list st @ [bt_mae t]"
    "bs_nlpd_list st' = bs_nlpd_list st @ [bt_uq_nlpd t]"
    "bs_y_test st' = bt_y_test t"
    "bs_best_model st' = Some (bt_model t)"
    unfolding tf by (simp_all add: st')
  have 4: "confidence_loop (bt_y_test t) (bt_y_pred t) (bt_ranked_confidence_list t) i
                (bs_mae_confidence_list st) = Inr (bs_mae_confidence_list st')"
    unfolding tf using cl by (simp add: st')
  have 5: "bs_events st' = bs_events st @ bnn_trial_events i (length (val_losses (bt_loop t)))"
    unfolding tf by (simp add: st' ev bnn_trial_events_def)
  from 1 2 3 4 5 show ?thesis by blast
qed

lemma base_okD:
  assumes "base_ok lib"
  shows "mset (permutation lib seed n) = mset [0..<n]"
    and "mset (fst (global_permutation lib g n)) = mset [0..<n]"
    and "length (fst (snd (transform_data lib Xa ya Xb yb))) = length ya"
    and "length (fst (snd (snd (snd (transform_data lib Xa ya Xb yb))))) = length yb"
    and "length (inverse_transform lib sc v) = length v"
    and "mset (argsort lib v) = mset [0..<length v]"
    and "sorted (map (\<lambda>j. v ! j) (argsort lib v))"
  using assms by (simp_all add: base_ok_def)

lemma predict_lengths:
  assumes "predict fwd m X samples g = Inr ((means, var), g')"
    and "\<And>h. length (fst (fwd m X h)) = d"
  shows "length means = d" and "length var = d"
proof -
  from predict_succeeds [of samples fwd m X d g] predict_Inr(1) [OF assms(1)] assms(2)
  obtain means' var' g'' where "predict fwd m X samples g = Inr ((means', var'), g'')"
    "length means' = d" "length var' = d" by blast
  with assms(1) show "length means = d" and "length var = d" by simp_all
qed

lemma bnn_trial_ok_lengths:
  assumes ok: "bnn_ok lib" and data: "bnn_data_ok lib X y"
    and t: "bnn_trial_ok lib X y n_epochs kb i t"
  defines "n_test \<equiv> n_test_samples lib test_set_size (length X)"
  shows "length (bt_X_test t) = n_test" and "length (bt_y_test_split t) = n_test"
    and "length (bt_X_train t) = length X - n_test"
    and "length (bt_y_train_split t) = length X - n_test"
    and "length (bt_y_train_std t) = length X - n_test"
    and "length (bt_y_test_std t) = n_test"
    and "length (bt_y_pred_std t) = n_test" and "length (bt_y_var t) = n_test"
    and "length (bt_y_pred t) = n_test" and "length (bt_y_test t) = n_test"
    and "mset (bt_ranked_confidence_list t) = mset [0..<n_test]"
    and "sorted (map (\<lambda>j. bt_y_var t ! j) (bt_ranked_confidence_list t))"
    and "length (bt_ind_test t) = n_test" and "length (bt_ind_train t) = length X - n_test"
proof -
  have base: "base_ok lib" using ok by (simp add: bnn_ok_def)
  have len: "length y = length X" and lt: "n_test < length X"
    using data by (simp_all add: bnn_data_ok_def n_test_def batch_size_def)
  from t have tts: "train_test_split lib X y test_set_size (Some i) undefined
      = Inr ((bt_X_train t, bt_X_test t, bt_y_train_split t, bt_y_test_split t), undefined)"
    by (simp add: bnn_trial_ok_def Let_def)
  from train_test_split_Inr [OF base len lt [unfolded n_test_def], of "Some i" undefined] tts
  show 1: "length (bt_X_test t) = n_test" and 2: "length (bt_y_test_split t) = n_test"
    and 3: "length (bt_X_train t) = length X - n_test"
    and 4: "length (bt_y_train_split t) = length X - n_test"
    by (auto simp: n_test_def)
  from t have si: "split_indices lib (length X) test_set_size (Some i) undefined
      = Inr ((bt_ind_train t, bt_ind_test t), undefined)"
    by (simp add: bnn_trial_ok_def Let_def)
  from split_indices_Inr [OF base lt [unfolded n_test_def], of "Some i" undefined] si
  show "length (bt_ind_test t) = n_test" and "length (bt_ind_train t) = length X - n_test"
    by (auto simp: n_test_def)
  from t have e3: "bt_y_train_std t = fst (snd (transform_data lib (bt_y_train_split t)
        (bt_y_train_split t) (bt_y_test_split t) (bt_y_test_split t)))"
    and e4: "bt_y_test_std t = fst (snd (snd (snd (transform_data lib (bt_y_train_split t)
        (bt_y_train_split t) (bt_y_test_split t) (bt_y_test_split t)))))"
    by (simp_all add: bnn_trial_ok_def Let_def)
  show 5: "length (bt_y_train_std t) = length X - n_test"
    unfolding e3 by (simp add: base_okD(3) [OF base] 4)
  show 6: "length (bt_y_test_std t) = n_test"
    unfolding e4 by (simp add: base_okD(4) [OF base] 2)
  from t obtain g' where pr: "predict (forward lib) (bt_model t)
      (graph_append_label (bt_X_test t) (bt_y_test_std t)) 100 (ls_rng (bt_loop t))
        = Inr ((bt_y_pred_std t, bt_y_var t), g')"
    by (auto simp: bnn_trial_ok_def Let_def)
  have fw: "\<And>h. length (fst (forward lib (bt_model t)
      (graph_append_label (bt_X_test t) (bt_y_test_std t)) h)) = n_test"
    using ok by (simp add: bnn_ok_def graph_append_label_def 1 6)
  from predict_lengths [OF pr fw]
  show 7: "length (bt_y_pred_std t) = n_test" and 8: "length (bt_y_var t) = n_test" .
  from t have e1: "bt_y_pred t = inverse_transform lib (bt_y_scaler t) (bt_y_pred_std t)"
    and e2: "bt_y_test t = inverse_transform lib (bt_y_scaler t) (bt_y_test_std t)"
    by (simp_all add: bnn_trial_ok_def Let_def)
  show "length (bt_y_pred t) = n_test" unfolding e1 by (simp add: base_okD(5) [OF base] 7)
  show "length (bt_y_test t) = n_test" unfolding e2 by (simp add: base_okD(5) [OF base] 6)
  from t have r: "bt_ranked_confidence_list t = argsort lib (bt_y_var t)"
    by (simp add: bnn_trial_ok_def Let_def)
  show "mset (bt_ranked_confidence_list t) = mset [0..<n_test]"
    unfolding r using base_okD(6) [OF base, of "bt_y_var t"] 8 by simp
  show "sorted (map (\<lambda>j. bt_y_var t ! j) (bt_ranked_confidence_list t))"
    unfolding r by (rule base_okD(7) [OF base])
qed

lemma nlpd_succeeds: "y \<noteq> [] \<Longrightarrow> \<exists>v. nlpd y y_pred y_std = Inr v"
  by (simp add: nlpd_def)

lemma bnn_trial_body_succeeds:
  assumes ok: "bnn_ok lib" and data: "bnn_data_ok lib X y" and ne: "0 < n_epochs"
    and iM: "i < length (bs_mae_confidence_list st)"
    and row: "length (bs_mae_confidence_list st ! i) = n_test_samples lib test_set_size (length X)"
  shows "\<exists>st'. bnn_trial_body lib X y n_epochs kb i st = Inr st'"
proof -
  define n_test where "n_test = n_test_samples lib test_set_size (length X)"
  have base: "base_ok lib" using ok by (simp add: bnn_ok_def)
  have len: "length y = length X" and lt: "n_test < length X" and pos: "0 < n_test"
    and big: "batch_size \<le> length X - n_test"
    using data by (auto simp: bnn_data_ok_def n_test_def batch_size_def)
  from split_indices_Inr [OF base lt [unfolded n_test_def], of "Some i" "bs_rng st"]
  obtain it ie g00 where si: "split_indices lib (length X) test_set_size (Some i) (bs_rng st)
      = Inr ((it, ie), g00)" by blast
  from train_test_split_Inr [OF base len lt [unfolded n_test_def], of "Some i" "bs_rng st"]
  obtain Xtr Xte ytr0 yte0 g0 where
    tts: "train_test_split lib X y test_set_size (Some i) (bs_rng st)
            = Inr ((Xtr, Xte, ytr0, yte0), g0)"
    and l: "length Xte = n_test" "length yte0 = n_test"
      "length Xtr = length X - n_test" "length ytr0 = length X - n_test"
    by (auto simp: n_test_def)
  define td where "td = transform_data lib ytr0 ytr0 yte0 yte0"
  define y_train where "y_train = fst (snd td)"
  define y_test where "y_test = fst (snd (snd (snd td)))"
  define sc where "sc = snd (snd (snd (snd td)))"
  have ltd: "length y_train = length X - n_test" "length y_test = n_test"
    using base by (simp_all add: y_train_def y_test_def td_def base_ok_def l)
  define G_train where "G_train = graph_append_label Xtr y_train"
  define G_test where "G_test = graph_append_label Xte y_test"
  have lG: "length G_train = length X - n_test" "length G_test = n_test"
    by (simp_all add: G_train_def G_test_def graph_append_label_def l ltd)
  from bnn_train_succeeds [OF ok _ ne, of G_train G_test kb i g0 "bs_best_model st"
      "bs_events st @ [Split i]"] big lG
  obtain model s b where tr: "bnn_train lib G_train G_test n_epochs kb i g0 (bs_best_model st)
      (bs_events st @ [Split i]) = Inr (model, s, b)" by auto
  have fw: "\<And>h. length (fst (forward lib (eval_mode lib model) G_test h)) = n_test"
    using ok by (simp add: bnn_ok_def lG)
  from predict_succeeds [of 100 "forward lib" "eval_mode lib model" G_test n_test "ls_rng s"] fw
  obtain y_pred_std y_var g2 where
    pr: "predict (forward lib) (eval_mode lib model) G_test 100 (ls_rng s)
           = Inr ((y_pred_std, y_var), g2)"
    and lp: "length y_pred_std = n_test" "length y_var = n_test" by auto
  have "y_test \<noteq> []" using ltd pos by auto
  from nlpd_succeeds [OF this, of y_pred_std "map sqrt y_var"]
  obtain uq where nl: "nlpd y_test y_pred_std (map sqrt y_var) = Inr uq" by blast
  define y_pred where "y_pred = inverse_transform lib sc y_pred_std"
  define y_test' where "y_test' = inverse_transform lib sc y_test"
  have li: "length y_pred = n_test" "length y_test' = n_test"
    using base by (simp_all add: y_pred_def y_test'_def base_ok_def lp ltd)
  have ms: "mset (argsort lib y_var) = mset [0..<n_test]"
    using base lp by (simp add: base_ok_def)
  note pf = perm_facts [OF ms]
  have cl: "confidence_loop y_test' y_pred (argsort lib y_var) i (bs_mae_confidence_list st)
      = Inr ((bs_mae_confidence_list st)[i := confidence_row y_test' y_pred (argsort lib y_var)])"
  proof (rule confidence_loop_Inr)
    show "length y_pred = length y_test'" by (simp add: li)
    show "set (argsort lib y_var) \<subseteq> {0..<length y_test'}" by (simp add: pf li)
    show "argsort lib y_var \<noteq> []" using pf(1) pos by auto
    show "i < length (bs_mae_confidence_list st)" by (rule iM)
    show "length (bs_mae_confidence_list st ! i) = length y_test'"
      by (simp add: row li n_test_def)
  qed
  have "y_test' \<noteq> []" using li pos by auto
  from test_scores_Inr [OF _ this, of y_pred lib] li
  have ts: "\<exists>r. test_scores lib y_test' y_pred = Inr r" by simp
  show ?thesis
    unfolding bnn_trial_body_def
    using ts
    by (simp add: si tts td_def [symmetric] split_beta Let_def y_train_def [symmetric]
        y_test_def [symmetric] sc_def [symmetric] G_train_def [symmetric] G_test_def [symmetric]
        tr pr nl y_pred_def [symmetric] y_test'_def [symmetric] cl bindE_eq_Inr)
qed

lemma bindE_InrE:
  assumes "bindE r f = Inr w"
  obtains v where "r = Inr v" and "f v = Inr w"
  using assms by (cases r) simp_all

lemma bnn_trial_step:
  fixes lib :: "('x, 'm, 'sc, 'g, 'z) bnn_lib_scheme" and st :: "('x, 'm, 'sc, 'g) bnn_state"
  assumes ok: "bnn_ok lib" and data: "bnn_data_ok lib X y" and ne: "0 < n_epochs"
    and nt: "n_test = n_test_samples lib test_set_size (length X)"
    and inv: "bnn_inv lib X y n_epochs kb n_trials n_test i st" and i: "i < n_trials"
  shows "\<exists>st'. bnn_trial_body lib X y n_epochs kb i st = Inr st'
           \<and> bnn_inv lib X y n_epochs kb n_trials n_test (Suc i) st'"
proof -
  define row where "row = (\<lambda>t :: ('x, 'm, 'sc, 'g) bnn_trial.
     confidence_row (bt_y_test t) (bt_y_pred t) (bt_ranked_confidence_list t))"
  define z where "z = replicate n_test (0 :: real)"
  define ev where "ev = (\<lambda>ts j. bnn_trial_events j (length (val_losses (bt_loop (ts ! j :: ('x, 'm, 'sc, 'g) bnn_trial)))))"
  from inv have len: "length (bs_trials st) = i"
    and oks: "\<And>j. j < i \<Longrightarrow> bnn_trial_ok lib X y n_epochs kb j (bs_trials st ! j)"
    and lens: "\<And>j. j < i \<Longrightarrow> length (bt_y_test (bs_trials st ! j)) = n_test"
    and lists: "bs_r2_list st = map bt_score (bs_trials st)"
      "bs_rmse_list st = map bt_rmse (bs_trials st)"
      "bs_mae_list st = map bt_mae (bs_trials st)"
      "bs_nlpd_list st = map bt_uq_nlpd (bs_trials st)"
    and M: "bs_mae_confidence_list st = map row (bs_trials st) @ replicate (n_trials - i) z"
    and evs: "bs_events st = SizeSplit # concat (map (ev (bs_trials st)) [0..<i])"
    by (simp_all add: bnn_inv_def row_def z_def ev_def)
  have rep: "replicate (n_trials - i) z = z # replicate (n_trials - Suc i) z"
    using i by (cases "n_trials - i") (simp_all add: Suc_diff_Suc)
  have iM: "i < length (bs_mae_confidence_list st)" using i by (simp add: M len)
  have Mi: "bs_mae_confidence_list st ! i = z" by (simp add: M nth_append len rep)
  have rowlen: "length (bs_mae_confidence_list st ! i) = n_test_samples lib test_set_size (length X)"
    by (simp add: Mi z_def nt)
  from bnn_trial_body_succeeds [OF ok data ne iM rowlen, of kb]
  obtain st' where body: "bnn_trial_body lib X y n_epochs kb i st = Inr st'" by blast
  from bnn_trial_body_Inr [OF body] obtain t where
    tr: "bs_trials st' = bs_trials st @ [t]"
    and t: "bnn_trial_ok lib X y n_epochs kb i t"
    and l': "bs_r2_list st' = bs_r2_list st @ [bt_score t]"
      "bs_rmse_list st' = bs_rmse_list st @ [bt_rmse t]"
      "bs_mae_list st' = bs_mae_list st @ [bt_mae t]"
      "bs_nlpd_list st' = bs_nlpd_list st @ [bt_uq_nlpd t]"
    and cl: "confidence_loop (bt_y_test t) (bt_y_pred t) (bt_ranked_confidence_list t) i
                (bs_mae_confidence_list st) = Inr (bs_mae_confidence_list st')"
    and ev': "bs_events st' = bs_events st @ bnn_trial_events i (length (val_losses (bt_loop t)))"
    and yt: "bs_y_test st' = bt_y_test t"
    by blast
  note L = bnn_trial_ok_lengths [OF ok data t, folded nt]
  have pos: "0 < n_test" using data by (simp add: bnn_data_ok_def nt)
  note pf = perm_facts [OF L(11)]
  have "confidence_loop (bt_y_test t) (bt_y_pred t) (bt_ranked_confidence_list t) i
          (bs_mae_confidence_list st)
        = Inr ((bs_mae_confidence_list st)[i := row t])"
    unfolding row_def
  proof (rule confidence_loop_Inr)
    show "length (bt_y_pred t) = length (bt_y_test t)" by (simp add: L)
    show "set (bt_ranked_confidence_list t) \<subseteq> {0..<length (bt_y_test t)}" by (simp add: pf L)
    show "bt_ranked_confidence_list t \<noteq> []" using pf(1) pos by auto
    show "i < length (bs_mae_confidence_list st)" by (rule iM)
    show "length (bs_mae_confidence_list st ! i) = length (bt_y_test t)"
      by (simp add: Mi z_def L)
  qed
  with cl have "bs_mae_confidence_list st' = (bs_mae_confidence_list st)[i := row t]" by simp
  also have "\<dots> = map row (bs_trials st @ [t]) @ replicate (n_trials - Suc i) z"
    by (simp add: M list_update_append len rep)
  finally have M': "bs_mae_confidence_list st'
      = map row (bs_trials st') @ replicate (n_trials - Suc i) z" by (simp add: tr)
  have nth': "bs_trials st' ! j = (if j < i then bs_trials st ! j else t)" if "j \<le> i" for j
    using that by (auto simp: tr nth_append len)
  have evmap: "map (ev (bs_trials st')) [0..<i] = map (ev (bs_trials st)) [0..<i]"
    by (rule map_cong) (simp_all add: ev_def nth')
  have evs': "bs_events st' = SizeSplit # concat (map (ev (bs_trials st')) [0..<Suc i])"
    by (simp add: ev' evs evmap) (simp add: ev_def nth')
  have inv': "bnn_inv lib X y n_epochs kb n_trials n_test (Suc i) st'"
    unfolding bnn_inv_def
  proof (intro conjI allI impI)
    show "length (bs_trials st') = Suc i" by (simp add: tr len)
    show "bnn_trial_ok lib X y n_epochs kb j (bs_trials st' ! j)" if "j < Suc i" for j
      using that oks [of j] t by (cases "j < i") (simp_all add: nth' less_Suc_eq)
    show "length (bt_y_test (bs_trials st' ! j)) = n_test" if "j < Suc i" for j
      using that lens [of j] L(10) by (cases "j < i") (simp_all add: nth' less_Suc_eq)
    show "bs_r2_list st' = map bt_score (bs_trials st')" by (simp add: l' lists tr)
    show "bs_rmse_list st' = map bt_rmse (bs_trials st')" by (simp add: l' lists tr)
    show "bs_mae_list st' = map bt_mae (bs_trials st')" by (simp add: l' lists tr)
    show "bs_nlpd_list st' = map bt_uq_nlpd (bs_trials st')" by (simp add: l' lists tr)
    show "bs_mae_confidence_list st' =
       map (\<lambda>t. confidence_row (bt_y_test t) (bt_y_pred t) (bt_ranked_confidence_list t))
         (bs_trials st') @ replicate (n_trials - Suc i) (replicate n_test 0)"
      using M' by (simp add: row_def z_def)
    show "bs_events st' =
       SizeSplit # concat (map (\<lambda>j. bnn_trial_events j
                                  (length (val_losses (bt_loop (bs_trials st' ! j))))) [0..<Suc i])"
      using evs' by (simp add: ev_def)
    show "length (bs_y_test st') = n_test" by (simp add: yt L)
    show "bs_y_test st' = bt_y_test (last (bs_trials st'))" by (simp add: yt tr)
  qed
  with body show ?thesis by blast
qed

lemma confidence_curve_Inr:
  "y_test \<noteq> [] \<Longrightarrow> \<exists>c. confidence_curve y_test n M = Inr c
      \<and> mae_mean c = rev (mean_axis0 n M) \<and> mae_std c = rev (std_axis0 n M)"
  by (simp add: confidence_curve_def Let_def)

lemma bnn_evaluate_model_run:
  fixes lib :: "('x, 'm, 'sc, 'g, 'z) bnn_lib_scheme"
  assumes ok: "bnn_ok lib" and data: "bnn_data_ok lib X y" and ne: "0 < n_epochs"
    and nt: "n_test = n_test_samples lib test_set_size (length X)"
  shows "\<exists>r st. bnn_evaluate_model lib X y n_epochs n_trials kb g = Inr (r, st)
           \<and> bnn_inv lib X y n_epochs kb n_trials n_test n_trials st
           \<and> mae_mean (res_curve r) = rev (mean_axis0 n_test (bs_mae_confidence_list st))
           \<and> mae_std (res_curve r) = rev (std_axis0 n_test (bs_mae_confidence_list st))
           \<and> res_mae r = bs_mae_list st \<and> res_rmse r = bs_rmse_list st
           \<and> res_r2 r = bs_r2_list st \<and> res_nlpd r = bs_nlpd_list st
           \<and> res_summary_r2 r = summary (bs_r2_list st)
           \<and> res_summary_rmse r = summary (bs_rmse_list st)
           \<and> res_summary_mae r = summary (bs_mae_list st)
           \<and> res_summary_nlpd r = summary (bs_nlpd_list st)
           \<and> res_events r = bs_events st @ [Summary, Plot (res_curve r)]"
proof -
  have base: "base_ok lib" using ok by (simp add: bnn_ok_def)
  have len: "length y = length X" and lt: "n_test < length X" and pos: "0 < n_test"
    using data by (auto simp: bnn_data_ok_def nt batch_size_def)
  from train_test_split_Inr [where X = y and y = y and ts = test_set_size and rs = None and g = g,
      OF base refl] lt len
  obtain a b c y_test g1 where
    pre: "train_test_split lib y y test_set_size None g = Inr ((a, b, c, y_test), g1)"
    and ly: "length y_test = n_test"
    by (auto simp: nt)
  define st0 :: "('x, 'm, 'sc, 'g) bnn_state" where
    "st0 = \<lparr>bs_rng = g1, bs_best_model = None, bs_y_test = y_test,
            bs_r2_list = [], bs_rmse_list = [], bs_mae_list = [], bs_nlpd_list = [],
            bs_mae_confidence_list = replicate n_trials (replicate n_test 0),
            bs_events = [SizeSplit], bs_trials = []\<rparr>"
  have inv0: "bnn_inv lib X y n_epochs kb n_trials n_test 0 st0"
    by (simp add: bnn_inv_def st0_def ly)
  from for_each_upt_total [of "bnn_inv lib X y n_epochs kb n_trials n_test" st0 n_trials
      "bnn_trial_body lib X y n_epochs kb", OF inv0 bnn_trial_step [OF ok data ne nt]]
  obtain st where loop: "for_each (bnn_trial_body lib X y n_epochs kb) [0..<n_trials] st0 = Inr st"
    and inv: "bnn_inv lib X y n_epochs kb n_trials n_test n_trials st" by blast
  have "bs_y_test st \<noteq> []" using inv pos by (auto simp: bnn_inv_def)
  from confidence_curve_Inr [OF this, of n_test "bs_mae_confidence_list st"]
  obtain c where cc: "confidence_curve (bs_y_test st) n_test (bs_mae_confidence_list st) = Inr c"
    and c: "mae_mean c = rev (mean_axis0 n_test (bs_mae_confidence_list st))"
      "mae_std c = rev (std_axis0 n_test (bs_mae_confidence_list st))" by blast
  show ?thesis
    unfolding bnn_evaluate_model_def
    using inv c
    by (simp add: pre Let_def ly st0_def [symmetric] loop cc)
qed

lemma gp_trial_body_Inr:
  assumes "gp_trial_body lib test_size X y i st = Inr st'"
  shows "\<exists>t. gs_trials st' = gs_trials st @ [t]
           \<and> gp_trial_ok lib test_size X y i t
           \<and> gs_r2_list st' = gs_r2_list st @ [gt_score t]
           \<and> gs_rmse_list st' = gs_rmse_list st @ [gt_rmse t]
           \<and> gs_mae_list st' = gs_mae_list st @ [gt_mae t]
           \<and> confidence_loop (gt_y_test t) (gt_y_pred t) (gt_ranked_confidence_list t) i
                (gs_mae_confidence_list st) = Inr (gs_mae_confidence_list st')
           \<and> gs_events st' = gs_events st @ gp_trial_events i
           \<and> gs_y_test st' = gt_y_test t
           \<and> gs_rng st' = gs_rng st"
proof -
  from assms obtain it ie g00 Xtr Xte ytr0 yte0 g0 M mse_stan mse_train score rmse mae
    where si: "split_indices lib (length X) test_size (Some i) (gs_rng st) = Inr ((it, ie), g00)"
      and tts: "train_test_split lib X y test_size (Some i) (gs_rng st) = Inr ((Xtr, Xte, ytr0, yte0), g0)"
      and cl: "confidence_loop
                 (inverse_transform lib (snd (snd (snd (snd (transform_data lib Xtr ytr0 Xte yte0)))))
                    (fst (snd (snd (snd (transform_data lib Xtr ytr0 Xte yte0))))))
                 (inverse_transform lib (snd (snd (snd (snd (transform_data lib Xtr ytr0 Xte yte0)))))
                    (fst (gp_posterior lib (gp_fit lib (as_tensor lib Xtr)
                            (fst (snd (transform_data lib Xtr ytr0 Xte yte0)))) (as_tensor lib Xte))))
                 (argsort lib (snd (gp_posterior lib (gp_fit lib (as_tensor lib Xtr)
                            (fst (snd (transform_data lib Xtr ytr0 Xte yte0)))) (as_tensor lib Xte))))
                 i (gs_mae_confidence_list st) = Inr M"
      and ts: "test_scores lib
                 (inverse_transform lib (snd (snd (snd (snd (transform_data lib Xtr ytr0 Xte yte0)))))
                    (fst (snd (snd (snd (transform_data lib Xtr ytr0 Xte yte0))))))
                 (inverse_transform lib (snd (snd (snd (snd (transform_data lib Xtr ytr0 Xte yte0)))))
                    (fst (gp_posterior lib (gp_fit lib (as_tensor lib Xtr)
                            (fst (snd (transform_data lib Xtr ytr0 Xte yte0)))) (as_tensor lib Xte))))
                 = Inr (score, rmse, mae)"
      and st': "st' = \<lparr>gs_rng = g0,
          gs_y_test = inverse_transform lib (snd (snd (snd (snd (transform_data lib Xtr ytr0 Xte yte0)))))
                    (fst (snd (snd (snd (transform_data lib Xtr ytr0 Xte yte0))))),
          gs_r2_list = gs_r2_list st @ [score],
          gs_rmse_list = gs_rmse_list st @ [rmse],
          gs_mae_list = gs_mae_list st @ [mae],
          gs_mae_confidence_list = M,
          gs_events = gs_events st @
            [Split i, Fit i, Predict i, Confidence i, TrainPredict i, Scores i],
          gs_trials = gs_trials st @
            [\<lparr>gt_ind_train = it, gt_ind_test = ie,
              gt_X_train_split = Xtr, gt_X_test_split = Xte,
              gt_y_train_split = ytr0, gt_y_test_split = yte0,
              gt_y_scaler = snd (snd (snd (snd (transform_data lib Xtr ytr0 Xte yte0)))),
              gt_X_train = as_tensor lib Xtr, gt_X_test = as_tensor lib Xte,
              gt_y_train_std = fst (snd (transform_data lib Xtr ytr0 Xte yte0)),
              gt_y_test_std = fst (snd (snd (snd (transform_data lib Xtr ytr0 Xte yte0)))),
              gt_model = gp_fit lib (as_tensor lib Xtr) (fst (snd (transform_data lib Xtr ytr0 Xte yte0))),
              gt_y_pred_std = fst (gp_posterior lib (gp_fit lib (as_tensor lib Xtr)
                            (fst (snd (transform_data lib Xtr ytr0 Xte yte0)))) (as_tensor lib Xte)),
              gt_y_var = snd (gp_posterior lib (gp_fit lib (as_tensor lib Xtr)
                            (fst (snd (transform_data lib Xtr ytr0 Xte yte0)))) (as_tensor lib Xte)),
              gt_y_pred = inverse_transform lib (snd (snd (snd (snd (transform_data lib Xtr ytr0 Xte yte0)))))
                    (fst (gp_posterior lib (gp_fit lib (as_tensor lib Xtr)
                            (fst (snd (transform_data lib Xtr ytr0 Xte yte0)))) (as_tensor lib Xte))),
              gt_y_test = inverse_transform lib (snd (snd (snd (snd (transform_data lib Xtr ytr0 Xte yte0)))))
                    (fst (snd (snd (snd (transform_data lib Xtr ytr0 Xte yte0))))),
              gt_ranked_confidence_list = argsort lib (snd (gp_posterior lib (gp_fit lib (as_tensor lib Xtr)
                            (fst (snd (transform_data lib Xtr ytr0 Xte yte0)))) (as_tensor lib Xte))),
              gt_train_rmse_stan = sqrt mse_stan, gt_train_rmse = sqrt mse_train,
              gt_score = score, gt_rmse = rmse, gt_mae = mae\<rparr>]\<rparr>"
    unfolding gp_trial_body_def
    by (auto simp: bindE_eq_Inr split_beta Let_def)
  note g0 = train_test_split_seeded(1) [OF tts]
  define t where "t = last (gs_trials st')"
  define td where "td = transform_data lib Xtr ytr0 Xte yte0"
  have tf: "gt_ind_train t = it" "gt_ind_test t = ie" "gt_X_train_split t = Xtr"
    "gt_X_test_split t = Xte" "gt_y_train_split t = ytr0" "gt_y_test_split t = yte0"
    "gt_y_scaler t = snd (snd (snd (snd td)))"
    "gt_X_train t = as_tensor lib Xtr" "gt_X_test t = as_tensor lib Xte"
    "gt_y_train_std t = fst (snd td)"
    "gt_y_test_std t = fst (snd (snd (snd td)))"
    "gt_model t = gp_fit lib (as_tensor lib Xtr) (fst (snd td))"
    "gt_y_pred_std t = fst (gp_posterior lib (gp_fit lib (as_tensor lib Xtr) (fst (snd td))) (as_tensor lib Xte))"
    "gt_y_var t = snd (gp_posterior lib (gp_fit lib (as_tensor lib Xtr) (fst (snd td))) (as_tensor lib Xte))"
    "gt_y_pred t = inverse_transform lib (snd (snd (snd (snd td))))
       (fst (gp_posterior lib (gp_fit lib (as_tensor lib Xtr) (fst (snd td))) (as_tensor lib Xte)))"
    "gt_y_test t = inverse_transform lib (snd (snd (snd (snd td)))) (fst (snd (snd (snd td))))"
    "gt_ranked_confidence_list t = argsort lib
       (snd (gp_posterior lib (gp_fit lib (as_tensor lib Xtr) (fst (snd td))) (as_tensor lib Xte)))"
    "gt_score t = score" "gt_rmse t = rmse" "gt_mae t = mae"
    by (simp_all add: t_def st' td_def)
  have 1: "gs_trials st' = gs_trials st @ [t]" by (simp add: t_def st')
  have 2: "gp_trial_ok lib test_size X y i t"
    unfolding gp_trial_ok_def Let_def tf td_def [symmetric]
    apply (intro conjI allI)
                apply (rule split_indices_seeded(2) [OF si])
               apply (rule train_test_split_seeded(2) [OF tts])
              apply (rule refl)
             apply (rule refl)
            apply (rule refl)
           apply (rule refl)
          apply (rule refl)
         apply (rule refl)
        apply simp
       apply (rule refl)
      apply (rule refl)
     apply (rule refl)
    apply (rule ts [folded td_def])
    done
  have 3: "gs_r2_list st' = gs_r2_list st @ [gt_score t]"
    "gs_rmse_list st' = gs_rmse_list st @ [gt_rmse t]"
    "gs_mae_list st' = gs_mae_list st @ [gt_mae t]"
    "gs_y_test st' = gt_y_test t"
    "gs_rng st' = gs_rng st"
    "gs_events st' = gs_events st @ gp_trial_events i"
    unfolding tf by (simp_all add: st' td_def g0 gp_trial_events_def)
  have 4: "confidence_loop (gt_y_test t) (gt_y_pred t) (gt_ranked_confidence_list t) i
                (gs_mae_confidence_list st) = Inr (gs_mae_confidence_list st')"
    unfolding tf using cl by (simp add: st' td_def)
  from 1 2 3 4 show ?thesis by blast
qed

lemma gp_trial_ok_lengths:
  assumes ok: "gp_ok lib" and data: "gp_data_ok lib test_size X y"
    and t: "gp_trial_ok lib test_size X y i t"
  defines "n_test \<equiv> n_test_samples lib test_size (length X)"
  shows "length (gt_X_test_split t) = n_test" and "length (gt_y_test_split t) = n_test"
    and "length (gt_X_train_split t) = length X - n_test"
    and "length (gt_y_train_split t) = length X - n_test"
    and "length (gt_y_train_std t) = length X - n_test"
    and "length (gt_y_test_std t) = n_test"
    and "length (gt_y_pred_std t) = n_test" and "length (gt_y_var t) = n_test"
    and "length (gt_y_pred t) = n_test" and "length (gt_y_test t) = n_test"
    and "mset (gt_ranked_confidence_list t) = mset [0..<n_test]"
    and "sorted (map (\<lambda>j. gt_y_var t ! j) (gt_ranked_confidence_list t))"
    and "length (gt_ind_test t) = n_test" and "length (gt_ind_train t) = length X - n_test"
proof -
  have base: "base_ok lib" using ok by (simp add: gp_ok_def)
  have len: "length y = length X" and lt: "n_test < length X"
    using data by (simp_all add: gp_data_ok_def n_test_def)
  from t have tts: "train_test_split lib X y test_size (Some i) undefined
      = Inr ((gt_X_train_split t, gt_X_test_split t, gt_y_train_split t, gt_y_test_split t), undefined)"
    by (simp add: gp_trial_ok_def Let_def)
  from train_test_split_Inr [OF base len lt [unfolded n_test_def], of "Some i" undefined] tts
  show 1: "length (gt_X_test_split t) = n_test" and 2: "length (gt_y_test_split t) = n_test"
    and 3: "length (gt_X_train_split t) = length X - n_test"
    and 4: "length (gt_y_train_split t) = length X - n_test"
    by (auto simp: n_test_def)
  from t have si: "split_indices lib (length X) test_size (Some i) undefined
      = Inr ((gt_ind_train t, gt_ind_test t), undefined)"
    by (simp add: gp_trial_ok_def Let_def)
  from split_indices_Inr [OF base lt [unfolded n_test_def], of "Some i" undefined] si
  show "length (gt_ind_test t) = n_test" and "length (gt_ind_train t) = length X - n_test"
    by (auto simp: n_test_def)
  from t have e3: "gt_y_train_std t = fst (snd (transform_data lib (gt_X_train_split t)
        (gt_y_train_split t) (gt_X_test_split t) (gt_y_test_split t)))"
    and e4: "gt_y_test_std t = fst (snd (snd (snd (transform_data lib (gt_X_train_split t)
        (gt_y_train_split t) (gt_X_test_split t) (gt_y_test_split t)))))"
    by (simp_all add: gp_trial_ok_def Let_def)
  show 5: "length (gt_y_train_std t) = length X - n_test"
    unfolding e3 by (simp add: base_okD(3) [OF base] 4)
  show 6: "length (gt_y_test_std t) = n_test"
    unfolding e4 by (simp add: base_okD(4) [OF base] 2)
  from t have pr: "(gt_y_pred_std t, gt_y_var t)
      = gp_posterior lib (gt_model t) (as_tensor lib (gt_X_test_split t))"
    by (simp add: gp_trial_ok_def Let_def)
  from ok have po: "length (fst (gp_posterior lib (gt_model t) (as_tensor lib (gt_X_test_split t))))
      = length (gt_X_test_split t)"
    "length (snd (gp_posterior lib (gt_model t) (as_tensor lib (gt_X_test_split t))))
      = length (gt_X_test_split t)"
    by (simp_all add: gp_ok_def)
  show 7: "length (gt_y_pred_std t) = n_test" and 8: "length (gt_y_var t) = n_test"
    using po by (simp_all add: pr [symmetric] 1)
  from t have e1: "gt_y_pred t = inverse_transform lib (gt_y_scaler t) (gt_y_pred_std t)"
    and e2: "gt_y_test t = inverse_transform lib (gt_y_scaler t) (gt_y_test_std t)"
    by (simp_all add: gp_trial_ok_def Let_def)
  show "length (gt_y_pred t) = n_test" unfolding e1 by (simp add: base_okD(5) [OF base] 7)
  show "length (gt_y_test t) = n_test" unfolding e2 by (simp add: base_okD(5) [OF base] 6)
  from t have r: "gt_ranked_confidence_list t = argsort lib (gt_y_var t)"
    by (simp add: gp_trial_ok_def Let_def)
  show "mset (gt_ranked_confidence_list t) = mset [0..<n_test]"
    unfolding r using base_okD(6) [OF base, of "gt_y_var t"] 8 by simp
  show "sorted (map (\<lambda>j. gt_y_var t ! j) (gt_ranked_confidence_list t))"
    unfolding r by (rule base_okD(7) [OF base])
qed

lemma mean_squared_error_Inr:
  "length b = length a \<Longrightarrow> a \<noteq> [] \<Longrightarrow> \<exists>v. mean_squared_error a b = Inr v"
  by (simp add: mean_squared_error_def)

lemma gp_trial_body_succeeds:
  fixes lib :: "('x, 't, 'gp, 'sc, 'g, 'z) gp_lib_scheme"
  assumes ok: "gp_ok lib" and data: "gp_data_ok lib test_size X y"
    and iM: "i < length (gs_mae_confidence_list st)"
    and row: "length (gs_mae_confidence_list st ! i) = n_test_samples lib test_size (length X)"
  shows "\<exists>st'. gp_trial_body lib test_size X y i st = Inr st'"
proof -
  define n_test where "n_test = n_test_samples lib test_size (length X)"
  have base: "base_ok lib" using ok by (simp add: gp_ok_def)
  have len: "length y = length X" and lt: "n_test < length X" and pos: "0 < n_test"
    using data by (simp_all add: gp_data_ok_def n_test_def)
  from split_indices_Inr [OF base lt [unfolded n_test_def], of "Some i" "gs_rng st"]
  obtain it ie g00 where si: "split_indices lib (length X) test_size (Some i) (gs_rng st)
      = Inr ((it, ie), g00)" by blast
  from train_test_split_Inr [OF base len lt [unfolded n_test_def], of "Some i" "gs_rng st"]
  obtain Xtr Xte ytr0 yte0 g0 where
    tts: "train_test_split lib X y test_size (Some i) (gs_rng st)
            = Inr ((Xtr, Xte, ytr0, yte0), g0)"
    and l: "length Xte = n_test" "length yte0 = n_test"
      "length Xtr = length X - n_test" "length ytr0 = length X - n_test"
    by (auto simp: n_test_def)
  define td where "td = transform_data lib Xtr ytr0 Xte yte0"
  define y_train where "y_train = fst (snd td)"
  define y_test where "y_test = fst (snd (snd (snd td)))"
  define sc where "sc = snd (snd (snd (snd td)))"
  have ltd: "length y_train = length X - n_test" "length y_test = n_test"
    using base by (simp_all add: y_train_def y_test_def td_def base_ok_def l)
  define model where "model = gp_fit lib (as_tensor lib Xtr) y_train"
  define post where "post = gp_posterior lib model (as_tensor lib Xte)"
  define y_pred where "y_pred = inverse_transform lib sc (fst post)"
  define y_test' where "y_test' = inverse_transform lib sc y_test"
  define y_pred_train where "y_pred_train = fst (gp_posterior lib model (as_tensor lib Xtr))"
  have lp: "length (fst post) = n_test" "length (snd post) = n_test"
    "length y_pred_train = length X - n_test"
    using ok by (simp_all add: post_def y_pred_train_def gp_ok_def l)
  have li: "length y_pred = n_test" "length y_test' = n_test"
    by (simp_all add: y_pred_def y_test'_def base_okD(5) [OF base] lp ltd)
  have ms: "mset (argsort lib (snd post)) = mset [0..<n_test]"
    using base_okD(6) [OF base, of "snd post"] lp by simp
  note pf = perm_facts [OF ms]
  have cl: "confidence_loop y_test' y_pred (argsort lib (snd post)) i (gs_mae_confidence_list st)
      = Inr ((gs_mae_confidence_list st)[i := confidence_row y_test' y_pred (argsort lib (snd post))])"
  proof (rule confidence_loop_Inr)
    show "length y_pred = length y_test'" by (simp add: li)
    show "set (argsort lib (snd post)) \<subseteq> {0..<length y_test'}" by (simp add: pf li)
    show "argsort lib (snd post) \<noteq> []" using pf(1) pos by auto
    show "i < length (gs_mae_confidence_list st)" by (rule iM)
    show "length (gs_mae_confidence_list st ! i) = length y_test'"
      by (simp add: row li n_test_def)
  qed
  have "y_test' \<noteq> []" using li pos by auto
  from test_scores_Inr [OF _ this, of y_pred lib] li
  have ts: "\<exists>r. test_scores lib y_test' y_pred = Inr r" by simp
  have "y_train \<noteq> []" using ltd lt by auto
  from mean_squared_error_Inr [OF _ this, of y_pred_train]
  obtain m1 where m1: "mean_squared_error y_train y_pred_train = Inr m1"
    by (auto simp: lp ltd)
  have "inverse_transform lib sc y_train \<noteq> []"
    using ltd lt base_okD(5) [OF base, of sc y_train] by auto
  from mean_squared_error_Inr [OF _ this, of "inverse_transform lib sc y_pred_train"]
  obtain m2 where m2: "mean_squared_error (inverse_transform lib sc y_train)
      (inverse_transform lib sc y_pred_train) = Inr m2"
    by (auto simp: lp ltd base_okD(5) [OF base])
  show ?thesis
    unfolding gp_trial_body_def
    using ts
    by (simp add: si tts td_def [symmetric] split_beta Let_def y_train_def [symmetric]
        y_test_def [symmetric] sc_def [symmetric] model_def [symmetric] post_def [symmetric]
        y_pred_def [symmetric] y_test'_def [symmetric] cl y_pred_train_def [symmetric] m1 m2
        bindE_eq_Inr)
qed

lemma gp_trial_step:
  fixes lib :: "('x, 't, 'gp, 'sc, 'g, 'z) gp_lib_scheme" and st :: "('x, 't, 'gp, 'sc, 'g) gp_state"
  assumes ok: "gp_ok lib" and data: "gp_data_ok lib test_size X y"
    and nt: "n_test = n_test_samples lib test_size (length X)"
    and inv: "gp_inv lib test_size X y n_trials n_test i st" and i: "i < n_trials"
  shows "\<exists>st'. gp_trial_body lib test_size X y i st = Inr st'
           \<and> gp_inv lib test_size X y n_trials n_test (Suc i) st'"
proof -
  define row where "row = (\<lambda>t :: ('x, 't, 'gp, 'sc) gp_trial.
     confidence_row (gt_y_test t) (gt_y_pred t) (gt_ranked_confidence_list t))"
  define z where "z = replicate n_test (0 :: real)"
  from inv have len: "length (gs_trials st) = i"
    and oks: "\<And>j. j < i \<Longrightarrow> gp_trial_ok lib test_size X y j (gs_trials st ! j)"
    and lens: "\<And>j. j < i \<Longrightarrow> length (gt_y_test (gs_trials st ! j)) = n_test"
    and lists: "gs_r2_list st = map gt_score (gs_trials st)"
      "gs_rmse_list st = map gt_rmse (gs_trials st)"
      "gs_mae_list st = map gt_mae (gs_trials st)"
    and M: "gs_mae_confidence_list st = map row (gs_trials st) @ replicate (n_trials - i) z"
    and evs: "gs_events st = SizeSplit # concat (map gp_trial_events [0..<i])"
    by (simp_all add: gp_inv_def row_def z_def)
  have rep: "replicate (n_trials - i) z = z # replicate (n_trials - Suc i) z"
    using i by (cases "n_trials - i") (simp_all add: Suc_diff_Suc)
  have iM: "i < length (gs_mae_confidence_list st)" using i by (simp add: M len)
  have Mi: "gs_mae_confidence_list st ! i = z" by (simp add: M nth_append len rep)
  have rowlen: "length (gs_mae_confidence_list st ! i) = n_test_samples lib test_size (length X)"
    by (simp add: Mi z_def nt)
  from gp_trial_body_succeeds [OF ok data iM rowlen]
  obtain st' where body: "gp_trial_body lib test_size X y i st = Inr st'" by blast
  from gp_trial_body_Inr [OF body] obtain t where
    tr: "gs_trials st' = gs_trials st @ [t]"
    and t: "gp_trial_ok lib test_size X y i t"
    and l': "gs_r2_list st' = gs_r2_list st @ [gt_score t]"
      "gs_rmse_list st' = gs_rmse_list st @ [gt_rmse t]"
      "gs_mae_list st' = gs_mae_list st @ [gt_mae t]"
    and cl: "confidence_loop (gt_y_test t) (gt_y_pred t) (gt_ranked_confidence_list t) i
                (gs_mae_confidence_list st) = Inr (gs_mae_confidence_list st')"
    and ev': "gs_events st' = gs_events st @ gp_trial_events i"
    and yt: "gs_y_test st' = gt_y_test t"
    by blast
  note L = gp_trial_ok_lengths [OF ok data t, folded nt]
  have pos: "0 < n_test" using data by (simp add: gp_data_ok_def nt)
  note pf = perm_facts [OF L(11)]
  have "confidence_loop (gt_y_test t) (gt_y_pred t) (gt_ranked_confidence_list t) i
          (gs_mae_confidence_list st)
        = Inr ((gs_mae_confidence_list st)[i := row t])"
    unfolding row_def
  proof (rule confidence_loop_Inr)
    show "length (gt_y_pred t) = length (gt_y_test t)" by (simp add: L)
    show "set (gt_ranked_confidence_list t) \<subseteq> {0..<length (gt_y_test t)}" by (simp add: pf L)
    show "gt_ranked_confidence_list t \<noteq> []" using pf(1) pos by auto
    show "i < length (gs_mae_confidence_list st)" by (rule iM)
    show "length (gs_mae_confidence_list st ! i) = length (gt_y_test t)"
      by (simp add: Mi z_def L)
  qed
  with cl have "gs_mae_confidence_list st' = (gs_mae_confidence_list st)[i := row t]" by simp
  also have "\<dots> = map row (gs_trials st @ [t]) @ replicate (n_trials - Suc i) z"
    by (simp add: M list_update_append len rep)
  finally have M': "gs_mae_confidence_list st'
      = map row (gs_trials st') @ replicate (n_trials - Suc i) z" by (simp add: tr)
  have nth': "gs_trials st' ! j = (if j < i then gs_trials st ! j else t)" if "j \<le> i" for j
    using that by (auto simp: tr nth_append len)
  have inv': "gp_inv lib test_size X y n_trials n_test (Suc i) st'"
    unfolding gp_inv_def
  proof (intro conjI allI impI)
    show "length (gs_trials st') = Suc i" by (simp add: tr len)
    show "gp_trial_ok lib test_size X y j (gs_trials st' ! j)" if "j < Suc i" for j
      using that oks [of j] t by (cases "j < i") (simp_all add: nth' less_Suc_eq)
    show "length (gt_y_test (gs_trials st' ! j)) = n_test" if "j < Suc i" for j
      using that lens [of j] L(10) by (cases "j < i") (simp_all add: nth' less_Suc_eq)
    show "gs_r2_list st' = map gt_score (gs_trials st')" by (simp add: l' lists tr)
    show "gs_rmse_list st' = map gt_rmse (gs_trials st')" by (simp add: l' lists tr)
    show "gs_mae_list st' = map gt_mae (gs_trials st')" by (simp add: l' lists tr)
    show "gs_mae_confidence_list st' =
       map (\<lambda>t. confidence_row (gt_y_test t) (gt_y_pred t) (gt_ranked_confidence_list t))
         (gs_trials st') @ replicate (n_trials - Suc i) (replicate n_test 0)"
      using M' by (simp add: row_def z_def)
    show "gs_events st' = SizeSplit # concat (map gp_trial_events [0..<Suc i])"
      by (simp add: ev' evs)
    show "length (gs_y_test st') = n_test" by (simp add: yt L)
    show "gs_y_test st' = gt_y_test (last (gs_trials st'))" by (simp add: yt tr)
  qed
  with body show ?thesis by blast
qed

lemma gp_evaluate_model_run:
  fixes lib :: "('x, 't, 'gp, 'sc, 'g, 'z) gp_lib_scheme"
  assumes ok: "gp_ok lib" and data: "gp_data_ok lib test_size X y"
    and nt: "n_test = n_test_samples lib test_size (length X)"
  shows "\<exists>r st. gp_evaluate_model lib n_trials test_size X y g = Inr (r, st)
           \<and> gp_inv lib test_size X y n_trials n_test n_trials st
           \<and> mae_mean (gr_curve r) = rev (mean_axis0 n_test (gs_mae_confidence_list st))
           \<and> mae_std (gr_curve r) = rev (std_axis0 n_test (gs_mae_confidence_list st))
           \<and> gr_summary_r2 r = summary (gs_r2_list st)
           \<and> gr_summary_rmse r = summary (gs_rmse_list st)
           \<and> gr_summary_mae r = summary (gs_mae_list st)
           \<and> gr_events r = gs_events st @ [Summary, Plot (gr_curve r)]"
proof -
  have base: "base_ok lib" using ok by (simp add: gp_ok_def)
  have len: "length y = length X" and lt: "n_test < length X" and pos: "0 < n_test"
    using data by (auto simp: gp_data_ok_def nt)
  from train_test_split_Inr [where X = X and y = y and ts = test_size and rs = None and g = g,
      OF base len] lt
  obtain a b c y_test g1 where
    pre: "train_test_split lib X y test_size None g = Inr ((a, b, c, y_test), g1)"
    and ly: "length y_test = n_test"
    by (auto simp: nt)
  define st0 :: "('x, 't, 'gp, 'sc, 'g) gp_state" where
    "st0 = \<lparr>gs_rng = g1, gs_y_test = y_test,
            gs_r2_list = [], gs_rmse_list = [], gs_mae_list = [],
            gs_mae_confidence_list = replicate n_trials (replicate n_test 0),
            gs_events = [SizeSplit], gs_trials = []\<rparr>"
  have inv0: "gp_inv lib test_size X y n_trials n_test 0 st0"
    by (simp add: gp_inv_def st0_def ly)
  from for_each_upt_total [of "gp_inv lib test_size X y n_trials n_test" st0 n_trials
      "gp_trial_body lib test_size X y", OF inv0 gp_trial_step [OF ok data nt]]
  obtain st where loop: "for_each (gp_trial_body lib test_size X y) [0..<n_trials] st0 = Inr st"
    and inv: "gp_inv lib test_size X y n_trials n_test n_trials st" by blast
  have "gs_y_test st \<noteq> []" using inv pos by (auto simp: gp_inv_def)
  from confidence_curve_Inr [OF this, of n_test "gs_mae_confidence_list st"]
  obtain c where cc: "confidence_curve (gs_y_test st) n_test (gs_mae_confidence_list st) = Inr c"
    and c: "mae_mean c = rev (mean_axis0 n_test (gs_mae_confidence_list st))"
      "mae_std c = rev (std_axis0 n_test (gs_mae_confidence_list st))" by blast
  show ?thesis
    unfolding gp_evaluate_model_def
    using inv c
    by (simp add: pre Let_def ly st0_def [symmetric] loop cc)
qed

lemma mset_rotate1: "mset (rotate1 xs) = mset xs"
  by (cases xs) simp_all

lemma mset_rotate: "mset (rotate n xs) = mset xs"
  by (induction n) (simp_all add: mset_rotate1)

lemma toy_base_ok: "base_ok toy_bnn" and toy_gp_base_ok: "base_ok toy_gp"
  by (simp_all add: base_ok_def toy_bnn_def toy_gp_def mset_rotate del: mset_upt)

lemma toy_bnn_ok: "bnn_ok toy_bnn"
  by (simp add: bnn_ok_def toy_base_ok) (simp add: toy_bnn_def)

lemma toy_gp_ok: "gp_ok toy_gp"
  by (simp add: gp_ok_def toy_gp_base_ok) (simp add: toy_gp_def)

lemma toy_bnn_data_ok: "bnn_data_ok toy_bnn toy_X toy_y"
  by (simp add: bnn_data_ok_def toy_bnn_def toy_X_def toy_y_def test_set_size_def batch_size_def)

lemma toy_gp_data_ok: "gp_data_ok toy_gp test_set_size toy_X toy_y"
  by (simp add: gp_data_ok_def toy_gp_def toy_X_def toy_y_def test_set_size_def)


lemma bnn_invD:
  assumes "bnn_inv lib X y n_epochs kb n_trials n_test i st"
  shows "length (bs_trials st) = i"
    and "\<And>j. j < i \<Longrightarrow> bnn_trial_ok lib X y n_epochs kb j (bs_trials st ! j)"
    and "bs_r2_list st = map bt_score (bs_trials st)"
    and "bs_rmse_list st = map bt_rmse (bs_trials st)"
    and "bs_mae_list st = map bt_mae (bs_trials st)"
    and "bs_nlpd_list st = map bt_uq_nlpd (bs_trials st)"
    and "bs_mae_confidence_list st =
       map (\<lambda>t. confidence_row (bt_y_test t) (bt_y_pred t) (bt_ranked_confidence_list t))
         (bs_trials st) @ replicate (n_trials - i) (replicate n_test 0)"
    and "bs_events st =
       SizeSplit # concat (map (\<lambda>j. bnn_trial_events j
                                  (length (val_losses (bt_loop (bs_trials st ! j))))) [0..<i])"
  using assms by (simp_all add: bnn_inv_def)

lemma gp_invD:
  assumes "gp_inv lib test_size X y n_trials n_test i st"
  shows "length (gs_trials st) = i"
    and "\<And>j. j < i \<Longrightarrow> gp_trial_ok lib test_size X y j (gs_trials st ! j)"
    and "gs_r2_list st = map gt_score (gs_trials st)"
    and "gs_rmse_list st = map gt_rmse (gs_trials st)"
    and "gs_mae_list st = map gt_mae (gs_trials st)"
    and "gs_mae_confidence_list st =
       map (\<lambda>t. confidence_row (gt_y_test t) (gt_y_pred t) (gt_ranked_confidence_list t))
         (gs_trials st) @ replicate (n_trials - i) (replicate n_test 0)"
    and "gs_events st = SizeSplit # concat (map gp_trial_events [0..<i])"
  using assms by (simp_all add: gp_inv_def)

lemma bnn_trial_okD:
  assumes "bnn_trial_ok lib X y n_epochs kb i t"
  shows "split_indices lib (length X) test_set_size (Some i) g
           = Inr ((bt_ind_train t, bt_ind_test t), g)"
    and "train_test_split lib X y test_set_size (Some i) g
           = Inr ((bt_X_train t, bt_X_test t, bt_y_train_split t, bt_y_test_split t), g)"
    and "bt_y_train_std t = fst (snd (transform_data lib (bt_y_train_split t)
           (bt_y_train_split t) (bt_y_test_split t) (bt_y_test_split t)))"
    and "bt_y_test_std t = fst (snd (snd (snd (transform_data lib (bt_y_train_split t)
           (bt_y_train_split t) (bt_y_test_split t) (bt_y_test_split t)))))"
    and "bt_y_scaler t = snd (snd (snd (snd (transform_data lib (bt_y_train_split t)
           (bt_y_train_split t) (bt_y_test_split t) (bt_y_test_split t)))))"
    and "\<exists>g bm evs. bnn_train lib (graph_append_label (bt_X_train t) (bt_y_train_std t))
           (graph_append_label (bt_X_test t) (bt_y_test_std t)) n_epochs kb i g bm evs
           = Inr (bt_best_model t, bt_loop t, bt_break t)"
    and "\<exists>g'. predict (forward lib) (bt_model t)
           (graph_append_label (bt_X_test t) (bt_y_test_std t)) 100 (ls_rng (bt_loop t))
           = Inr ((bt_y_pred_std t, bt_y_var t), g')"
    and "nlpd (bt_y_test_std t) (bt_y_pred_std t) (map sqrt (bt_y_var t)) = Inr (bt_uq_nlpd t)"
    and "bt_y_pred t = inverse_transform lib (bt_y_scaler t) (bt_y_pred_std t)"
    and "bt_y_test t = inverse_transform lib (bt_y_scaler t) (bt_y_test_std t)"
    and "bt_ranked_confidence_list t = argsort lib (bt_y_var t)"
    and "test_scores lib (bt_y_test t) (bt_y_pred t) = Inr (bt_score t, bt_rmse t, bt_mae t)"
    and "bt_model t = eval_mode lib (bt_best_model t)"
  using assms unfolding bnn_trial_ok_def Let_def by blast+

lemma gp_trial_okD:
  assumes "gp_trial_ok lib test_size X y i t"
  shows "split_indices lib (length X) test_size (Some i) g
           = Inr ((gt_ind_train t, gt_ind_test t), g)"
    and "train_test_split lib X y test_size (Some i) g
           = Inr ((gt_X_train_split t, gt_X_test_split t,
                   gt_y_train_split t, gt_y_test_split t), g)"
    and "gt_y_train_std t = fst (snd (transform_data lib (gt_X_train_split t)
           (gt_y_train_split t) (gt_X_test_split t) (gt_y_test_split t)))"
    and "gt_y_test_std t = fst (snd (snd (snd (transform_data lib (gt_X_train_split t)
           (gt_y_train_split t) (gt_X_test_split t) (gt_y_test_split t)))))"
    and "gt_y_scaler t = snd (snd (snd (snd (transform_data lib (gt_X_train_split t)
           (gt_y_train_split t) (gt_X_test_split t) (gt_y_test_split t)))))"
    and "gt_X_train t = as_tensor lib (gt_X_train_split t)"
    and "gt_X_test t = as_tensor lib (gt_X_test_split t)"
    and "gt_model t = gp_fit lib (gt_X_train t) (gt_y_train_std t)"
    and "(gt_y_pred_std t, gt_y_var t) = gp_posterior lib (gt_model t) (gt_X_test t)"
    and "gt_y_pred t = inverse_transform lib (gt_y_scaler t) (gt_y_pred_std t)"
    and "gt_y_test t = inverse_transform lib (gt_y_scaler t) (gt_y_test_std t)"
    and "gt_ranked_confidence_list t = argsort lib (gt_y_var t)"
    and "test_scores lib (gt_y_test t) (gt_y_pred t) = Inr (gt_score t, gt_rmse t, gt_mae t)"
  using assms unfolding gp_trial_ok_def Let_def by blast+

text \<open>
  Claim C5: every cross-validation loop runs exactly \<open>n_trials\<close> trials; trial \<open>i\<close>
  splits the full dataset again with test fraction \<open>test_set_size = 0.2\<close> and random
  seed \<open>i\<close>, and appends exactly one value to each metric list, so that every reported
  mean and standard error is over exactly \<open>n_trials\<close> values.
\<close>

theorem evaluate_model_runs_n_trials:
  fixes lib :: "('x, 'm, 'sc, 'g, 'z) bnn_lib_scheme"
    and glib :: "('x2, 't, 'gp, 'sc2, 'gg, 'z2) gp_lib_scheme"
  shows "(bnn_ok lib \<and> bnn_data_ok lib X y \<and> 0 < n_epochs \<longrightarrow>
           (\<exists>r st. bnn_evaluate_model lib X y n_epochs n_trials kld_beta g = Inr (r, st)
              \<and> length (bs_trials st) = n_trials
              \<and> (\<forall>i<n_trials. \<forall>h.
                    train_test_split lib X y (2 / 10) (Some i) h
                      = Inr ((bt_X_train (bs_trials st ! i), bt_X_test (bs_trials st ! i),
                              bt_y_train_split (bs_trials st ! i),
                              bt_y_test_split (bs_trials st ! i)), h))
              \<and> length (res_r2 r) = n_trials \<and> length (res_rmse r) = n_trials
              \<and> length (res_mae r) = n_trials \<and> length (res_nlpd r) = n_trials
              \<and> res_summary_r2 r = (np_mean (res_r2 r), np_std (res_r2 r) / sqrt (real n_trials))
              \<and> res_summary_rmse r = (np_mean (res_rmse r), np_std (res_rmse r) / sqrt (real n_trials))
              \<and> res_summary_mae r = (np_mean (res_mae r), np_std (res_mae r) / sqrt (real n_trials))
              \<and> res_summary_nlpd r = (np_mean (res_nlpd r), np_std (res_nlpd r) / sqrt (real n_trials))))
       \<and> (gp_ok glib \<and> gp_data_ok glib test_set_size Xg yg \<longrightarrow>
           (\<exists>r st. gp_evaluate_model glib n_trials_gp test_set_size Xg yg gg = Inr (r, st)
              \<and> length (gs_trials st) = n_trials_gp
              \<and> (\<forall>i<n_trials_gp. \<forall>h.
                    train_test_split glib Xg yg (2 / 10) (Some i) h
                      = Inr ((gt_X_train_split (gs_trials st ! i), gt_X_test_split (gs_trials st ! i),
                              gt_y_train_split (gs_trials st ! i),
                              gt_y_test_split (gs_trials st ! i)), h))
              \<and> length (gs_r2_list st) = n_trials_gp \<and> length (gs_rmse_list st) = n_trials_gp
              \<and> length (gs_mae_list st) = n_trials_gp
              \<and> gr_summary_r2 r = (np_mean (gs_r2_list st), np_std (gs_r2_list st) / sqrt (real n_trials_gp))
              \<and> gr_summary_rmse r = (np_mean (gs_rmse_list st), np_std (gs_rmse_list st) / sqrt (real n_trials_gp))
              \<and> gr_summary_mae r = (np_mean (gs_mae_list st), np_std (gs_mae_list st) / sqrt (real n_trials_gp))))"
proof (intro conjI impI)
  assume a: "bnn_ok lib \<and> bnn_data_ok lib X y \<and> 0 < n_epochs"
  from bnn_evaluate_model_run [of lib X y n_epochs _ n_trials kld_beta g, OF _ _ _ refl] a
  obtain r st where run: "bnn_evaluate_model lib X y n_epochs n_trials kld_beta g = Inr (r, st)"
    and inv: "bnn_inv lib X y n_epochs kld_beta n_trials
                (n_test_samples lib test_set_size (length X)) n_trials st"
    and res: "res_mae r = bs_mae_list st" "res_rmse r = bs_rmse_list st"
      "res_r2 r = bs_r2_list st" "res_nlpd r = bs_nlpd_list st"
      "res_summary_r2 r = summary (bs_r2_list st)"
      "res_summary_rmse r = summary (bs_rmse_list st)"
      "res_summary_mae r = summary (bs_mae_list st)"
      "res_summary_nlpd r = summary (bs_nlpd_list st)"
    by blast
  note I = bnn_invD [OF inv]
  have split: "train_test_split lib X y (2 / 10) (Some i) h
      = Inr ((bt_X_train (bs_trials st ! i), bt_X_test (bs_trials st ! i),
              bt_y_train_split (bs_trials st ! i), bt_y_test_split (bs_trials st ! i)), h)"
    if "i < n_trials" for i h
    using bnn_trial_okD(2) [OF I(2) [OF that], of h] by (simp add: test_set_size_def)
  show "\<exists>r st. bnn_evaluate_model lib X y n_epochs n_trials kld_beta g = Inr (r, st)
              \<and> length (bs_trials st) = n_trials
              \<and> (\<forall>i<n_trials. \<forall>h.
                    train_test_split lib X y (2 / 10) (Some i) h
                      = Inr ((bt_X_train (bs_trials st ! i), bt_X_test (bs_trials st ! i),
                              bt_y_train_split (bs_trials st ! i),
                              bt_y_test_split (bs_trials st ! i)), h))
              \<and> length (res_r2 r) = n_trials \<and> length (res_rmse r) = n_trials
              \<and> length (res_mae r) = n_trials \<and> length (res_nlpd r) = n_trials
              \<and> res_summary_r2 r = (np_mean (res_r2 r), np_std (res_r2 r) / sqrt (real n_trials))
              \<and> res_summary_rmse r = (np_mean (res_rmse r), np_std (res_rmse r) / sqrt (real n_trials))
              \<and> res_summary_mae r = (np_mean (res_mae r), np_std (res_mae r) / sqrt (real n_trials))
              \<and> res_summary_nlpd r = (np_mean (res_nlpd r), np_std (res_nlpd r) / sqrt (real n_trials))"
    apply (rule exI [of _ r], rule exI [of _ st])
    using run split by (simp add: res I summary_def)
next
  assume a: "gp_ok glib \<and> gp_data_ok glib test_set_size Xg yg"
  from gp_evaluate_model_run [of glib test_set_size Xg yg _ n_trials_gp gg, OF _ _ refl] a
  obtain r st where run: "gp_evaluate_model glib n_trials_gp test_set_size Xg yg gg = Inr (r, st)"
    and inv: "gp_inv glib test_set_size Xg yg n_trials_gp
                (n_test_samples glib test_set_size (length Xg)) n_trials_gp st"
    and res: "gr_summary_r2 r = summary (gs_r2_list st)"
      "gr_summary_rmse r = summary (gs_rmse_list st)"
      "gr_summary_mae r = summary (gs_mae_list st)"
    by blast
  note I = gp_invD [OF inv]
  have split: "train_test_split glib Xg yg (2 / 10) (Some i) h
      = Inr ((gt_X_train_split (gs_trials st ! i), gt_X_test_split (gs_trials st ! i),
              gt_y_train_split (gs_trials st ! i), gt_y_test_split (gs_trials st ! i)), h)"
    if "i < n_trials_gp" for i h
    using gp_trial_okD(2) [OF I(2) [OF that], of h] by (simp add: test_set_size_def)
  show "\<exists>r st. gp_evaluate_model glib n_trials_gp test_set_size Xg yg gg = Inr (r, st)
              \<and> length (gs_trials st) = n_trials_gp
              \<and> (\<forall>i<n_trials_gp. \<forall>h.
                    train_test_split glib Xg yg (2 / 10) (Some i) h
                      = Inr ((gt_X_train_split (gs_trials st ! i), gt_X_test_split (gs_trials st ! i),
                              gt_y_train_split (gs_trials st ! i),
                              gt_y_test_split (gs_trials st ! i)), h))
              \<and> length (gs_r2_list st) = n_trials_gp \<and> length (gs_rmse_list st) = n_trials_gp
              \<and> length (gs_mae_list st) = n_trials_gp
              \<and> gr_summary_r2 r = (np_mean (gs_r2_list st), np_std (gs_r2_list st) / sqrt (real n_trials_gp))
              \<and> gr_summary_rmse r = (np_mean (gs_rmse_list st), np_std (gs_rmse_list st) / sqrt (real n_trials_gp))
              \<and> gr_summary_mae r = (np_mean (gs_mae_list st), np_std (gs_mae_list st) / sqrt (real n_trials_gp))"
    apply (rule exI [of _ r], rule exI [of _ st])
    using run split by (simp add: res I summary_def)
qed

theorem evaluate_model_runs_n_trials_witness:
  "bnn_ok toy_bnn \<and> bnn_data_ok toy_bnn toy_X toy_y \<and> (0 :: nat) < 2
     \<and> (\<exists>r st. bnn_evaluate_model toy_bnn toy_X toy_y 2 3 1 0 = Inr (r, st)
            \<and> length (bs_trials st) = 3 \<and> length (res_r2 r) = 3 \<and> length (res_nlpd r) = 3)
     \<and> gp_ok toy_gp \<and> gp_data_ok toy_gp test_set_size toy_X toy_y
     \<and> (\<exists>r st. gp_evaluate_model toy_gp gp_n_trials test_set_size toy_X toy_y 0 = Inr (r, st)
            \<and> length (gs_trials st) = 20 \<and> length (gs_r2_list st) = 20)"
proof -
  note T = evaluate_model_runs_n_trials [where lib = toy_bnn and X = toy_X and y = toy_y
      and n_epochs = 2 and n_trials = 3 and kld_beta = 1 and g = 0 and glib = toy_gp
      and Xg = toy_X and yg = toy_y and n_trials_gp = gp_n_trials and gg = 0]
  from T [THEN conjunct1] toy_bnn_ok toy_bnn_data_ok
  have 1: "\<exists>r st. bnn_evaluate_model toy_bnn toy_X toy_y 2 3 1 0 = Inr (r, st)
            \<and> length (bs_trials st) = 3 \<and> length (res_r2 r) = 3 \<and> length (res_nlpd r) = 3"
    by simp blast
  from T [THEN conjunct2] toy_gp_ok toy_gp_data_ok
  have 2: "\<exists>r st. gp_evaluate_model toy_gp gp_n_trials test_set_size toy_X toy_y 0 = Inr (r, st)
            \<and> length (gs_trials st) = 20 \<and> length (gs_r2_list st) = 20"
    by (simp add: gp_n_trials_def) blast
  from 1 2 toy_bnn_ok toy_bnn_data_ok toy_gp_ok toy_gp_data_ok show ?thesis by simp
qed




lemma split_indices_seeded_value:
  assumes "split_indices lib n ts (Some seed) g = Inr ((it, ie), g')"
  shows "ie = take (n_test_samples lib ts n) (permutation lib seed n)"
    and "it = take (n - n_test_samples lib ts n)
                (drop (n_test_samples lib ts n) (permutation lib seed n))"
  using assms by (auto simp: split_indices_def Let_def split: if_splits)

lemma train_test_split_value:
  assumes "train_test_split lib X y ts rs g = Inr ((Xtr, Xte, ytr, yte), g')"
    and "split_indices lib (length X) ts rs g = Inr ((it, ie), g'')"
  shows "Xtr = map (\<lambda>j. X ! j) it" and "Xte = map (\<lambda>j. X ! j) ie"
    and "ytr = map (\<lambda>j. y ! j) it" and "yte = map (\<lambda>j. y ! j) ie"
  using assms by (auto simp: train_test_split_def split: if_splits)

text \<open>
  Claim C10: the train/test partition of trial \<open>i\<close> is a function of the dataset and of
  \<open>i\<close> alone (the split is seeded with \<open>random_state = i\<close>), so two executions of
  the loop on the same dataset have the same train and test sets in every trial. The two
  executions may start from different states \<open>g\<close>, \<open>g'\<close> of the global random number
  generator (which the size-finding split, the initial weights, the shuffling of the
  batches and the sampled forward passes draw from) and, for the Bayesian GNN, differ in
  \<open>n_epochs\<close> and \<open>kld_beta\<close>.
\<close>

theorem partition_deterministic:
  fixes lib :: "('x, 'm, 'sc, 'g, 'z) bnn_lib_scheme"
    and glib :: "('xg, 't, 'gp, 'scg, 'gg, 'zg) gp_lib_scheme"
  shows "(bnn_ok lib \<and> bnn_data_ok lib X y \<and> 0 < n_epochs \<and> 0 < n_epochs' \<longrightarrow>
           (\<exists>r st r' st'.
                bnn_evaluate_model lib X y n_epochs n_trials kld_beta g = Inr (r, st)
              \<and> bnn_evaluate_model lib X y n_epochs' n_trials kld_beta' g' = Inr (r', st')
              \<and> length (bs_trials st) = n_trials \<and> length (bs_trials st') = n_trials
              \<and> (\<forall>i<n_trials.
                    bt_ind_test (bs_trials st ! i)
                      = take (n_test_samples lib test_set_size (length X))
                          (permutation lib i (length X))
                  \<and> bt_ind_train (bs_trials st ! i)
                      = take (length X - n_test_samples lib test_set_size (length X))
                          (drop (n_test_samples lib test_set_size (length X))
                             (permutation lib i (length X)))
                  \<and> bt_X_train (bs_trials st ! i) = map (\<lambda>j. X ! j) (bt_ind_train (bs_trials st ! i))
                  \<and> bt_X_test (bs_trials st ! i) = map (\<lambda>j. X ! j) (bt_ind_test (bs_trials st ! i))
                  \<and> bt_y_train_split (bs_trials st ! i) = map (\<lambda>j. y ! j) (bt_ind_train (bs_trials st ! i))
                  \<and> bt_y_test_split (bs_trials st ! i) = map (\<lambda>j. y ! j) (bt_ind_test (bs_trials st ! i))
                  \<and> bt_ind_test (bs_trials st' ! i) = bt_ind_test (bs_trials st ! i)
                  \<and> bt_ind_train (bs_trials st' ! i) = bt_ind_train (bs_trials st ! i)
                  \<and> bt_X_train (bs_trials st' ! i) = bt_X_train (bs_trials st ! i)
                  \<and> bt_X_test (bs_trials st' ! i) = bt_X_test (bs_trials st ! i)
                  \<and> bt_y_train_split (bs_trials st' ! i) = bt_y_train_split (bs_trials st ! i)
                  \<and> bt_y_test_split (bs_trials st' ! i) = bt_y_test_split (bs_trials st ! i))))
       \<and> (gp_ok glib \<and> gp_data_ok glib test_set_size Xg yg \<longrightarrow>
           (\<exists>r st r' st'.
                gp_evaluate_model glib n_trials_gp test_set_size Xg yg gg = Inr (r, st)
              \<and> gp_evaluate_model glib n_trials_gp test_set_size Xg yg gg' = Inr (r', st')
              \<and> length (gs_trials st) = n_trials_gp \<and> length (gs_trials st') = n_trials_gp
              \<and> (\<forall>i<n_trials_gp.
                    gt_ind_test (gs_trials st ! i)
                      = take (n_test_samples glib test_set_size (length Xg))
                          (permutation glib i (length Xg))
                  \<and> gt_ind_train (gs_trials st ! i)
                      = take (length Xg - n_test_samples glib test_set_size (length Xg))
                          (drop (n_test_samples glib test_set_size (length Xg))
                             (permutation glib i (length Xg)))
                  \<and> gt_X_train_split (gs_trials st ! i) = map (\<lambda>j. Xg ! j) (gt_ind_train (gs_trials st ! i))
                  \<and> gt_X_test_split (gs_trials st ! i) = map (\<lambda>j. Xg ! j) (gt_ind_test (gs_trials st ! i))
                  \<and> gt_y_train_split (gs_trials st ! i) = map (\<lambda>j. yg ! j) (gt_ind_train (gs_trials st ! i))
                  \<and> gt_y_test_split (gs_trials st ! i) = map (\<lambda>j. yg ! j) (gt_ind_test (gs_trials st ! i))
                  \<and> gt_ind_test (gs_trials st' ! i) = gt_ind_test (gs_trials st ! i)
                  \<and> gt_ind_train (gs_trials st' ! i) = gt_ind_train (gs_trials st ! i)
                  \<and> gt_X_train_split (gs_trials st' ! i) = gt_X_train_split (gs_trials st ! i)
                  \<and> gt_X_test_split (gs_trials st' ! i) = gt_X_test_split (gs_trials st ! i)
                  \<and> gt_y_train_split (gs_trials st' ! i) = gt_y_train_split (gs_trials st ! i)
                  \<and> gt_y_test_split (gs_trials st' ! i) = gt_y_test_split (gs_trials st ! i))))"
proof (intro conjI impI)
  assume a: "bnn_ok lib \<and> bnn_data_ok lib X y \<and> 0 < n_epochs \<and> 0 < n_epochs'"
  from bnn_evaluate_model_run [of lib X y n_epochs _ n_trials kld_beta g, OF _ _ _ refl] a
  obtain r st where run: "bnn_evaluate_model lib X y n_epochs n_trials kld_beta g = Inr (r, st)"
    and inv: "bnn_inv lib X y n_epochs kld_beta n_trials
                (n_test_samples lib test_set_size (length X)) n_trials st"
    by blast
  from bnn_evaluate_model_run [of lib X y n_epochs' _ n_trials kld_beta' g', OF _ _ _ refl] a
  obtain r' st' where run': "bnn_evaluate_model lib X y n_epochs' n_trials kld_beta' g' = Inr (r', st')"
    and inv': "bnn_inv lib X y n_epochs' kld_beta' n_trials
                (n_test_samples lib test_set_size (length X)) n_trials st'"
    by blast
  note I = bnn_invD [OF inv] and I' = bnn_invD [OF inv']
  have P: "bt_ind_test t = take (n_test_samples lib test_set_size (length X))
                          (permutation lib i (length X))
      \<and> bt_ind_train t = take (length X - n_test_samples lib test_set_size (length X))
                          (drop (n_test_samples lib test_set_size (length X))
                             (permutation lib i (length X)))
      \<and> bt_X_train t = map (\<lambda>j. X ! j) (bt_ind_train t)
      \<and> bt_X_test t = map (\<lambda>j. X ! j) (bt_ind_test t)
      \<and> bt_y_train_split t = map (\<lambda>j. y ! j) (bt_ind_train t)
      \<and> bt_y_test_split t = map (\<lambda>j. y ! j) (bt_ind_test t)"
    if "bnn_trial_ok lib X y ne kb i t" for ne kb i and t :: "('x, 'm, 'sc, 'g) bnn_trial"
    using split_indices_seeded_value [OF bnn_trial_okD(1) [OF that, of undefined]]
      train_test_split_value [OF bnn_trial_okD(2) [OF that, of undefined]
        bnn_trial_okD(1) [OF that, of undefined]]
    by simp
  show "\<exists>r st r' st'.
                bnn_evaluate_model lib X y n_epochs n_trials kld_beta g = Inr (r, st)
              \<and> bnn_evaluate_model lib X y n_epochs' n_trials kld_beta' g' = Inr (r', st')
              \<and> length (bs_trials st) = n_trials \<and> length (bs_trials st') = n_trials
              \<and> (\<forall>i<n_trials.
                    bt_ind_test (bs_trials st ! i)
                      = take (n_test_samples lib test_set_size (length X))
                          (permutation lib i (length X))
                  \<and> bt_ind_train (bs_trials st ! i)
                      = take (length X - n_test_samples lib test_set_size (length X))
                          (drop (n_test_samples lib test_set_size (length X))
                             (permutation lib i (length X)))
                  \<and> bt_X_train (bs_trials st ! i) = map (\<lambda>j. X ! j) (bt_ind_train (bs_trials st ! i))
                  \<and> bt_X_test (bs_trials st ! i) = map (\<lambda>j. X ! j) (bt_ind_test (bs_trials st ! i))
                  \<and> bt_y_train_split (bs_trials st ! i) = map (\<lambda>j. y ! j) (bt_ind_train (bs_trials st ! i))
                  \<and> bt_y_test_split (bs_trials st ! i) = map (\<lambda>j. y ! j) (bt_ind_test (bs_trials st ! i))
                  \<and> bt_ind_test (bs_trials st' ! i) = bt_ind_test (bs_trials st ! i)
                  \<and> bt_ind_train (bs_trials st' ! i) = bt_ind_train (bs_trials st ! i)
                  \<and> bt_X_train (bs_trials st' ! i) = bt_X_train (bs_trials st ! i)
                  \<and> bt_X_test (bs_trials st' ! i) = bt_X_test (bs_trials st ! i)
                  \<and> bt_y_train_split (bs_trials st' ! i) = bt_y_train_split (bs_trials st ! i)
                  \<and> bt_y_test_split (bs_trials st' ! i) = bt_y_test_split (bs_trials st ! i))"
    apply (rule exI [of _ r], rule exI [of _ st], rule exI [of _ r'], rule exI [of _ st'])
    using run run' I(1) I'(1) P [OF I(2)] P [OF I'(2)] by simp
next
  assume a: "gp_ok glib \<and> gp_data_ok glib test_set_size Xg yg"
  from gp_evaluate_model_run [of glib test_set_size Xg yg _ n_trials_gp gg, OF _ _ refl] a
  obtain r st where run: "gp_evaluate_model glib n_trials_gp test_set_size Xg yg gg = Inr (r, st)"
    and inv: "gp_inv glib test_set_size Xg yg n_trials_gp
                (n_test_samples glib test_set_size (length Xg)) n_trials_gp st"
    by blast
  from gp_evaluate_model_run [of glib test_set_size Xg yg _ n_trials_gp gg', OF _ _ refl] a
  obtain r' st' where run': "gp_evaluate_model glib n_trials_gp test_set_size Xg yg gg' = Inr (r', st')"
    and inv': "gp_inv glib test_set_size Xg yg n_trials_gp
                (n_test_samples glib test_set_size (length Xg)) n_trials_gp st'"
    by blast
  note I = gp_invD [OF inv] and I' = gp_invD [OF inv']
  have P: "gt_ind_test t = take (n_test_samples glib test_set_size (length Xg))
                          (permutation glib i (length Xg))
      \<and> gt_ind_train t = take (length Xg - n_test_samples glib test_set_size (length Xg))
                          (drop (n_test_samples glib test_set_size (length Xg))
                             (permutation glib i (length Xg)))
      \<and> gt_X_train_split t = map (\<lambda>j. Xg ! j) (gt_ind_train t)
      \<and> gt_X_test_split t = map (\<lambda>j. Xg ! j) (gt_ind_test t)
      \<and> gt_y_train_split t = map (\<lambda>j. yg ! j) (gt_ind_train t)
      \<and> gt_y_test_split t = map (\<lambda>j. yg ! j) (gt_ind_test t)"
    if "gp_trial_ok glib test_set_size Xg yg i t" for i and t :: "('xg, 't, 'gp, 'scg) gp_trial"
    using split_indices_seeded_value [OF gp_trial_okD(1) [OF that, of undefined]]
      train_test_split_value [OF gp_trial_okD(2) [OF that, of undefined]
        gp_trial_okD(1) [OF that, of undefined]]
    by simp
  show "\<exists>r st r' st'.
                gp_evaluate_model glib n_trials_gp test_set_size Xg yg gg = Inr (r, st)
              \<and> gp_evaluate_model glib n_trials_gp test_set_size Xg yg gg' = Inr (r', st')
              \<and> length (gs_trials st) = n_trials_gp \<and> length (gs_trials st') = n_trials_gp
              \<and> (\<forall>i<n_trials_gp.
                    gt_ind_test (gs_trials st ! i)
                      = take (n_test_samples glib test_set_size (length Xg))
                          (permutation glib i (length Xg))
                  \<and> gt_ind_train (gs_trials st ! i)
                      = take (length Xg - n_test_samples glib test_set_size (length Xg))
                          (drop (n_test_samples glib test_set_size (length Xg))
                             (permutation glib i (length Xg)))
                  \<and> gt_X_train_split (gs_trials st ! i) = map (\<lambda>j. Xg ! j) (gt_ind_train (gs_trials st ! i))
                  \<and> gt_X_test_split (gs_trials st ! i) = map (\<lambda>j. Xg ! j) (gt_ind_test (gs_trials st ! i))
                  \<and> gt_y_train_split (gs_trials st ! i) = map (\<lambda>j. yg ! j) (gt_ind_train (gs_trials st ! i))
                  \<and> gt_y_test_split (gs_trials st ! i) = map (\<lambda>j. yg ! j) (gt_ind_test (gs_trials st ! i))
                  \<and> gt_ind_test (gs_trials st' ! i) = gt_ind_test (gs_trials st ! i)
                  \<and> gt_ind_train (gs_trials st' ! i) = gt_ind_train (gs_trials st ! i)
                  \<and> gt_X_train_split (gs_trials st' ! i) = gt_X_train_split (gs_trials st ! i)
                  \<and> gt_X_test_split (gs_trials st' ! i) = gt_X_test_split (gs_trials st ! i)
                  \<and> gt_y_train_split (gs_trials st' ! i) = gt_y_train_split (gs_trials st ! i)
                  \<and> gt_y_test_split (gs_trials st' ! i) = gt_y_test_split (gs_trials st ! i))"
    apply (rule exI [of _ r], rule exI [of _ st], rule exI [of _ r'], rule exI [of _ st'])
    using run run' I(1) I'(1) P [OF I(2)] P [OF I'(2)] by simp
qed

theorem partition_deterministic_witness:
  "bnn_ok toy_bnn \<and> bnn_data_ok toy_bnn toy_X toy_y \<and> (0 :: nat) < 2 \<and> (0 :: nat) < 5
     \<and> (\<exists>r st r' st'. bnn_evaluate_model toy_bnn toy_X toy_y 2 3 1 0 = Inr (r, st)
            \<and> bnn_evaluate_model toy_bnn toy_X toy_y 5 3 7 9 = Inr (r', st')
            \<and> bt_ind_test (bs_trials st' ! 1) = bt_ind_test (bs_trials st ! 1)
            \<and> bt_ind_test (bs_trials st ! 1) = [1, 2, 3, 4, 5, 6, 7, 8])
     \<and> gp_ok toy_gp \<and> gp_data_ok toy_gp test_set_size toy_X toy_y
     \<and> (\<exists>r st r' st'. gp_evaluate_model toy_gp gp_n_trials test_set_size toy_X toy_y 0 = Inr (r, st)
            \<and> gp_evaluate_model toy_gp gp_n_trials test_set_size toy_X toy_y 4 = Inr (r', st')
            \<and> gt_ind_test (gs_trials st' ! 1) = gt_ind_test (gs_trials st ! 1))"
proof -
  note T = partition_deterministic [where lib = toy_bnn and X = toy_X and y = toy_y
      and n_epochs = 2 and n_epochs' = 5 and n_trials = 3 and kld_beta = 1 and kld_beta' = 7
      and g = 0 and g' = 9 and glib = toy_gp
      and Xg = toy_X and yg = toy_y and n_trials_gp = gp_n_trials and gg = 0 and gg' = 4]
  have perm: "take (n_test_samples toy_bnn test_set_size (length toy_X))
                (permutation toy_bnn 1 (length toy_X)) = [1, 2, 3, 4, 5, 6, 7, 8]"
    by (simp add: toy_bnn_def toy_X_def test_set_size_def) code_simp
  from T [THEN conjunct1] toy_bnn_ok toy_bnn_data_ok
  obtain r st r' st' where "bnn_evaluate_model toy_bnn toy_X toy_y 2 3 1 0 = Inr (r, st)"
    "bnn_evaluate_model toy_bnn toy_X toy_y 5 3 7 9 = Inr (r', st')"
    and "\<forall>i<3. bt_ind_test (bs_trials st ! i)
                      = take (n_test_samples toy_bnn test_set_size (length toy_X))
                          (permutation toy_bnn i (length toy_X))
             \<and> bt_ind_test (bs_trials st' ! i) = bt_ind_test (bs_trials st ! i)"
    by auto
  then have 1: "\<exists>r st r' st'. bnn_evaluate_model toy_bnn toy_X toy_y 2 3 1 0 = Inr (r, st)
            \<and> bnn_evaluate_model toy_bnn toy_X toy_y 5 3 7 9 = Inr (r', st')
            \<and> bt_ind_test (bs_trials st' ! 1) = bt_ind_test (bs_trials st ! 1)
            \<and> bt_ind_test (bs_trials st ! 1) = [1, 2, 3, 4, 5, 6, 7, 8]"
    using perm by auto
  from T [THEN conjunct2] toy_gp_ok toy_gp_data_ok
  obtain r st r' st' where "gp_evaluate_model toy_gp gp_n_trials test_set_size toy_X toy_y 0 = Inr (r, st)"
    "gp_evaluate_model toy_gp gp_n_trials test_set_size toy_X toy_y 4 = Inr (r', st')"
    and "\<forall>i<gp_n_trials. gt_ind_test (gs_trials st' ! i) = gt_ind_test (gs_trials st ! i)"
    by auto
  then have 2: "\<exists>r st r' st'. gp_evaluate_model toy_gp gp_n_trials test_set_size toy_X toy_y 0 = Inr (r, st)
            \<and> gp_evaluate_model toy_gp gp_n_trials test_set_size toy_X toy_y 4 = Inr (r', st')
            \<and> gt_ind_test (gs_trials st' ! 1) = gt_ind_test (gs_trials st ! 1)"
    by (auto simp: gp_n_trials_def)
  from 1 2 toy_bnn_ok toy_bnn_data_ok toy_gp_ok toy_gp_data_ok show ?thesis by simp
qed






lemma split_indices_update_transform_data:
  "split_indices (lib\<lparr>transform_data := td\<rparr>) n ts rs g = split_indices lib n ts rs g"
  by (cases rs) (simp_all add: split_indices_def Let_def)

lemma train_test_split_update_transform_data:
  "train_test_split (lib\<lparr>transform_data := td\<rparr>) X y ts rs g = train_test_split lib X y ts rs g"
  by (simp add: train_test_split_def split_indices_update_transform_data)

lemma test_scores_update_transform_data:
  "test_scores (lib\<lparr>transform_data := td\<rparr>) a b = test_scores lib a b"
  by (simp add: test_scores_def)

lemma gp_trial_body_frame:
  fixes lib :: "('x, 't, 'gp, 'sc, 'g, 'z) gp_lib_scheme"
  assumes "\<And>Xa ya Xb yb.
      fst (snd (td Xa ya Xb yb)) = fst (snd (transform_data lib Xa ya Xb yb))
    \<and> fst (snd (snd (snd (td Xa ya Xb yb)))) = fst (snd (snd (snd (transform_data lib Xa ya Xb yb))))
    \<and> snd (snd (snd (snd (td Xa ya Xb yb)))) = snd (snd (snd (snd (transform_data lib Xa ya Xb yb))))"
  shows "gp_trial_body (lib\<lparr>transform_data := td\<rparr>) ts X y = gp_trial_body lib ts X y"
proof (intro ext)
  fix i and st :: "('x, 't, 'gp, 'sc, 'g) gp_state"
  show "gp_trial_body (lib\<lparr>transform_data := td\<rparr>) ts X y i st = gp_trial_body lib ts X y i st"
    unfolding gp_trial_body_def split_indices_update_transform_data
      train_test_split_update_transform_data test_scores_update_transform_data
    by (simp add: split_beta Let_def assms cong: sum.case_cong)
qed

lemma gp_evaluate_model_frame:
  fixes lib :: "('x, 't, 'gp, 'sc, 'g, 'z) gp_lib_scheme"
  assumes "\<And>Xa ya Xb yb.
      fst (snd (td Xa ya Xb yb)) = fst (snd (transform_data lib Xa ya Xb yb))
    \<and> fst (snd (snd (snd (td Xa ya Xb yb)))) = fst (snd (snd (snd (transform_data lib Xa ya Xb yb))))
    \<and> snd (snd (snd (snd (td Xa ya Xb yb)))) = snd (snd (snd (snd (transform_data lib Xa ya Xb yb))))"
  shows "gp_evaluate_model (lib\<lparr>transform_data := td\<rparr>) n_trials ts X y g
           = gp_evaluate_model lib n_trials ts X y g"
  unfolding gp_evaluate_model_def gp_trial_body_frame [of td lib, OF assms]
    train_test_split_update_transform_data
  by simp



lemma improves_iff: "improves L j \<longleftrightarrow> j = 0 \<or> L ! j < Min (set (take j L))"
  by (simp add: improves_def best_before_def loss_gt_def)

lemma stale_window_snoc:
  assumes "\<forall>e. \<not> stale_window L e" and "stale_window (L @ [v]) e"
  shows "e = length L"
proof (rule ccontr)
  assume "e \<noteq> length L"
  with assms(2) have "e < length L" by (simp add: stale_window_def)
  with assms show False by (simp add: stale_window_append)
qed

lemma run_epoch_validation:
  assumes "run_epoch lib kb Gtr Gte tr ep s = Inr (s1, v)"
  shows "\<exists>g yp yv g'. predict (forward lib) (ls_model s1) Gte default_samples g = Inr ((yp, yv), g')
           \<and> v = mse_loss yp (map snd Gte)"
proof -
  define tb where
    "tb = train_batches lib kb (fst (dataloader_train lib Gtr (ls_rng s)))
            (ls_model s, \<lparr>running_kld_loss = 0, running_mse_loss = 0, running_loss = 0\<rparr>,
             snd (dataloader_train lib Gtr (ls_rng s)))"
  from assms obtain yp yv g3 where
    p: "predict (forward lib) (fst tb) Gte default_samples (snd (snd tb)) = Inr ((yp, yv), g3)"
    and m: "ls_model s1 = fst tb" and v: "v = mse_loss yp (map snd Gte)"
    by (auto simp: run_epoch_def split_beta Let_def bindE_eq_Inr tb_def split: if_splits)
  from p have "predict (forward lib) (ls_model s1) Gte default_samples (snd (snd tb))
                 = Inr ((yp, yv), g3)"
    by (simp add: m)
  with v show ?thesis by blast
qed

lemma epoch_loop_trace:
  assumes "epoch_loop lib kb Gtr Gte tr ep k s = Inr (s', b)"
    and "loop_inv s" and "count s < patience" and "\<forall>e. \<not> stale_window (val_losses s) e"
    and "validated lib Gte s"
  shows "validated lib Gte s' \<and> (\<forall>e. stale_window (val_losses s') e \<longrightarrow> e + 1 = length (val_losses s'))"
  using assms
proof (induction k arbitrary: s ep)
  case 0
  then show ?case by simp
next
  case (Suc k)
  from Suc.prems(1) obtain s1 v where re: "run_epoch lib kb Gtr Gte tr ep s = Inr (s1, v)"
    and rest: "(let s2 = early_stopping s1 v
                in if count s2 \<ge> patience then Inr (s2, True)
                   else epoch_loop lib kb Gtr Gte tr (Suc ep) k s2) = Inr (s', b)"
    by (cases "run_epoch lib kb Gtr Gte tr ep s") (auto simp: Let_def)
  define s2 where "s2 = early_stopping s1 v"
  note eff = run_epoch_effect [OF re]
  note step = early_stopping_step [OF Suc.prems(2,3,4) eff(1-5), folded s2_def]
  have inv: "length (snapshots s) = length (val_losses s)"
    using Suc.prems(2) by (simp add: loop_inv_def Let_def)
  have L2: "val_losses s2 = val_losses s @ [v]" by (rule step(2))
  have S2: "snapshots s2 = snapshots s @ [ls_model s1]"
    by (simp add: s2_def early_stopping_def eff(2))
  from run_epoch_validation [OF re]
  obtain g yp yv g' where
    p: "predict (forward lib) (ls_model s1) Gte default_samples g = Inr ((yp, yv), g')"
    and v: "v = mse_loss yp (map snd Gte)" by blast
  have val2: "validated lib Gte s2"
    unfolding validated_def L2 S2
  proof (intro allI impI)
    fix e assume "e < length (val_losses s @ [v])"
    then consider "e < length (val_losses s)" | "e = length (val_losses s)" by fastforce
    then show "\<exists>g yp yv g'.
          predict (forward lib) ((snapshots s @ [ls_model s1]) ! e) Gte default_samples g
            = Inr ((yp, yv), g')
        \<and> (val_losses s @ [v]) ! e = mse_loss yp (map snd Gte)"
    proof cases
      case 1
      with Suc.prems(5) show ?thesis by (simp add: validated_def nth_append inv)
    next
      case 2
      with p v show ?thesis by (auto simp: nth_append inv)
    qed
  qed
  have w2: "\<forall>e. stale_window (val_losses s2) e \<longrightarrow> e + 1 = length (val_losses s2)"
    unfolding L2 using stale_window_snoc [OF Suc.prems(4)] by auto
  show ?case
  proof (cases "count s2 \<ge> patience")
    case True
    with rest have s': "s' = s2" by (simp add: s2_def Let_def)
    show ?thesis unfolding s' using val2 w2 by simp
  next
    case False
    with rest have el: "epoch_loop lib kb Gtr Gte tr (Suc ep) k s2 = Inr (s', b)"
      by (simp add: s2_def Let_def)
    from False have c: "count s2 < patience" by simp
    show ?thesis by (rule Suc.IH [OF el step(1) c step(4) [OF c] val2])
  qed
qed

lemma bnn_train_trace:
  assumes "bnn_train lib Gtr Gte n_epochs kb i g bm evs = Inr (model, s, b)"
  shows "validated lib Gte s"
    and "stale_window (val_losses s) e \<Longrightarrow> e + 1 = length (val_losses s)"
proof -
  define s0 where
    "s0 = \<lparr>ls_model = fst (init_model lib g), ls_rng = snd (init_model lib g),
           ls_status = Map.empty, best_loss = None, best_model = bm, count = 0,
           val_losses = [], snapshots = [], ls_events = evs\<rparr>"
  from assms have el: "epoch_loop lib kb Gtr Gte i 0 n_epochs s0 = Inr (s, b)"
    by (auto simp: bnn_train_def split_beta Let_def s0_def bindE_eq_Inr split: option.splits)
  have inv0: "loop_inv s0" by (simp add: loop_inv_def s0_def best_before_def)
  have c0: "count s0 < patience" by (simp add: s0_def patience_def)
  have nw0: "\<forall>e. \<not> stale_window (val_losses s0) e" by (simp add: s0_def not_stale_window_Nil)
  have v0: "validated lib Gte s0" by (simp add: validated_def s0_def)
  note R = epoch_loop_trace [OF el inv0 c0 nw0 v0]
  show "validated lib Gte s" using R by blast
  show "e + 1 = length (val_losses s)" if "stale_window (val_losses s) e" using R that by blast
qed


lemma bnn_trial_early_stopping:
  fixes lib :: "('x, 'm, 'sc, 'g, 'z) bnn_lib_scheme" and t :: "('x, 'm, 'sc, 'g) bnn_trial"
  assumes ok: "bnn_trial_ok lib X y n_epochs kb i t" and pos: "0 < n_epochs"
  defines "s \<equiv> bt_loop t" and "L \<equiv> val_losses (bt_loop t)"
    and "G \<equiv> graph_append_label (bt_X_test t) (bt_y_test_std t)"
  shows "L \<noteq> []" and "length L \<le> n_epochs" and "length (snapshots s) = length L"
    and "validated lib G s"
    and "bt_break t \<longleftrightarrow> (\<exists>e. stale_window L e)"
    and "\<forall>e. stale_window L e \<longrightarrow> e + 1 = length L"
    and "length L < n_epochs \<longleftrightarrow> (\<exists>e. stale_window L e \<and> e + 1 < n_epochs)"
    and "\<not> bt_break t \<longrightarrow> length L = n_epochs"
    and "count s < length L" and "improves L (length L - 1 - count s)"
    and "\<forall>j. length L - count s \<le> j \<and> j < length L \<longrightarrow> \<not> improves L j"
    and "bt_best_model t = snapshots s ! argmin_first L"
    and "bt_model t = eval_mode lib (bt_best_model t)"
    and "argmin_first L < length L" and "L ! argmin_first L = Min (set L)"
    and "\<forall>j<argmin_first L. Min (set L) < L ! j"
    and "\<exists>g'. predict (forward lib) (bt_model t) G 100 (ls_rng s)
                 = Inr ((bt_y_pred_std t, bt_y_var t), g')"
proof -
  note D = bnn_trial_okD [OF ok]
  from D(6) obtain g bm evs where
    tr: "bnn_train lib (graph_append_label (bt_X_train t) (bt_y_train_std t)) G n_epochs kb i g bm evs
           = Inr (bt_best_model t, s, bt_break t)"
    unfolding G_def s_def by blast
  note T = bnn_train_Inr [OF tr, folded L_def s_def]
  note U = bnn_train_trace [OF tr, folded L_def s_def]
  have L: "val_losses s = L" by (simp add: L_def s_def)
  show ne: "L \<noteq> []" using T(7) [OF pos] L by simp
  show le: "length L \<le> n_epochs" using T(2) L by simp
  from T(1) ne have i1: "length (snapshots s) = length L"
    and i5: "count s < length L" "improves L (length L - 1 - count s)"
    and i6: "\<forall>j. length L - count s \<le> j \<and> j < length L \<longrightarrow> \<not> improves L j"
    unfolding loop_inv_def Let_def L by blast+
  show "length (snapshots s) = length L" by (rule i1)
  show "validated lib G s" by (rule U(1))
  have w: "e + 1 = length L" if "stale_window L e" for e using U(2) that L by simp
  then show "\<forall>e. stale_window L e \<longrightarrow> e + 1 = length L" by blast
  have nb_len: "length L = n_epochs" if "\<not> bt_break t" using T(3) that L by simp
  then show "\<not> bt_break t \<longrightarrow> length L = n_epochs" by blast
  have nb: "\<not> stale_window L e" if "\<not> bt_break t" for e using T(4) that L by simp
  have b: "stale_window L (length L - 1)" if "bt_break t" using T(5) that L by simp
  show "bt_break t \<longleftrightarrow> (\<exists>e. stale_window L e)" using nb b by blast
  show "length L < n_epochs \<longleftrightarrow> (\<exists>e. stale_window L e \<and> e + 1 < n_epochs)"
  proof
    assume lt: "length L < n_epochs"
    then have "bt_break t" using nb_len by auto
    then have "stale_window L (length L - 1)" by (rule b)
    moreover have "length L - 1 + 1 < n_epochs" using lt ne by simp
    ultimately show "\<exists>e. stale_window L e \<and> e + 1 < n_epochs" by blast
  next
    assume "\<exists>e. stale_window L e \<and> e + 1 < n_epochs"
    then show "length L < n_epochs" using w by auto
  qed
  show "count s < length L" "improves L (length L - 1 - count s)" by (rule i5)+
  show "\<forall>j. length L - count s \<le> j \<and> j < length L \<longrightarrow> \<not> improves L j" by (rule i6)
  show "bt_best_model t = snapshots s ! argmin_first L" using T(8) [OF pos] L by simp
  show "bt_model t = eval_mode lib (bt_best_model t)" by (rule D(13))
  note A = argmin_first_props [OF ne]
  show "argmin_first L < length L" "L ! argmin_first L = Min (set L)" by (rule A)+
  show "\<forall>j<argmin_first L. Min (set L) < L ! j"
  proof (intro allI impI)
    fix j assume j: "j < argmin_first L"
    then have "L ! j \<in> set L" using A(1) by simp
    then have "Min (set L) \<le> L ! j" by simp
    with argmin_first_least [OF j] show "Min (set L) < L ! j" by simp
  qed
  show "\<exists>g'. predict (forward lib) (bt_model t) G 100 (ls_rng s)
                 = Inr ((bt_y_pred_std t, bt_y_var t), g')"
    using D(7) unfolding G_def s_def .
qed



lemma plateau_bnn_ok: "bnn_ok plateau_bnn"
  using toy_base_ok
  by (simp add: bnn_ok_def base_ok_def plateau_bnn_def)

lemma plateau_bnn_data_ok: "bnn_data_ok plateau_bnn toy_X toy_y"
  using toy_bnn_data_ok by (simp add: bnn_data_ok_def plateau_bnn_def)

lemma parity_sum: "(\<Sum>k<2 * n. real ((g + k) mod 2)) = real n"
proof (induction n)
  case 0
  then show ?case by simp
next
  case (Suc n)
  have "real ((g + 2 * n) mod 2) + real (Suc (g + 2 * n) mod 2) = 1"
    by (cases "even g") (simp_all add: mod_Suc)
  with Suc show ?case by simp
qed

lemma plateau_rng: "(rng_after (forward plateau_bnn) m G ^^ k) g = g + k"
  by (induction k) (simp_all add: rng_after_def plateau_bnn_def)

lemma plateau_predict:
  assumes "predict (forward plateau_bnn) m G default_samples g = Inr ((yp, yv), g')"
  shows "yp = replicate (length G) (1 / 2)"
proof -
  define preds where "preds = fst (sample_preds (forward plateau_bnn) m G default_samples g)"
  note P = predict_Inr [OF assms, folded preds_def]
  have pk: "preds ! k = map (\<lambda>_. real ((g + k) mod 2)) G" if "k < default_samples" for k
    unfolding preds_def nth_sample_preds [OF that] plateau_rng
    by (simp add: plateau_bnn_def)
  have "preds ! 0 \<in> set preds" using P(1,2) by simp
  with P(4) have "length (preds ! 0) = length yp" by blast
  then have len: "length yp = length G" using pk [of 0] P(1) by simp
  have "yp ! j = 1 / 2" if j: "j < length G" for j
  proof -
    have "yp ! j = (\<Sum>k<default_samples. preds ! k ! j) / real default_samples"
      using P(6) j len by simp
    also have "(\<Sum>k<default_samples. preds ! k ! j) = (\<Sum>k<default_samples. real ((g + k) mod 2))"
      by (rule sum.cong) (simp_all add: pk j)
    also have "\<dots> = 50" using parity_sum [of g 50] by (simp add: default_samples_def)
    finally show ?thesis by (simp add: default_samples_def)
  qed
  with len show ?thesis by (simp add: list_eq_iff_nth_eq)
qed

lemma plateau_losses:
  assumes "validated plateau_bnn G s" and "e < length (val_losses s)"
  shows "val_losses s ! e = mse_loss (replicate (length G) (1 / 2)) (map snd G)"
  using assms plateau_predict unfolding validated_def by metis

lemma constant_losses_improve_once:
  assumes c: "\<forall>e<length L. L ! e = c" and j: "0 < j" "j < length L"
  shows "\<not> improves L j"
proof -
  have "Min (set (take j L)) \<in> set (take j L)" using j by (intro Min_in) auto
  then obtain k where "k < j" "Min (set (take j L)) = L ! k"
    using j by (auto simp: in_set_conv_nth)
  with c j have "Min (set (take j L)) = c" by simp
  with c j show ?thesis by (simp add: improves_iff)
qed


lemma count_gp_ok: "gp_ok count_gp"
  by (simp add: gp_ok_def base_ok_def count_gp_def mset_rotate astype_float64_def del: mset_upt)

lemma count_gp_data_ok: "gp_data_ok count_gp test_set_size count_X toy_y"
  by (simp add: gp_data_ok_def count_gp_def count_X_def toy_y_def test_set_size_def)

lemma astype_float64_values: "map (map num_value) (astype_float64 X) = map (map num_value) X"
  by (simp add: astype_float64_def o_def)

lemma astype_float64_dtype: "list_all (list_all is_float64) (astype_float64 X)"
  by (simp add: astype_float64_def list_all_iff)

lemma count_gp_value_preserving: "value_preserving count_gp"
  by (simp add: value_preserving_def astype_float64_values astype_float64_dtype count_gp_def)

lemma value_preservingD:
  assumes "value_preserving lib"
  shows "map (map num_value) (as_tensor lib X) = map (map num_value) X"
    and "list_all (list_all is_float64) (as_tensor lib X)"
  using assms by (simp_all add: value_preserving_def)


lemma astype_float64_changes_integers:
  assumes "row \<in> set X" and "Int64 n \<in> set row" and "list_all (list_all is_float64) T"
  shows "T \<noteq> X"
proof
  assume "T = X"
  with assms(3) have "\<forall>r\<in>set X. \<forall>v\<in>set r. is_float64 v" by (simp add: list_all_iff)
  with assms(1,2) have "is_float64 (Int64 n)" by blast
  then show False by simp
qed

text \<open>
  Claim C9 (amended): in the Gaussian-process \<open>evaluate_model\<close> the standardisation
  changes only the labels. In every trial the features given to the model and to the
  prediction are the rows of \<open>X\<close> that the train/test split selected, converted by
  \<open>torch.tensor(X.astype(np.float64))\<close>: they hold the same values as the output of
  the split, stored as 64-bit floats (so not the same bytes when the features are
  integers), while the labels are the \<open>y\<close> outputs of \<open>transform_data\<close>; and the
  feature outputs of \<open>transform_data\<close> are not used at all: replacing \<open>transform_data\<close>
  by any function with the same label outputs and the same scaler gives the same run.
\<close>

theorem gp_standardization_changes_only_labels:
  fixes glib :: "(num list, num list list, 'gp, 'scg, 'gg, 'zg) gp_lib_scheme"
  shows "(gp_ok glib \<and> gp_data_ok glib test_set_size Xg yg \<and> value_preserving glib
            \<and> 0 < n_trials_gp \<longrightarrow>
           (\<exists>r st. gp_evaluate_model glib n_trials_gp test_set_size Xg yg gg = Inr (r, st)
              \<and> length (gs_trials st) = n_trials_gp
              \<and> (\<forall>i<n_trials_gp.
                    gt_X_train_split (gs_trials st ! i)
                      = map (\<lambda>j. Xg ! j) (gt_ind_train (gs_trials st ! i))
                  \<and> gt_X_test_split (gs_trials st ! i)
                      = map (\<lambda>j. Xg ! j) (gt_ind_test (gs_trials st ! i))
                  \<and> gt_X_train (gs_trials st ! i)
                      = as_tensor glib (gt_X_train_split (gs_trials st ! i))
                  \<and> gt_X_test (gs_trials st ! i)
                      = as_tensor glib (gt_X_test_split (gs_trials st ! i))
                  \<and> map (map num_value) (gt_X_train (gs_trials st ! i))
                      = map (map num_value) (gt_X_train_split (gs_trials st ! i))
                  \<and> map (map num_value) (gt_X_test (gs_trials st ! i))
                      = map (map num_value) (gt_X_test_split (gs_trials st ! i))
                  \<and> list_all (list_all is_float64) (gt_X_train (gs_trials st ! i))
                  \<and> list_all (list_all is_float64) (gt_X_test (gs_trials st ! i))
                  \<and> gt_y_train_std (gs_trials st ! i)
                      = fst (snd (transform_data glib
                          (gt_X_train_split (gs_trials st ! i)) (gt_y_train_split (gs_trials st ! i))
                          (gt_X_test_split (gs_trials st ! i)) (gt_y_test_split (gs_trials st ! i))))
                  \<and> gt_model (gs_trials st ! i)
                      = gp_fit glib (gt_X_train (gs_trials st ! i))
                          (gt_y_train_std (gs_trials st ! i))
                  \<and> (gt_y_pred_std (gs_trials st ! i), gt_y_var (gs_trials st ! i))
                      = gp_posterior glib (gt_model (gs_trials st ! i))
                          (gt_X_test (gs_trials st ! i)))))
       \<and> ((\<forall>Xa ya Xb yb.
              fst (snd (td Xa ya Xb yb)) = fst (snd (transform_data glib Xa ya Xb yb))
            \<and> fst (snd (snd (snd (td Xa ya Xb yb))))
                = fst (snd (snd (snd (transform_data glib Xa ya Xb yb))))
            \<and> snd (snd (snd (snd (td Xa ya Xb yb))))
                = snd (snd (snd (snd (transform_data glib Xa ya Xb yb))))) \<longrightarrow>
           gp_evaluate_model (glib\<lparr>transform_data := td\<rparr>) n_trials_gp ts Xg yg gg
             = gp_evaluate_model glib n_trials_gp ts Xg yg gg)"
proof (intro conjI impI)
  assume a: "gp_ok glib \<and> gp_data_ok glib test_set_size Xg yg \<and> value_preserving glib
               \<and> 0 < n_trials_gp"
  then have vp: "value_preserving glib" by simp
  from gp_evaluate_model_run [of glib test_set_size Xg yg _ n_trials_gp gg, OF _ _ refl] a
  obtain r st where run: "gp_evaluate_model glib n_trials_gp test_set_size Xg yg gg = Inr (r, st)"
    and inv: "gp_inv glib test_set_size Xg yg n_trials_gp
                (n_test_samples glib test_set_size (length Xg)) n_trials_gp st"
    by blast
  note I = gp_invD [OF inv]
  have "gt_X_train_split (gs_trials st ! i)
                      = map (\<lambda>j. Xg ! j) (gt_ind_train (gs_trials st ! i))
                  \<and> gt_X_test_split (gs_trials st ! i)
                      = map (\<lambda>j. Xg ! j) (gt_ind_test (gs_trials st ! i))
                  \<and> gt_X_train (gs_trials st ! i)
                      = as_tensor glib (gt_X_train_split (gs_trials st ! i))
                  \<and> gt_X_test (gs_trials st ! i)
                      = as_tensor glib (gt_X_test_split (gs_trials st ! i))
                  \<and> map (map num_value) (gt_X_train (gs_trials st ! i))
                      = map (map num_value) (gt_X_train_split (gs_trials st ! i))
                  \<and> map (map num_value) (gt_X_test (gs_trials st ! i))
                      = map (map num_value) (gt_X_test_split (gs_trials st ! i))
                  \<and> list_all (list_all is_float64) (gt_X_train (gs_trials st ! i))
                  \<and> list_all (list_all is_float64) (gt_X_test (gs_trials st ! i))
                  \<and> gt_y_train_std (gs_trials st ! i)
                      = fst (snd (transform_data glib
                          (gt_X_train_split (gs_trials st ! i)) (gt_y_train_split (gs_trials st ! i))
                          (gt_X_test_split (gs_trials st ! i)) (gt_y_test_split (gs_trials st ! i))))
                  \<and> gt_model (gs_trials st ! i)
                      = gp_fit glib (gt_X_train (gs_trials st ! i))
                          (gt_y_train_std (gs_trials st ! i))
                  \<and> (gt_y_pred_std (gs_trials st ! i), gt_y_var (gs_trials st ! i))
                      = gp_posterior glib (gt_model (gs_trials st ! i))
                          (gt_X_test (gs_trials st ! i))"
    if i: "i < n_trials_gp" for i
  proof -
    define t where "t = gs_trials st ! i"
    have t: "gp_trial_ok glib test_set_size Xg yg i t" unfolding t_def by (rule I(2) [OF i])
    note D = gp_trial_okD [OF t]
    note V = train_test_split_value [OF D(2) [of gg] D(1) [of gg]]
    note P = value_preservingD [OF vp]
    have v: "map (map num_value) (gt_X_train t) = map (map num_value) (gt_X_train_split t)"
      "map (map num_value) (gt_X_test t) = map (map num_value) (gt_X_test_split t)"
      "list_all (list_all is_float64) (gt_X_train t)"
      "list_all (list_all is_float64) (gt_X_test t)"
      unfolding D(6) D(7) by (rule P)+
    show ?thesis
      unfolding t_def [symmetric]
      using V(1,2) D(6,7) v D(3) D(8) D(9) by blast
  qed
  then show "\<exists>r st. gp_evaluate_model glib n_trials_gp test_set_size Xg yg gg = Inr (r, st)
              \<and> length (gs_trials st) = n_trials_gp
              \<and> (\<forall>i<n_trials_gp.
                    gt_X_train_split (gs_trials st ! i)
                      = map (\<lambda>j. Xg ! j) (gt_ind_train (gs_trials st ! i))
                  \<and> gt_X_test_split (gs_trials st ! i)
                      = map (\<lambda>j. Xg ! j) (gt_ind_test (gs_trials st ! i))
                  \<and> gt_X_train (gs_trials st ! i)
                      = as_tensor glib (gt_X_train_split (gs_trials st ! i))
                  \<and> gt_X_test (gs_trials st ! i)
                      = as_tensor glib (gt_X_test_split (gs_trials st ! i))
                  \<and> map (map num_value) (gt_X_train (gs_trials st ! i))
                      = map (map num_value) (gt_X_train_split (gs_trials st ! i))
                  \<and> map (map num_value) (gt_X_test (gs_trials st ! i))
                      = map (map num_value) (gt_X_test_split (gs_trials st ! i))
                  \<and> list_all (list_all is_float64) (gt_X_train (gs_trials st ! i))
                  \<and> list_all (list_all is_float64) (gt_X_test (gs_trials st ! i))
                  \<and> gt_y_train_std (gs_trials st ! i)
                      = fst (snd (transform_data glib
                          (gt_X_train_split (gs_trials st ! i)) (gt_y_train_split (gs_trials st ! i))
                          (gt_X_test_split (gs_trials st ! i)) (gt_y_test_split (gs_trials st ! i))))
                  \<and> gt_model (gs_trials st ! i)
                      = gp_fit glib (gt_X_train (gs_trials st ! i))
                          (gt_y_train_std (gs_trials st ! i))
                  \<and> (gt_y_pred_std (gs_trials st ! i), gt_y_var (gs_trials st ! i))
                      = gp_posterior glib (gt_model (gs_trials st ! i))
                          (gt_X_test (gs_trials st ! i)))"
    using run I(1) by blast
next
  assume b: "\<forall>Xa ya Xb yb.
              fst (snd (td Xa ya Xb yb)) = fst (snd (transform_data glib Xa ya Xb yb))
            \<and> fst (snd (snd (snd (td Xa ya Xb yb))))
                = fst (snd (snd (snd (transform_data glib Xa ya Xb yb))))
            \<and> snd (snd (snd (snd (td Xa ya Xb yb))))
                = snd (snd (snd (snd (transform_data glib Xa ya Xb yb))))"
  show "gp_evaluate_model (glib\<lparr>transform_data := td\<rparr>) n_trials_gp ts Xg yg gg
          = gp_evaluate_model glib n_trials_gp ts Xg yg gg"
    by (rule gp_evaluate_model_frame) (use b in blast)
qed

theorem gp_standardization_changes_only_labels_witness:
  "gp_ok count_gp \<and> gp_data_ok count_gp test_set_size count_X toy_y \<and> value_preserving count_gp
     \<and> (0 :: nat) < gp_n_trials
     \<and> (\<exists>r st. gp_evaluate_model count_gp gp_n_trials test_set_size count_X toy_y 0 = Inr (r, st)
            \<and> map (map num_value) (gt_X_train (gs_trials st ! 0))
                = map (map num_value) (gt_X_train_split (gs_trials st ! 0))
            \<and> gt_X_train_split (gs_trials st ! 0)
                = map (\<lambda>j. count_X ! j) (gt_ind_train (gs_trials st ! 0))
            \<and> gt_model (gs_trials st ! 0)
                = gp_fit count_gp (gt_X_train (gs_trials st ! 0))
                    (gt_y_train_std (gs_trials st ! 0)))
     \<and> gp_evaluate_model (count_gp\<lparr>transform_data := \<lambda>Xa ya Xb yb. ([], ya, [], yb, ())\<rparr>)
           gp_n_trials test_set_size count_X toy_y 0
         = gp_evaluate_model count_gp gp_n_trials test_set_size count_X toy_y 0"
proof -
  note T = gp_standardization_changes_only_labels [where glib = count_gp
      and Xg = count_X and yg = toy_y and n_trials_gp = gp_n_trials and gg = 0
      and ts = test_set_size and td = "\<lambda>Xa ya Xb yb. ([], ya, [], yb, ())"]
  have n: "(0 :: nat) < gp_n_trials" by (simp add: gp_n_trials_def)
  from T [THEN conjunct1] count_gp_ok count_gp_data_ok count_gp_value_preserving n
  obtain r st where "gp_evaluate_model count_gp gp_n_trials test_set_size count_X toy_y 0 = Inr (r, st)"
    and "\<forall>i<gp_n_trials.
            map (map num_value) (gt_X_train (gs_trials st ! i))
                = map (map num_value) (gt_X_train_split (gs_trials st ! i))
          \<and> gt_X_train_split (gs_trials st ! i)
                = map (\<lambda>j. count_X ! j) (gt_ind_train (gs_trials st ! i))
          \<and> gt_model (gs_trials st ! i)
                = gp_fit count_gp (gt_X_train (gs_trials st ! i))
                    (gt_y_train_std (gs_trials st ! i))"
    by auto
  with n have 1: "\<exists>r st. gp_evaluate_model count_gp gp_n_trials test_set_size count_X toy_y 0 = Inr (r, st)
            \<and> map (map num_value) (gt_X_train (gs_trials st ! 0))
                = map (map num_value) (gt_X_train_split (gs_trials st ! 0))
            \<and> gt_X_train_split (gs_trials st ! 0)
                = map (\<lambda>j. count_X ! j) (gt_ind_train (gs_trials st ! 0))
            \<and> gt_model (gs_trials st ! 0)
                = gp_fit count_gp (gt_X_train (gs_trials st ! 0))
                    (gt_y_train_std (gs_trials st ! 0))"
    by blast
  have 2: "gp_evaluate_model (count_gp\<lparr>transform_data := \<lambda>Xa ya Xb yb. ([], ya, [], yb, ())\<rparr>)
           gp_n_trials test_set_size count_X toy_y 0
         = gp_evaluate_model count_gp gp_n_trials test_set_size count_X toy_y 0"
    by (rule T [THEN conjunct2, rule_format]) (simp add: count_gp_def)
  from 1 2 n count_gp_ok count_gp_data_ok count_gp_value_preserving show ?thesis by simp
qed

text \<open>
  With integer features (n-gram counts) the tensors given to the GP are not the arrays
  the split returned: \<open>astype(np.float64)\<close> stores the same values as floats.
\<close>

theorem float64_conversion_changes_bytes:
  "\<exists>r st. gp_evaluate_model count_gp 1 test_set_size count_X toy_y 0 = Inr (r, st)
      \<and> gt_X_train (gs_trials st ! 0) = as_tensor count_gp (gt_X_train_split (gs_trials st ! 0))
      \<and> gt_model (gs_trials st ! 0)
          = gp_fit count_gp (gt_X_train (gs_trials st ! 0)) (gt_y_train_std (gs_trials st ! 0))
      \<and> gt_X_train_split (gs_trials st ! 0) = map (\<lambda>j. [Int64 (int j)]) [8..<40]
      \<and> gt_X_train (gs_trials st ! 0) = map (\<lambda>j. [Float64 (real j)]) [8..<40]
      \<and> gt_X_train (gs_trials st ! 0) \<noteq> gt_X_train_split (gs_trials st ! 0)"
proof -
  from gp_evaluate_model_run [of count_gp test_set_size count_X toy_y _ 1 0,
      OF count_gp_ok count_gp_data_ok refl]
  obtain r st where run: "gp_evaluate_model count_gp 1 test_set_size count_X toy_y 0 = Inr (r, st)"
    and inv: "gp_inv count_gp test_set_size count_X toy_y 1
                (n_test_samples count_gp test_set_size (length count_X)) 1 st"
    by blast
  define t where "t = gs_trials st ! 0"
  have t: "gp_trial_ok count_gp test_set_size count_X toy_y 0 t"
    unfolding t_def by (rule gp_invD(2) [OF inv]) simp
  note D = gp_trial_okD [OF t]
  note S = split_indices_seeded_value [OF D(1) [of 0]]
  note V = train_test_split_value [OF D(2) [of 0] D(1) [of 0]]
  have nt: "n_test_samples count_gp test_set_size (length count_X) = 8"
    by (simp add: count_gp_def count_X_def test_set_size_def)
  have perm: "permutation count_gp 0 (length count_X) = [0..<40]"
    by (simp add: count_gp_def count_X_def)
  have it: "gt_ind_train t = [8..<40]"
    unfolding S(2) nt perm by (simp add: count_X_def)
  have sp: "gt_X_train_split t = map (\<lambda>j. [Int64 (int j)]) [8..<40]"
    unfolding V(1) it by (simp add: count_X_def)
  have tn: "gt_X_train t = map (\<lambda>j. [Float64 (real j)]) [8..<40]"
    unfolding D(6) sp by (simp add: count_gp_def astype_float64_def o_def)
  have "[Int64 8] \<in> set (gt_X_train_split t)" unfolding sp by (simp add: image_iff)
  moreover have "list_all (list_all is_float64) (gt_X_train t)"
    unfolding tn by (simp add: list_all_iff)
  ultimately have ne: "gt_X_train t \<noteq> gt_X_train_split t"
    by (intro astype_float64_changes_integers [of "[Int64 8]" _ 8]) simp_all
  from run D(6) D(8) sp tn ne show ?thesis unfolding t_def by blast
qed















lemma train_batches_foldl:
  "(fst (train_batches lib kb bs (m, r, g)), snd (snd (train_batches lib kb bs (m, r, g))))
     = foldl (\<lambda>(m, g) data. (fst (fst (train_step lib kb m data g)),
                                snd (train_step lib kb m data g))) (m, g) bs"
  by (induction bs arbitrary: m r g) (simp_all add: split_beta Let_def)

lemma run_epoch_training:
  assumes "run_epoch lib kb Gtr Gte tr ep s = Inr (s1, v)"
  shows "ls_model s1 =
          fst (foldl (\<lambda>(m, g) data. (fst (fst (train_step lib kb m data g)),
                                        snd (train_step lib kb m data g)))
                 (ls_model s, snd (dataloader_train lib Gtr (ls_rng s)))
                 (fst (dataloader_train lib Gtr (ls_rng s))))"
proof -
  from assms have "ls_model s1 = fst (train_batches lib kb (fst (dataloader_train lib Gtr (ls_rng s)))
            (ls_model s, \<lparr>running_kld_loss = 0, running_mse_loss = 0, running_loss = 0\<rparr>,
             snd (dataloader_train lib Gtr (ls_rng s))))"
    by (auto simp: run_epoch_def split_beta Let_def bindE_eq_Inr split: if_splits)
  then show ?thesis
    using train_batches_foldl [of lib kb "fst (dataloader_train lib Gtr (ls_rng s))" "ls_model s"
        "\<lparr>running_kld_loss = 0, running_mse_loss = 0, running_loss = 0\<rparr>"
        "snd (dataloader_train lib Gtr (ls_rng s))", symmetric]
    by simp
qed

lemma early_stopping_keeps:
  "ls_model (early_stopping s v) = ls_model s" "snapshots (early_stopping s v) = snapshots s"
  by (simp_all add: early_stopping_def)

lemma epoch_loop_trained:
  assumes "epoch_loop lib kb Gtr Gte tr ep k s = Inr (s', b)"
    and "trained lib kb Gtr m0 s"
    and "ls_model s = (if snapshots s = [] then m0 else last (snapshots s))"
  shows "trained lib kb Gtr m0 s'"
  using assms
proof (induction k arbitrary: s ep)
  case 0
  then show ?case by simp
next
  case (Suc k)
  from Suc.prems(1) obtain s1 v where re: "run_epoch lib kb Gtr Gte tr ep s = Inr (s1, v)"
    and rest: "(let s2 = early_stopping s1 v
                in if count s2 \<ge> patience then Inr (s2, True)
                   else epoch_loop lib kb Gtr Gte tr (Suc ep) k s2) = Inr (s', b)"
    by (cases "run_epoch lib kb Gtr Gte tr ep s") (auto simp: Let_def)
  define s2 where "s2 = early_stopping s1 v"
  note eff = run_epoch_effect [OF re]
  note tr = run_epoch_training [OF re]
  have S2: "snapshots s2 = snapshots s @ [ls_model s1]"
    and M2: "ls_model s2 = ls_model s1"
    by (simp_all add: s2_def early_stopping_keeps eff(2))
  have prev: "ls_model s = (if length (snapshots s) = 0 then m0
                            else snapshots s ! (length (snapshots s) - 1))"
    using Suc.prems(3) by (simp add: last_conv_nth)
  have t2: "trained lib kb Gtr m0 s2"
    unfolding trained_def S2
  proof (intro allI impI)
    fix e assume "e < length (snapshots s @ [ls_model s1])"
    then consider "e < length (snapshots s)" | "e = length (snapshots s)" by fastforce
    then show "\<exists>h. (snapshots s @ [ls_model s1]) ! e =
          fst (foldl (\<lambda>(m, g) data. (fst (fst (train_step lib kb m data g)),
                                        snd (train_step lib kb m data g)))
                 (if e = 0 then m0 else (snapshots s @ [ls_model s1]) ! (e - 1),
                  snd (dataloader_train lib Gtr h))
                 (fst (dataloader_train lib Gtr h)))"
    proof cases
      case 1
      then have lt: "e - 1 < length (snapshots s)" by simp
      have a: "(snapshots s @ [ls_model s1]) ! e = snapshots s ! e"
        using 1 by (simp add: nth_append)
      have b: "(if e = 0 then m0 else (snapshots s @ [ls_model s1]) ! (e - 1))
                = (if e = 0 then m0 else snapshots s ! (e - 1))"
        using nth_append [of "snapshots s" "[ls_model s1]" "e - 1"] lt by simp
      show ?thesis
        unfolding a b using Suc.prems(2) [unfolded trained_def, rule_format, OF 1] .
    next
      case 2
      have "(snapshots s @ [ls_model s1]) ! e = ls_model s1" using 2 by simp
      moreover have "(if e = 0 then m0 else (snapshots s @ [ls_model s1]) ! (e - 1)) = ls_model s"
        using 2 prev by (simp add: nth_append)
      ultimately show ?thesis using tr by auto
    qed
  qed
  have l2: "ls_model s2 = (if snapshots s2 = [] then m0 else last (snapshots s2))"
    by (simp add: S2 M2)
  show ?case
  proof (cases "count s2 \<ge> patience")
    case True
    with rest have "s' = s2" by (simp add: s2_def Let_def)
    with t2 show ?thesis by simp
  next
    case False
    with rest have el: "epoch_loop lib kb Gtr Gte tr (Suc ep) k s2 = Inr (s', b)"
      by (simp add: s2_def Let_def)
    show ?thesis by (rule Suc.IH [OF el t2 l2])
  qed
qed

lemma bnn_train_trained:
  assumes "bnn_train lib Gtr Gte n_epochs kb i g bm evs = Inr (model, s, b)"
  shows "trained lib kb Gtr (fst (init_model lib g)) s"
proof -
  define s0 where
    "s0 = \<lparr>ls_model = fst (init_model lib g), ls_rng = snd (init_model lib g),
           ls_status = Map.empty, best_loss = None, best_model = bm, count = 0,
           val_losses = [], snapshots = [], ls_events = evs\<rparr>"
  from assms have el: "epoch_loop lib kb Gtr Gte i 0 n_epochs s0 = Inr (s, b)"
    by (auto simp: bnn_train_def split_beta Let_def s0_def bindE_eq_Inr split: option.splits)
  have t0: "trained lib kb Gtr (fst (init_model lib g)) s0" by (simp add: trained_def s0_def)
  have m0: "ls_model s0 = (if snapshots s0 = [] then fst (init_model lib g) else last (snapshots s0))"
    by (simp add: s0_def)
  show ?thesis by (rule epoch_loop_trained [OF el t0 m0])
qed


lemma bnn_trial_dataflow:
  fixes lib :: "('x, 'm, 'sc, 'g, 'z) bnn_lib_scheme" and t :: "('x, 'm, 'sc, 'g) bnn_trial"
  assumes ok: "bnn_trial_ok lib X y n_epochs kb i t" and pos: "0 < n_epochs"
  defines "N \<equiv> snapshots (bt_loop t)" and "L \<equiv> val_losses (bt_loop t)"
    and "G_train \<equiv> graph_append_label (bt_X_train t) (bt_y_train_std t)"
    and "G_test \<equiv> graph_append_label (bt_X_test t) (bt_y_test_std t)"
  shows "N \<noteq> []" and "length N \<le> n_epochs" and "length L = length N"
    and "\<exists>g0. \<forall>e<length N. \<exists>h.
           N ! e = fst (foldl (\<lambda>(m, g) data. (fst (fst (train_step lib kb m data g)),
                                          snd (train_step lib kb m data g)))
                          (if e = 0 then fst (init_model lib g0) else N ! (e - 1),
                           snd (dataloader_train lib G_train h))
                          (fst (dataloader_train lib G_train h)))"
    and "\<forall>e<length N. \<exists>h yp yv h'.
           predict (forward lib) (N ! e) G_test default_samples h = Inr ((yp, yv), h')
         \<and> L ! e = mse_loss yp (map snd G_test)"
    and "bt_model t = eval_mode lib (N ! argmin_first L)"
    and "argmin_first L < length N"
proof -
  note D = bnn_trial_okD [OF ok]
  from D(6) obtain g bm evs where
    tr: "bnn_train lib G_train G_test n_epochs kb i g bm evs
           = Inr (bt_best_model t, bt_loop t, bt_break t)"
    unfolding G_train_def G_test_def by blast
  note T = bnn_train_Inr [OF tr, folded L_def]
  note U = bnn_train_trace [OF tr]
  note W = bnn_train_trained [OF tr]
  have ne: "L \<noteq> []" by (rule T(7) [OF pos])
  have len: "length N = length L"
    using T(1) unfolding loop_inv_def Let_def N_def L_def by blast
  show "N \<noteq> []" using ne len by auto
  show "length N \<le> n_epochs" using T(2) len by simp
  show "length L = length N" using len by simp
  show "\<exists>g0. \<forall>e<length N. \<exists>h.
           N ! e = fst (foldl (\<lambda>(m, g) data. (fst (fst (train_step lib kb m data g)),
                                          snd (train_step lib kb m data g)))
                          (if e = 0 then fst (init_model lib g0) else N ! (e - 1),
                           snd (dataloader_train lib G_train h))
                          (fst (dataloader_train lib G_train h)))"
    using W unfolding trained_def N_def by blast
  show "\<forall>e<length N. \<exists>h yp yv h'.
           predict (forward lib) (N ! e) G_test default_samples h = Inr ((yp, yv), h')
         \<and> L ! e = mse_loss yp (map snd G_test)"
    using U(1) len unfolding validated_def N_def L_def by simp
  show "bt_model t = eval_mode lib (N ! argmin_first L)"
    unfolding D(13) T(8) [OF pos] N_def ..
  show "argmin_first L < length N" using argmin_first_props(1) [OF ne] len by simp
qed


























text \<open>
  Claim C1 (amended): in every trial of the Bayesian GNN \<open>evaluate_model\<close> whose
  validation losses are finite numbers, with \<open>L\<close> the validation losses of the epochs
  that ran (\<open>L ! e\<close> is the test-set MSE of the network as it was after the training
  pass of epoch \<open>e\<close>, one optimizer step on every batch of the training graphs), the
  counter is the number of epochs since the last strict improvement on the best loss
  seen so far, and the loop is left by \<open>break\<close> exactly when \<open>patience = 50\<close>
  consecutive epochs have passed without such an improvement; it is left at the end of
  the first epoch that completes such a run of 50, so that fewer than \<open>n_epochs\<close>
  epochs run exactly when that epoch is not the last one, and all \<open>n_epochs\<close> epochs
  run otherwise. The model of the final test-set prediction is the
  copy of the network taken at the first epoch that reached the lowest validation loss,
  switched to evaluation mode.
\<close>

theorem early_stopping_and_best_model:
  fixes lib :: "('x, 'm, 'sc, 'g, 'z) bnn_lib_scheme"
  shows "(bnn_ok lib \<and> bnn_data_ok lib X y \<and> 0 < n_epochs \<and> 0 < n_trials \<longrightarrow>
           (\<exists>r st. bnn_evaluate_model lib X y n_epochs n_trials kld_beta g = Inr (r, st)
              \<and> length (bs_trials st) = n_trials
              \<and> (\<forall>i<n_trials.
                   let t = bs_trials st ! i; s = bt_loop t; L = val_losses s;
                       G_test = graph_append_label (bt_X_test t) (bt_y_test_std t)
                   in L \<noteq> [] \<and> length L \<le> n_epochs \<and> length (snapshots s) = length L
                    \<and> (\<exists>g0. \<forall>e<length (snapshots s). \<exists>h.
                          snapshots s ! e =
                            fst (foldl (\<lambda>(m, g) data.
                                          (fst (fst (train_step lib kld_beta m data g)),
                                           snd (train_step lib kld_beta m data g)))
                                   (if e = 0 then fst (init_model lib g0) else snapshots s ! (e - 1),
                                    snd (dataloader_train lib
                                           (graph_append_label (bt_X_train t) (bt_y_train_std t)) h))
                                   (fst (dataloader_train lib
                                           (graph_append_label (bt_X_train t) (bt_y_train_std t)) h))))
                    \<and> (\<forall>e<length L. \<exists>h yp yv h'.
                          predict (forward lib) (snapshots s ! e) G_test default_samples h
                            = Inr ((yp, yv), h')
                        \<and> L ! e = mse_loss yp (map snd G_test))
                    \<and> (bt_break t \<longleftrightarrow> (\<exists>e. stale_window L e))
                    \<and> (\<forall>e. stale_window L e \<longrightarrow> e + 1 = length L)
                    \<and> (length L < n_epochs \<longleftrightarrow> (\<exists>e. stale_window L e \<and> e + 1 < n_epochs))
                    \<and> (\<not> bt_break t \<longrightarrow> length L = n_epochs)
                    \<and> count s < length L \<and> improves L (length L - 1 - count s)
                    \<and> (\<forall>j. length L - count s \<le> j \<and> j < length L \<longrightarrow> \<not> improves L j)
                    \<and> bt_best_model t = snapshots s ! argmin_first L
                    \<and> bt_model t = eval_mode lib (bt_best_model t)
                    \<and> argmin_first L < length L \<and> L ! argmin_first L = Min (set L)
                    \<and> (\<forall>j<argmin_first L. Min (set L) < L ! j)
                    \<and> (\<exists>h'. predict (forward lib) (bt_model t) G_test 100 (ls_rng s)
                                = Inr ((bt_y_pred_std t, bt_y_var t), h')))))
       \<and> patience = 50
       \<and> (\<forall>L j. improves L j \<longleftrightarrow> j = 0 \<or> L ! j < Min (set (take j L)))
       \<and> (\<forall>L e. stale_window L e \<longleftrightarrow>
             patience \<le> e + 1 \<and> e < length L
           \<and> (\<forall>j. e + 1 - patience \<le> j \<and> j \<le> e \<longrightarrow> \<not> improves L j))"
proof (intro conjI impI)
  assume a: "bnn_ok lib \<and> bnn_data_ok lib X y \<and> 0 < n_epochs \<and> 0 < n_trials"
  then have pos: "0 < n_epochs" by simp
  from bnn_evaluate_model_run [of lib X y n_epochs _ n_trials kld_beta g, OF _ _ _ refl] a
  obtain r st where run: "bnn_evaluate_model lib X y n_epochs n_trials kld_beta g = Inr (r, st)"
    and inv: "bnn_inv lib X y n_epochs kld_beta n_trials
                (n_test_samples lib test_set_size (length X)) n_trials st"
    by blast
  note I = bnn_invD [OF inv]
  have "let t = bs_trials st ! i; s = bt_loop t; L = val_losses s;
                       G_test = graph_append_label (bt_X_test t) (bt_y_test_std t)
                   in L \<noteq> [] \<and> length L \<le> n_epochs \<and> length (snapshots s) = length L
                    \<and> (\<exists>g0. \<forall>e<length (snapshots s). \<exists>h.
                          snapshots s ! e =
                            fst (foldl (\<lambda>(m, g) data.
                                          (fst (fst (train_step lib kld_beta m data g)),
                                           snd (train_step lib kld_beta m data g)))
                                   (if e = 0 then fst (init_model lib g0) else snapshots s ! (e - 1),
                                    snd (dataloader_train lib
                                           (graph_append_label (bt_X_train t) (bt_y_train_std t)) h))
                                   (fst (dataloader_train lib
                                           (graph_append_label (bt_X_train t) (bt_y_train_std t)) h))))
                    \<and> (\<forall>e<length L. \<exists>h yp yv h'.
                          predict (forward lib) (snapshots s ! e) G_test default_samples h
                            = Inr ((yp, yv), h')
                        \<and> L ! e = mse_loss yp (map snd G_test))
                    \<and> (bt_break t \<longleftrightarrow> (\<exists>e. stale_window L e))
                    \<and> (\<forall>e. stale_window L e \<longrightarrow> e + 1 = length L)
                    \<and> (length L < n_epochs \<longleftrightarrow> (\<exists>e. stale_window L e \<and> e + 1 < n_epochs))
                    \<and> (\<not> bt_break t \<longrightarrow> length L = n_epochs)
                    \<and> count s < length L \<and> improves L (length L - 1 - count s)
                    \<and> (\<forall>j. length L - count s \<le> j \<and> j < length L \<longrightarrow> \<not> improves L j)
                    \<and> bt_best_model t = snapshots s ! argmin_first L
                    \<and> bt_model t = eval_mode lib (bt_best_model t)
                    \<and> argmin_first L < length L \<and> L ! argmin_first L = Min (set L)
                    \<and> (\<forall>j<argmin_first L. Min (set L) < L ! j)
                    \<and> (\<exists>h'. predict (forward lib) (bt_model t) G_test 100 (ls_rng s)
                                = Inr ((bt_y_pred_std t, bt_y_var t), h'))"
    if i: "i < n_trials" for i
  proof -
    note E = bnn_trial_early_stopping [OF I(2) [OF i] pos]
    note F = bnn_trial_dataflow [OF I(2) [OF i] pos]
    show ?thesis
      unfolding Let_def
      by (intro conjI E(1-3) F(4) E(4) [unfolded validated_def] E(5-17))
  qed
  then show "\<exists>r st. bnn_evaluate_model lib X y n_epochs n_trials kld_beta g = Inr (r, st)
              \<and> length (bs_trials st) = n_trials
              \<and> (\<forall>i<n_trials.
                   let t = bs_trials st ! i; s = bt_loop t; L = val_losses s;
                       G_test = graph_append_label (bt_X_test t) (bt_y_test_std t)
                   in L \<noteq> [] \<and> length L \<le> n_epochs \<and> length (snapshots s) = length L
                    \<and> (\<exists>g0. \<forall>e<length (snapshots s). \<exists>h.
                          snapshots s ! e =
                            fst (foldl (\<lambda>(m, g) data.
                                          (fst (fst (train_step lib kld_beta m data g)),
                                           snd (train_step lib kld_beta m data g)))
                                   (if e = 0 then fst (init_model lib g0) else snapshots s ! (e - 1),
                                    snd (dataloader_train lib
                                           (graph_append_label (bt_X_train t) (bt_y_train_std t)) h))
                                   (fst (dataloader_train lib
                                           (graph_append_label (bt_X_train t) (bt_y_train_std t)) h))))
                    \<and> (\<forall>e<length L. \<exists>h yp yv h'.
                          predict (forward lib) (snapshots s ! e) G_test default_samples h
                            = Inr ((yp, yv), h')
                        \<and> L ! e = mse_loss yp (map snd G_test))
                    \<and> (bt_break t \<longleftrightarrow> (\<exists>e. stale_window L e))
                    \<and> (\<forall>e. stale_window L e \<longrightarrow> e + 1 = length L)
                    \<and> (length L < n_epochs \<longleftrightarrow> (\<exists>e. stale_window L e \<and> e + 1 < n_epochs))
                    \<and> (\<not> bt_break t \<longrightarrow> length L = n_epochs)
                    \<and> count s < length L \<and> improves L (length L - 1 - count s)
                    \<and> (\<forall>j. length L - count s \<le> j \<and> j < length L \<longrightarrow> \<not> improves L j)
                    \<and> bt_best_model t = snapshots s ! argmin_first L
                    \<and> bt_model t = eval_mode lib (bt_best_model t)
                    \<and> argmin_first L < length L \<and> L ! argmin_first L = Min (set L)
                    \<and> (\<forall>j<argmin_first L. Min (set L) < L ! j)
                    \<and> (\<exists>h'. predict (forward lib) (bt_model t) G_test 100 (ls_rng s)
                                = Inr ((bt_y_pred_std t, bt_y_var t), h')))"
    using run I(1) by blast
next
  show "patience = 50" by (simp add: patience_def)
  show "\<forall>L j. improves L j \<longleftrightarrow> j = 0 \<or> L ! j < Min (set (take j L))"
    using improves_iff by blast
  show "\<forall>L e. stale_window L e \<longleftrightarrow>
             patience \<le> e + 1 \<and> e < length L
           \<and> (\<forall>j. e + 1 - patience \<le> j \<and> j \<le> e \<longrightarrow> \<not> improves L j)"
    using stale_window_iff by blast
qed

theorem early_stopping_and_best_model_witness:
  "bnn_ok plateau_bnn \<and> bnn_data_ok plateau_bnn toy_X toy_y \<and> (0 :: nat) < 60 \<and> (0 :: nat) < 1
     \<and> (\<exists>r st. bnn_evaluate_model plateau_bnn toy_X toy_y 60 1 1 0 = Inr (r, st)
            \<and> bt_break (bs_trials st ! 0)
            \<and> length (val_losses (bt_loop (bs_trials st ! 0))) = 51
            \<and> bt_best_model (bs_trials st ! 0)
                = snapshots (bt_loop (bs_trials st ! 0))
                    ! argmin_first (val_losses (bt_loop (bs_trials st ! 0)))
            \<and> bt_model (bs_trials st ! 0)
                = eval_mode plateau_bnn (bt_best_model (bs_trials st ! 0)))"
proof -
  note T = early_stopping_and_best_model [where lib = plateau_bnn and X = toy_X and y = toy_y
      and n_epochs = 60 and n_trials = 1 and kld_beta = 1 and g = 0]
  from T [THEN conjunct1] plateau_bnn_ok plateau_bnn_data_ok
  obtain r st where run: "bnn_evaluate_model plateau_bnn toy_X toy_y 60 1 1 0 = Inr (r, st)"
    and all: "\<forall>i<1.
        let t = bs_trials st ! i; s = bt_loop t; L = val_losses s;
            G_test = graph_append_label (bt_X_test t) (bt_y_test_std t)
        in length L \<le> 60
         \<and> (\<forall>e<length L. \<exists>h yp yv h'.
               predict (forward plateau_bnn) (snapshots s ! e) G_test default_samples h
                 = Inr ((yp, yv), h')
             \<and> L ! e = mse_loss yp (map snd G_test))
         \<and> (bt_break t \<longleftrightarrow> (\<exists>e. stale_window L e))
         \<and> (\<forall>e. stale_window L e \<longrightarrow> e + 1 = length L)
         \<and> (\<not> bt_break t \<longrightarrow> length L = 60)
         \<and> bt_best_model t = snapshots s ! argmin_first L
         \<and> bt_model t = eval_mode plateau_bnn (bt_best_model t)"
    unfolding Let_def by auto
  define t where "t = bs_trials st ! 0"
  define L where "L = val_losses (bt_loop t)"
  define G where "G = graph_append_label (bt_X_test t) (bt_y_test_std t)"
  from all have le: "length L \<le> 60"
    and val: "validated plateau_bnn G (bt_loop t)"
    and br: "bt_break t \<longleftrightarrow> (\<exists>e. stale_window L e)"
    and first: "\<And>e. stale_window L e \<Longrightarrow> e + 1 = length L"
    and nb: "\<not> bt_break t \<Longrightarrow> length L = 60"
    and bm: "bt_best_model t = snapshots (bt_loop t) ! argmin_first L"
      "bt_model t = eval_mode plateau_bnn (bt_best_model t)"
    unfolding Let_def L_def t_def G_def validated_def by auto
  have ni: "\<not> improves L j" if "0 < j" "j < length L" for j
    using constant_losses_improve_once [OF _ that] plateau_losses [OF val]
    unfolding L_def by blast
  have w: "stale_window L 50" if "50 < length L"
    unfolding stale_window_iff using that ni by (simp add: patience_def)
  have b: "bt_break t"
  proof (rule ccontr)
    assume "\<not> bt_break t"
    with nb br w show False by auto
  qed
  with br obtain e where e: "stale_window L e" by blast
  from e have p: "patience \<le> e + 1" "e < length L"
    and q: "\<And>j. e + 1 - patience \<le> j \<Longrightarrow> j \<le> e \<Longrightarrow> \<not> improves L j"
    unfolding stale_window_iff by blast+
  have "improves L 0" by (simp add: improves_iff)
  with q [of 0] have "\<not> e + 1 - patience \<le> 0" by blast
  then have "50 < length L" using p by (simp add: patience_def)
  from first [OF w [OF this]] have len: "length L = 51" by simp
  from run b len bm
  have "\<exists>r st. bnn_evaluate_model plateau_bnn toy_X toy_y 60 1 1 0 = Inr (r, st)
            \<and> bt_break (bs_trials st ! 0)
            \<and> length (val_losses (bt_loop (bs_trials st ! 0))) = 51
            \<and> bt_best_model (bs_trials st ! 0)
                = snapshots (bt_loop (bs_trials st ! 0))
                    ! argmin_first (val_losses (bt_loop (bs_trials st ! 0)))
            \<and> bt_model (bs_trials st ! 0)
                = eval_mode plateau_bnn (bt_best_model (bs_trials st ! 0))"
    unfolding L_def t_def by blast
  with plateau_bnn_ok plateau_bnn_data_ok show ?thesis by simp
qed

text \<open>
  The boundary of early stopping: with \<open>n_epochs = 51\<close> and a validation loss that
  improves in the first epoch only, the epochs \<open>1, ..., 50\<close> are 50 consecutive epochs
  without an improvement and the \<open>break\<close> is taken at the end of epoch \<open>50\<close>, the last
  one: all \<open>n_epochs\<close> epochs have run.
\<close>

theorem early_stop_at_last_epoch:
  "\<exists>r st. bnn_evaluate_model plateau_bnn toy_X toy_y 51 1 1 0 = Inr (r, st)
      \<and> length (val_losses (bt_loop (bs_trials st ! 0))) = 51
      \<and> stale_window (val_losses (bt_loop (bs_trials st ! 0))) 50
      \<and> bt_break (bs_trials st ! 0)"
proof -
  from bnn_evaluate_model_run [of plateau_bnn toy_X toy_y 51 _ 1 1 0,
      OF plateau_bnn_ok plateau_bnn_data_ok _ refl]
  obtain r st where run: "bnn_evaluate_model plateau_bnn toy_X toy_y 51 1 1 0 = Inr (r, st)"
    and inv: "bnn_inv plateau_bnn toy_X toy_y 51 1 1
                (n_test_samples plateau_bnn test_set_size (length toy_X)) 1 st"
    by auto
  define t where "t = bs_trials st ! 0"
  define L where "L = val_losses (bt_loop t)"
  have ok: "bnn_trial_ok plateau_bnn toy_X toy_y 51 1 0 t"
    unfolding t_def by (rule bnn_invD(2) [OF inv]) simp
  from bnn_trial_okD(6) [OF ok] obtain Gtr g bm evs where
    tr: "bnn_train plateau_bnn Gtr (graph_append_label (bt_X_test t) (bt_y_test_std t)) 51 1 0 g bm evs
           = Inr (bt_best_model t, bt_loop t, bt_break t)"
    by blast
  note T = bnn_train_Inr [OF tr, folded L_def]
  note U = bnn_train_trace [OF tr, folded L_def]
  have ni: "\<not> improves L j" if "0 < j" "j < length L" for j
    using constant_losses_improve_once [OF _ that] plateau_losses [OF U(1)]
    unfolding L_def by blast
  have le: "length L \<le> 51" by (rule T(2))
  have w: "stale_window L 50" if "length L = 51"
    unfolding stale_window_iff using that ni by (simp add: patience_def)
  have b: "bt_break t"
  proof (rule ccontr)
    assume nb: "\<not> bt_break t"
    from T(3) [OF nb] have "length L = 51" .
    with w T(4) [OF nb] show False by blast
  qed
  have len: "length L = 51"
  proof -
    from T(5) [OF b] have p: "patience \<le> length L - 1 + 1"
      and q: "\<And>j. length L - 1 + 1 - patience \<le> j \<Longrightarrow> j \<le> length L - 1 \<Longrightarrow> \<not> improves L j"
      unfolding stale_window_iff by blast+
    have "improves L 0" by (simp add: improves_iff)
    with q [of 0] have "\<not> length L - 1 + 1 - patience \<le> 0" by blast
    then show ?thesis using le by (simp add: patience_def)
  qed
  from run len w [OF len] b show ?thesis unfolding L_def t_def by blast
qed

end
